theory Spec2Isabelle
  imports Main
begin

section \<open>Values, exceptions and the cursor the inserters are written against\<close>

text \<open>
  The four functions of \<^verbatim>\<open>pgncdb/inserts.py\<close> receive a psycopg2 cursor and a list of
  tuples.  Everything they do goes through five members of the cursor:
  \<^verbatim>\<open>executemany\<close>, \<^verbatim>\<open>execute\<close>, \<^verbatim>\<open>fetchone\<close>, \<^verbatim>\<open>fetchall\<close> and the attribute
  \<^verbatim>\<open>rowcount\<close>.  The cursor is therefore a parameter of the embedding: a record of
  these five operations over a state type \<open>'c\<close>.  A reference relational store that
  implements the record is defined further down.
\<close>

datatype val = IntV int | StrV string

type_synonym row = "val list"

text \<open>
  \<^verbatim>\<open>psycopg2.errors.lookup('23505')\<close> is the class \<open>UniqueViolation\<close>; it is a subclass
  of \<^verbatim>\<open>psycopg2.Error\<close>.  Every other subclass of \<^verbatim>\<open>psycopg2.Error\<close> is
  \<open>OtherDatabaseError\<close>.  These are the exceptions an operation of the cursor can
  raise.
\<close>

datatype pg_error = UniqueViolation | OtherDatabaseError

text \<open>
  The statements that occur in the source, in the order of the file.  The SQL text of
  each one is quoted where the reference store gives it a meaning.
\<close>

datatype sql =
    Insert_gene_has_location
  | Select_gene_has_location
  | Select_gene_location
  | Insert_gene_has_locus_type
  | Select_gene_has_locus_type
  | Select_gene_locus_type
  | Insert_name
  | Insert_gene_has_name
  | Select_gene_has_name
  | Select_gene_name
  | Insert_symbol
  | Insert_gene_has_symbol
  | Select_gene_has_symbol
  | Select_gene_symbol

text \<open>
  The texts of the exceptions the source raises, kept as structured values: which
  message it is and the values interpolated into it.
\<close>

datatype message =
    Pair_already_exists string
  | Literal_already_exists string
  | Problem_inserting val string string
  | No_missing_entries

datatype exn =
    ValueError message
  | RuntimeError message
  | DatabaseError pg_error
  | TypeError
  | IndexError

record 'c cursor =
  executemany :: "sql \<Rightarrow> val list list \<Rightarrow> 'c \<Rightarrow> pg_error option \<times> 'c"
  execute :: "sql \<Rightarrow> val list \<Rightarrow> 'c \<Rightarrow> pg_error option \<times> 'c"
  fetchone :: "'c \<Rightarrow> (pg_error + row option) \<times> 'c"
  fetchall :: "'c \<Rightarrow> (pg_error + row list) \<times> 'c"
  rowcount :: "'c \<Rightarrow> int"

text \<open>
  What a call of one of the inserters can be observed to do: the state of the cursor,
  the calls made on the cursor (as a mock records them) and the messages passed to
  \<^verbatim>\<open>logging.warning\<close>.
\<close>

datatype call =
    Executemany sql "val list list"
  | Execute sql "val list"
  | Fetchone
  | Fetchall

record 'c env =
  cur :: 'c
  calls :: "call list"
  warnings :: "string list"

definition call_executemany ::
  "'c cursor \<Rightarrow> sql \<Rightarrow> val list list \<Rightarrow> 'c env \<Rightarrow> pg_error option \<times> 'c env" where
  "call_executemany api q pss e =
     (case executemany api q pss (cur e) of
        (r, c) \<Rightarrow> (r, e\<lparr>cur := c, calls := calls e @ [Executemany q pss]\<rparr>))"

definition call_execute ::
  "'c cursor \<Rightarrow> sql \<Rightarrow> val list \<Rightarrow> 'c env \<Rightarrow> pg_error option \<times> 'c env" where
  "call_execute api q ps e =
     (case execute api q ps (cur e) of
        (r, c) \<Rightarrow> (r, e\<lparr>cur := c, calls := calls e @ [Execute q ps]\<rparr>))"

definition call_fetchone :: "'c cursor \<Rightarrow> 'c env \<Rightarrow> (pg_error + row option) \<times> 'c env" where
  "call_fetchone api e =
     (case fetchone api (cur e) of
        (r, c) \<Rightarrow> (r, e\<lparr>cur := c, calls := calls e @ [Fetchone]\<rparr>))"

definition call_fetchall :: "'c cursor \<Rightarrow> 'c env \<Rightarrow> (pg_error + row list) \<times> 'c env" where
  "call_fetchall api e =
     (case fetchall api (cur e) of
        (r, c) \<Rightarrow> (r, e\<lparr>cur := c, calls := calls e @ [Fetchall]\<rparr>))"

definition warning :: "string \<Rightarrow> 'c env \<Rightarrow> 'c env" where
  "warning msg e = e\<lparr>warnings := warnings e @ [msg]\<rparr>"

text \<open>
  \<^verbatim>\<open>except psycopg2.errors.lookup('23505') as e: raise ValueError(...) from e\<close>:
  a uniqueness violation becomes the \<^verbatim>\<open>ValueError\<close>, any other database error is not
  caught and propagates as it is.
\<close>

definition except_23505 :: "message \<Rightarrow> pg_error \<Rightarrow> exn" where
  "except_23505 msg err =
     (case err of UniqueViolation \<Rightarrow> ValueError msg | OtherDatabaseError \<Rightarrow> DatabaseError err)"

section \<open>String formatting of the warning\<close>

definition newline :: string where
  "newline = [CHR 0x0A]"

fun join :: "string \<Rightarrow> string list \<Rightarrow> string" where
  "join sep [] = []"
| "join sep [x] = x"
| "join sep (x # y # ys) = x @ sep @ join sep (y # ys)"

text \<open>\<^verbatim>\<open>f'({gene_id}, {location_name})'\<close>\<close>

definition show_pair :: "string \<times> string \<Rightarrow> string" where
  "show_pair p = ''('' @ fst p @ '', '' @ snd p @ '')''"

text \<open>
  \<^verbatim>\<open>'\n'.join([header, sep.join([f'({a}, {b})' for a, b in unsuccessful_inserts])])\<close>
\<close>

definition not_inserted_message :: "string \<Rightarrow> string \<Rightarrow> (string \<times> string) list \<Rightarrow> string" where
  "not_inserted_message header sep unsuccessful_inserts =
     join newline [header, join sep (map show_pair unsuccessful_inserts)]"

section \<open>The reconciliation loop shared by the four functions\<close>

text \<open>
  \<^verbatim>\<open>result not in inserted_set\<close>: \<^verbatim>\<open>fetchone\<close> gives a tuple or \<^verbatim>\<open>None\<close>, and
  \<^verbatim>\<open>None\<close> is never a member of a set of tuples.
\<close>

definition not_in :: "row option \<Rightarrow> row set \<Rightarrow> bool" where
  "not_in result inserted_set =
     (case result of None \<Rightarrow> True | Some r \<Rightarrow> r \<notin> inserted_set)"

text \<open>
  \<^verbatim>\<open>
  unsuccessful_inserts = []
  for gene_id, location_name in data:
      cur.execute(SELECT ..., (gene_id, location_name))
      result = cur.fetchone()
      if result not in inserted_set:
          unsuccessful_inserts.append((gene_id, location_name))
  \<close>
  The loop has the same body in the four functions, up to the statement executed.
  \<open>unsuccessful_step\<close> is one pass through the body, \<open>unsuccessful_loop\<close> the loop;
  the accumulator is the list built so far.
\<close>

definition unsuccessful_step ::
  "'c cursor \<Rightarrow> sql \<Rightarrow> row set \<Rightarrow> string \<times> string \<Rightarrow> (string \<times> string) list \<Rightarrow>
   'c env \<Rightarrow> (exn + (string \<times> string) list) \<times> 'c env" where
  "unsuccessful_step api q inserted_set item unsuccessful_inserts e =
     (case call_execute api q [StrV (fst item), StrV (snd item)] e of
        (Some err, e1) \<Rightarrow> (Inl (DatabaseError err), e1)
      | (None, e1) \<Rightarrow>
          (case call_fetchone api e1 of
             (Inl err, e2) \<Rightarrow> (Inl (DatabaseError err), e2)
           | (Inr result, e2) \<Rightarrow>
               (Inr (if not_in result inserted_set
                     then unsuccessful_inserts @ [item] else unsuccessful_inserts), e2)))"

fun unsuccessful_loop ::
  "'c cursor \<Rightarrow> sql \<Rightarrow> row set \<Rightarrow> (string \<times> string) list \<Rightarrow> (string \<times> string) list \<Rightarrow>
   'c env \<Rightarrow> (exn + (string \<times> string) list) \<times> 'c env" where
  "unsuccessful_loop api q inserted_set [] unsuccessful_inserts e =
     (Inr unsuccessful_inserts, e)"
| "unsuccessful_loop api q inserted_set (item # rest) unsuccessful_inserts e =
     (case unsuccessful_step api q inserted_set item unsuccessful_inserts e of
        (Inl x, e1) \<Rightarrow> (Inl x, e1)
      | (Inr unsuccessful_inserts1, e1) \<Rightarrow>
          unsuccessful_loop api q inserted_set rest unsuccessful_inserts1 e1)"

text \<open>
  The part of each function from \<^verbatim>\<open>cur.execute('SELECT gene_id, ..._id FROM ...')\<close> to
  its end: read the persisted pairs, run the loop, then warn and return when the list
  is not empty and raise \<^verbatim>\<open>RuntimeError\<close> when it is.
\<close>

definition reconcile ::
  "'c cursor \<Rightarrow> sql \<Rightarrow> sql \<Rightarrow> string \<Rightarrow> string \<Rightarrow> (string \<times> string) list \<Rightarrow>
   'c env \<Rightarrow> (exn + unit) \<times> 'c env" where
  "reconcile api select_all select_one header sep items e =
     (case call_execute api select_all [] e of
        (Some err, e1) \<Rightarrow> (Inl (DatabaseError err), e1)
      | (None, e1) \<Rightarrow>
          (case call_fetchall api e1 of
             (Inl err, e2) \<Rightarrow> (Inl (DatabaseError err), e2)
           | (Inr inserted_rows, e2) \<Rightarrow>
               (case unsuccessful_loop api select_one (set inserted_rows) items [] e2 of
                  (Inl x, e3) \<Rightarrow> (Inl x, e3)
                | (Inr unsuccessful_inserts, e3) \<Rightarrow>
                    if unsuccessful_inserts \<noteq> []
                    then (Inr (), warning (not_inserted_message header sep unsuccessful_inserts) e3)
                    else (Inl (RuntimeError No_missing_entries), e3))))"

section \<open>The joined bulk inserters\<close>

definition pair_params :: "string \<times> string \<Rightarrow> val list" where
  "pair_params item = [StrV (fst item), StrV (snd item)]"

definition add_gene_location ::
  "'c cursor \<Rightarrow> (string \<times> string) list \<Rightarrow> 'c env \<Rightarrow> (exn + unit) \<times> 'c env" where
  "add_gene_location api data e =
     (case call_executemany api Insert_gene_has_location (map pair_params data) e of
        (Some err, e1) \<Rightarrow>
          (Inl (except_23505 (Pair_already_exists ''gene_has_location'') err), e1)
      | (None, e1) \<Rightarrow>
          (let affected_rows = rowcount api (cur e1) in
           if affected_rows = int (length data) then (Inr (), e1)
           else reconcile api Select_gene_has_location Select_gene_location
                  ''The following rows were not inserted into the gene_has_location table:''
                  (newline @ '' '') data e1))"

definition add_gene_locus_type ::
  "'c cursor \<Rightarrow> (string \<times> string) list \<Rightarrow> 'c env \<Rightarrow> (exn + unit) \<times> 'c env" where
  "add_gene_locus_type api data e =
     (case call_executemany api Insert_gene_has_locus_type (map pair_params data) e of
        (Some err, e1) \<Rightarrow>
          (Inl (except_23505 (Pair_already_exists ''gene_has_locus_type'') err), e1)
      | (None, e1) \<Rightarrow>
          (let affected_rows = rowcount api (cur e1) in
           if affected_rows = int (length data) then (Inr (), e1)
           else reconcile api Select_gene_has_locus_type Select_gene_locus_type
                  ''The following rows were not inserted into the gene_has_locus_type table:''
                  newline data e1))"

section \<open>The create-then-link inserters\<close>

text \<open>
  \<^verbatim>\<open>
  cnt = 0
  for potri_id, name, name_type in data:
      try:
          cur.execute(INSERT INTO name (name) VALUES (%s) RETURNING id, (name,))
          name_id = cur.fetchone()[0]
      except psycopg2.errors.lookup('23505') as e:
          raise ValueError(...) from e
      try:
          cur.execute(INSERT INTO gene_has_name ..., (name_id, name_type, potri_id))
          cnt += cur.rowcount
      except psycopg2.Error as e:
          raise RuntimeError(...) from e
  \<close>
  \<^verbatim>\<open>fetchone()[0]\<close> raises \<^verbatim>\<open>TypeError\<close> on \<^verbatim>\<open>None\<close> and \<^verbatim>\<open>IndexError\<close> on an empty
  tuple; neither is caught by the first handler.  The second handler catches every
  \<^verbatim>\<open>psycopg2.Error\<close>.  The loop of \<^verbatim>\<open>add_gene_symbol\<close> is the same with the two
  symbol statements.  \<open>link_step\<close> is one pass through the body of the loop,
  \<open>link_loop\<close> the loop with its tally \<^verbatim>\<open>cnt\<close>.
\<close>

definition link_step ::
  "'c cursor \<Rightarrow> sql \<Rightarrow> sql \<Rightarrow> string \<times> string \<times> string \<Rightarrow> int \<Rightarrow>
   'c env \<Rightarrow> (exn + int) \<times> 'c env" where
  "link_step api insert_literal insert_link triple cnt e =
     (case triple of (potri_id, literal, literal_type) \<Rightarrow>
        (case call_execute api insert_literal [StrV literal] e of
           (Some err, e1) \<Rightarrow> (Inl (except_23505 (Literal_already_exists literal) err), e1)
         | (None, e1) \<Rightarrow>
             (case call_fetchone api e1 of
                (Inl err, e2) \<Rightarrow> (Inl (except_23505 (Literal_already_exists literal) err), e2)
              | (Inr None, e2) \<Rightarrow> (Inl TypeError, e2)
              | (Inr (Some []), e2) \<Rightarrow> (Inl IndexError, e2)
              | (Inr (Some (literal_id # _)), e2) \<Rightarrow>
                  (case call_execute api insert_link
                          [literal_id, StrV literal_type, StrV potri_id] e2 of
                     (Some err, e3) \<Rightarrow>
                       (Inl (RuntimeError (Problem_inserting literal_id literal_type potri_id)),
                        e3)
                   | (None, e3) \<Rightarrow> (Inr (cnt + rowcount api (cur e3)), e3)))))"

fun link_loop ::
  "'c cursor \<Rightarrow> sql \<Rightarrow> sql \<Rightarrow> (string \<times> string \<times> string) list \<Rightarrow> int \<Rightarrow>
   'c env \<Rightarrow> (exn + int) \<times> 'c env" where
  "link_loop api insert_literal insert_link [] cnt e = (Inr cnt, e)"
| "link_loop api insert_literal insert_link (triple # rest) cnt e =
     (case link_step api insert_literal insert_link triple cnt e of
        (Inl x, e1) \<Rightarrow> (Inl x, e1)
      | (Inr cnt1, e1) \<Rightarrow> link_loop api insert_literal insert_link rest cnt1 e1)"

text \<open>\<^verbatim>\<open>(potri_id, name)\<close> of each triple, as the reconciliation loop unpacks it.\<close>

definition key_and_literal :: "string \<times> string \<times> string \<Rightarrow> string \<times> string" where
  "key_and_literal t = (fst t, fst (snd t))"

definition add_gene_name ::
  "'c cursor \<Rightarrow> (string \<times> string \<times> string) list \<Rightarrow> 'c env \<Rightarrow> (exn + unit) \<times> 'c env" where
  "add_gene_name api data e =
     (case link_loop api Insert_name Insert_gene_has_name data 0 e of
        (Inl x, e1) \<Rightarrow> (Inl x, e1)
      | (Inr cnt, e1) \<Rightarrow>
          if cnt \<noteq> int (length data)
          then reconcile api Select_gene_has_name Select_gene_name
                 ''The following rows were not inserted into the gene_has_name:''
                 (newline @ '' '') (map key_and_literal data) e1
          else (Inr (), e1))"

definition add_gene_symbol ::
  "'c cursor \<Rightarrow> (string \<times> string \<times> string) list \<Rightarrow> 'c env \<Rightarrow> (exn + unit) \<times> 'c env" where
  "add_gene_symbol api data e =
     (case link_loop api Insert_symbol Insert_gene_has_symbol data 0 e of
        (Inl x, e1) \<Rightarrow> (Inl x, e1)
      | (Inr cnt, e1) \<Rightarrow>
          if cnt \<noteq> int (length data)
          then reconcile api Select_gene_has_symbol Select_gene_symbol
                 ''The following rows were not inserted into the database:''
                 (newline @ '' '') (map key_and_literal data) e1
          else (Inr (), e1))"

section \<open>A reference relational store behind the cursor\<close>

text \<open>
  PostgreSQL and psycopg2 are not part of the repository.  The store below gives each
  statement of the source the meaning of its SQL text over tables held as lists of
  rows, so that the claims about what reaches the tables can be stated.  Of the schema
  it assumes what the specification states: the pair (gene, dimension row) is unique in
  each association table, and a literal is unique in \<^verbatim>\<open>name\<close> and in \<^verbatim>\<open>symbol\<close>.
  Transactions are the caller's business and are not modelled: the tables are the
  cursor's own view of the data, which includes its earlier writes.
\<close>

record link =
  gene_id :: int
  target_id :: int
  link_type :: "string option"
  creator_id :: int
  editor_id :: int
  status :: string

text \<open>
  The tables \<^verbatim>\<open>gene\<close>, \<^verbatim>\<open>location\<close>, \<^verbatim>\<open>locus_type\<close>, \<^verbatim>\<open>name\<close> and \<^verbatim>\<open>symbol\<close> hold rows
  (id, natural key); \<^verbatim>\<open>assembly_has_location\<close> holds rows (assembly_id, location_id).
\<close>

record db =
  gene :: "(int \<times> string) list"
  location :: "(int \<times> string) list"
  assembly_has_location :: "(int \<times> int) list"
  locus_type :: "(int \<times> string) list"
  name :: "(int \<times> string) list"
  symbol :: "(int \<times> string) list"
  gene_has_location :: "link list"
  gene_has_locus_type :: "link list"
  gene_has_name :: "link list"
  gene_has_symbol :: "link list"

text \<open>
  The state of a cursor on the store: the tables, the rows of the last statement that
  are still to be fetched (\<open>None\<close> when the statement returned no rows to fetch) and
  the attribute \<^verbatim>\<open>rowcount\<close>.
\<close>

record pg =
  database :: db
  result_set :: "row list option"
  row_count :: int

subsection \<open>The queries of the source\<close>

text \<open>
  \<^verbatim>\<open>
  SELECT gene."id", "location"."id", 1, 1, 'internal'
  FROM gene, "location", assembly_has_location
  WHERE gene.potri_id = %s AND "location"."name" = %s AND
        assembly_has_location.assembly_id = 1 AND
        "location"."id" = assembly_has_location.location_id
  \<close>
  (the columns 1, 1, 'internal' are added by \<open>new_link\<close> below).
\<close>

definition insert_select_gene_location :: "db \<Rightarrow> string \<Rightarrow> string \<Rightarrow> (int \<times> int) list" where
  "insert_select_gene_location d potri_id location_name =
     [(fst g, fst l). g \<leftarrow> gene d, l \<leftarrow> location d, a \<leftarrow> assembly_has_location d,
        snd g = potri_id \<and> snd l = location_name \<and> fst a = 1 \<and> fst l = snd a]"

text \<open>
  \<^verbatim>\<open>SELECT gene.id, location.id FROM gene, location
      WHERE gene.potri_id = %s AND location.name = %s\<close>,
  and the same query over \<^verbatim>\<open>locus_type\<close>, \<^verbatim>\<open>name\<close> and \<^verbatim>\<open>symbol\<close>.  With
  \<^verbatim>\<open>locus_type\<close> it is also the \<^verbatim>\<open>SELECT\<close> of the insert into \<^verbatim>\<open>gene_has_locus_type\<close>.
\<close>

definition select_gene_and :: "(int \<times> string) list \<Rightarrow> db \<Rightarrow> string \<Rightarrow> string \<Rightarrow> (int \<times> int) list" where
  "select_gene_and dimension d potri_id literal =
     [(fst g, fst l). g \<leftarrow> gene d, l \<leftarrow> dimension, snd g = potri_id \<and> snd l = literal]"

text \<open>\<^verbatim>\<open>SELECT gene.id, %s, %s, 1, 1, 'internal' FROM gene WHERE gene.potri_id = %s\<close>\<close>

definition insert_select_gene :: "db \<Rightarrow> string \<Rightarrow> int list" where
  "insert_select_gene d potri_id = [fst g. g \<leftarrow> gene d, snd g = potri_id]"

text \<open>\<^verbatim>\<open>SELECT gene_id, location_id FROM gene_has_location\<close> and its three siblings.\<close>

definition link_rows :: "link list \<Rightarrow> row list" where
  "link_rows t = map (\<lambda>r. [IntV (gene_id r), IntV (target_id r)]) t"

definition pair_row :: "int \<times> int \<Rightarrow> row" where
  "pair_row p = [IntV (fst p), IntV (snd p)]"

subsection \<open>Writing rows\<close>

text \<open>The row an \<^verbatim>\<open>INSERT ... SELECT ..., 1, 1, 'internal'\<close> of the source builds.\<close>

definition new_link :: "string option \<Rightarrow> int \<times> int \<Rightarrow> link" where
  "new_link ty p =
     \<lparr>gene_id = fst p, target_id = snd p, link_type = ty,
      creator_id = 1, editor_id = 1, status = ''internal''\<rparr>"

definition link_key :: "link \<Rightarrow> int \<times> int" where
  "link_key r = (gene_id r, target_id r)"

text \<open>
  Modelled from the spec: the schema of the association tables is not in the
  repository.  The specification gives the invariant that the pair (gene, dimension
  row) is unique per association table and that violating it is a duplicate, not an
  update.  So a statement fails with a uniqueness violation when one of its rows has the
  key of a stored row or of another row of the same statement, and then writes nothing.
\<close>

definition violates_unique :: "link list \<Rightarrow> link list \<Rightarrow> bool" where
  "violates_unique stored new =
     ((\<exists>r \<in> set new. link_key r \<in> set (map link_key stored)) \<or> \<not> distinct (map link_key new))"

definition failed :: "pg_error \<Rightarrow> pg \<Rightarrow> pg_error option \<times> pg" where
  "failed err s = (Some err, s\<lparr>result_set := None, row_count := - 1\<rparr>)"

definition write_links ::
  "(db \<Rightarrow> link list) \<Rightarrow> ((link list \<Rightarrow> link list) \<Rightarrow> db \<Rightarrow> db) \<Rightarrow> link list \<Rightarrow> pg \<Rightarrow>
   pg_error option \<times> pg" where
  "write_links tbl upd new s =
     (if violates_unique (tbl (database s)) new then failed UniqueViolation s
      else (None, s\<lparr>database := upd (\<lambda>t. t @ new) (database s),
                     result_set := None, row_count := int (length new)\<rparr>))"

text \<open>
  Modelled from the spec: the insert into a dimension table obtains a generated
  surrogate id.  The store generates an id that no row of the table has.
\<close>

definition generated_id :: "(int \<times> string) list \<Rightarrow> int" where
  "generated_id t = foldr max (map fst t) 0 + 1"

text \<open>
  Modelled from the spec: the schema of \<^verbatim>\<open>name\<close> and \<^verbatim>\<open>symbol\<close> is not in the repository.
  The specification states that each literal is unique in its table and that a
  duplicate is an error, not an upsert.  With that constraint,
  \<^verbatim>\<open>INSERT INTO name (name) VALUES (%s) RETURNING id\<close> (and the same for \<^verbatim>\<open>symbol\<close>) fails
  with a uniqueness violation when the literal is in the table, and otherwise appends
  the row and returns its id as the only row to fetch.
\<close>

definition write_literal ::
  "(db \<Rightarrow> (int \<times> string) list) \<Rightarrow>
   (((int \<times> string) list \<Rightarrow> (int \<times> string) list) \<Rightarrow> db \<Rightarrow> db) \<Rightarrow> string \<Rightarrow> pg \<Rightarrow>
   pg_error option \<times> pg" where
  "write_literal tbl upd literal s =
     (if literal \<in> set (map snd (tbl (database s))) then failed UniqueViolation s
      else (let new_id = generated_id (tbl (database s)) in
            (None, s\<lparr>database := upd (\<lambda>t. t @ [(new_id, literal)]) (database s),
                      result_set := Some [[IntV new_id]], row_count := 1\<rparr>)))"

definition read_rows :: "row list \<Rightarrow> pg \<Rightarrow> pg_error option \<times> pg" where
  "read_rows rows s = (None, s\<lparr>result_set := Some rows, row_count := int (length rows)\<rparr>)"

subsection \<open>The cursor operations\<close>

definition two_strings :: "val list \<Rightarrow> (string \<times> string) option" where
  "two_strings ps = (case ps of [StrV a, StrV b] \<Rightarrow> Some (a, b) | _ \<Rightarrow> None)"

definition one_string :: "val list \<Rightarrow> string option" where
  "one_string ps = (case ps of [StrV a] \<Rightarrow> Some a | _ \<Rightarrow> None)"

definition link_params :: "val list \<Rightarrow> (int \<times> string \<times> string) option" where
  "link_params ps = (case ps of [IntV i, StrV ty, StrV k] \<Rightarrow> Some (i, ty, k) | _ \<Rightarrow> None)"

text \<open>
  A statement given parameters of another shape than the source passes is rejected
  with a database error other than a uniqueness violation.
\<close>

fun pg_execute :: "sql \<Rightarrow> val list \<Rightarrow> pg \<Rightarrow> pg_error option \<times> pg" where
  "pg_execute Insert_gene_has_location ps s =
     (case two_strings ps of
        None \<Rightarrow> failed OtherDatabaseError s
      | Some (k, n) \<Rightarrow>
          write_links gene_has_location gene_has_location_update
            (map (new_link None) (insert_select_gene_location (database s) k n)) s)"
| "pg_execute Select_gene_has_location ps s =
     (if ps = [] then read_rows (link_rows (gene_has_location (database s))) s
      else failed OtherDatabaseError s)"
| "pg_execute Select_gene_location ps s =
     (case two_strings ps of
        None \<Rightarrow> failed OtherDatabaseError s
      | Some (k, n) \<Rightarrow>
          read_rows (map pair_row (select_gene_and (location (database s)) (database s) k n)) s)"
| "pg_execute Insert_gene_has_locus_type ps s =
     (case two_strings ps of
        None \<Rightarrow> failed OtherDatabaseError s
      | Some (k, n) \<Rightarrow>
          write_links gene_has_locus_type gene_has_locus_type_update
            (map (new_link None) (select_gene_and (locus_type (database s)) (database s) k n)) s)"
| "pg_execute Select_gene_has_locus_type ps s =
     (if ps = [] then read_rows (link_rows (gene_has_locus_type (database s))) s
      else failed OtherDatabaseError s)"
| "pg_execute Select_gene_locus_type ps s =
     (case two_strings ps of
        None \<Rightarrow> failed OtherDatabaseError s
      | Some (k, n) \<Rightarrow>
          read_rows (map pair_row (select_gene_and (locus_type (database s)) (database s) k n)) s)"
| "pg_execute Insert_name ps s =
     (case one_string ps of
        None \<Rightarrow> failed OtherDatabaseError s
      | Some n \<Rightarrow> write_literal name name_update n s)"
| "pg_execute Insert_gene_has_name ps s =
     (case link_params ps of
        None \<Rightarrow> failed OtherDatabaseError s
      | Some (i, ty, k) \<Rightarrow>
          write_links gene_has_name gene_has_name_update
            (map (\<lambda>g. new_link (Some ty) (g, i)) (insert_select_gene (database s) k)) s)"
| "pg_execute Select_gene_has_name ps s =
     (if ps = [] then read_rows (link_rows (gene_has_name (database s))) s
      else failed OtherDatabaseError s)"
| "pg_execute Select_gene_name ps s =
     (case two_strings ps of
        None \<Rightarrow> failed OtherDatabaseError s
      | Some (k, n) \<Rightarrow>
          read_rows (map pair_row (select_gene_and (name (database s)) (database s) k n)) s)"
| "pg_execute Insert_symbol ps s =
     (case one_string ps of
        None \<Rightarrow> failed OtherDatabaseError s
      | Some n \<Rightarrow> write_literal symbol symbol_update n s)"
| "pg_execute Insert_gene_has_symbol ps s =
     (case link_params ps of
        None \<Rightarrow> failed OtherDatabaseError s
      | Some (i, ty, k) \<Rightarrow>
          write_links gene_has_symbol gene_has_symbol_update
            (map (\<lambda>g. new_link (Some ty) (g, i)) (insert_select_gene (database s) k)) s)"
| "pg_execute Select_gene_has_symbol ps s =
     (if ps = [] then read_rows (link_rows (gene_has_symbol (database s))) s
      else failed OtherDatabaseError s)"
| "pg_execute Select_gene_symbol ps s =
     (case two_strings ps of
        None \<Rightarrow> failed OtherDatabaseError s
      | Some (k, n) \<Rightarrow>
          read_rows (map pair_row (select_gene_and (symbol (database s)) (database s) k n)) s)"

text \<open>
  psycopg2 runs \<^verbatim>\<open>executemany\<close> as one \<^verbatim>\<open>execute\<close> per parameter tuple, stops at the
  first error, and leaves in \<^verbatim>\<open>rowcount\<close> the sum of the row counts of the statements.
\<close>

fun pg_executemany_from :: "int \<Rightarrow> sql \<Rightarrow> val list list \<Rightarrow> pg \<Rightarrow> pg_error option \<times> pg" where
  "pg_executemany_from n q [] s = (None, s\<lparr>result_set := None, row_count := n\<rparr>)"
| "pg_executemany_from n q (ps # rest) s =
     (case pg_execute q ps s of
        (Some err, s1) \<Rightarrow> (Some err, s1)
      | (None, s1) \<Rightarrow> pg_executemany_from (n + row_count s1) q rest s1)"

definition pg_executemany :: "sql \<Rightarrow> val list list \<Rightarrow> pg \<Rightarrow> pg_error option \<times> pg" where
  "pg_executemany q pss s = pg_executemany_from 0 q pss s"

text \<open>
  \<^verbatim>\<open>fetchone\<close> takes the next row of the result, or gives \<^verbatim>\<open>None\<close> when none is left;
  \<^verbatim>\<open>fetchall\<close> takes all that are left.  Both raise when the last statement returned
  nothing to fetch.
\<close>

definition pg_fetchone :: "pg \<Rightarrow> (pg_error + row option) \<times> pg" where
  "pg_fetchone s =
     (case result_set s of
        None \<Rightarrow> (Inl OtherDatabaseError, s)
      | Some [] \<Rightarrow> (Inr None, s)
      | Some (r # rs) \<Rightarrow> (Inr (Some r), s\<lparr>result_set := Some rs\<rparr>))"

definition pg_fetchall :: "pg \<Rightarrow> (pg_error + row list) \<times> pg" where
  "pg_fetchall s =
     (case result_set s of
        None \<Rightarrow> (Inl OtherDatabaseError, s)
      | Some rs \<Rightarrow> (Inr rs, s\<lparr>result_set := Some []\<rparr>))"

definition pg_cursor :: "pg cursor" where
  "pg_cursor =
     \<lparr>executemany = pg_executemany, execute = pg_execute, fetchone = pg_fetchone,
      fetchall = pg_fetchall, rowcount = row_count\<rparr>"

section \<open>Observing what a call did\<close>

text \<open>
  The statements that read: the eight \<^verbatim>\<open>SELECT\<close>s of the source.  A read query is a call
  that executes one of them, or \<^verbatim>\<open>fetchall\<close> (only the reconciliation pass calls it).
  \<^verbatim>\<open>fetchone\<close> is also how the writers obtain the id of \<^verbatim>\<open>RETURNING id\<close>, so it is
  not counted.
\<close>

fun is_select :: "sql \<Rightarrow> bool" where
  "is_select Select_gene_has_location = True"
| "is_select Select_gene_location = True"
| "is_select Select_gene_has_locus_type = True"
| "is_select Select_gene_locus_type = True"
| "is_select Select_gene_has_name = True"
| "is_select Select_gene_name = True"
| "is_select Select_gene_has_symbol = True"
| "is_select Select_gene_symbol = True"
| "is_select _ = False"

fun is_read_query :: "call \<Rightarrow> bool" where
  "is_read_query (Execute q ps) = is_select q"
| "is_read_query (Executemany q pss) = is_select q"
| "is_read_query Fetchone = False"
| "is_read_query Fetchall = True"

definition read_queries :: "call list \<Rightarrow> call list" where
  "read_queries cs = filter is_read_query cs"


text \<open>A store for the examples, and a fresh cursor on a store.\<close>

definition example_db :: db where
  "example_db =
     \<lparr>gene = [(1, ''P1''), (2, ''P2'')],
      location = [(1, ''LocA''), (2, ''LocB''), (3, ''LocC'')],
      assembly_has_location = [(1, 1), (1, 2), (2, 3)],
      locus_type = [(1, ''protein-coding'')],
      name = [(1, ''cytochrome P450'')],
      symbol = [(1, ''CYP1'')],
      gene_has_location = [],
      gene_has_locus_type = [],
      gene_has_name = [],
      gene_has_symbol = []\<rparr>"

definition start :: "db \<Rightarrow> pg env" where
  "start d = \<lparr>cur = \<lparr>database = d, result_set = None, row_count = - 1\<rparr>, calls = [], warnings = []\<rparr>"


section \<open>A scripted cursor\<close>

text \<open>
  A cursor that replays scripted outcomes, as the mock cursor of
  \<^verbatim>\<open>tests/test_inserts.py\<close> does: \<^verbatim>\<open>execute\<close> takes its outcome (return, or raise
  a database error) from a list, one per call, and returns once the list is used up;
  \<^verbatim>\<open>fetchone\<close> takes its value from a list in the same way; \<^verbatim>\<open>executemany\<close>,
  \<^verbatim>\<open>fetchall\<close> and \<^verbatim>\<open>rowcount\<close> are fixed.
\<close>

record script =
  execute_effects :: "pg_error option list"
  executemany_effect :: "pg_error option"
  fetchone_values :: "row option list"
  fetchall_value :: "row list"
  rowcount_value :: int

definition mock_cursor :: "script cursor" where
  "mock_cursor =
     \<lparr>executemany = (\<lambda>q pss s. (executemany_effect s, s)),
      execute = (\<lambda>q ps s.
        case execute_effects s of
          [] \<Rightarrow> (None, s)
        | x # xs \<Rightarrow> (x, s\<lparr>execute_effects := xs\<rparr>)),
      fetchone = (\<lambda>s.
        case fetchone_values s of
          [] \<Rightarrow> (Inr None, s)
        | v # vs \<Rightarrow> (Inr v, s\<lparr>fetchone_values := vs\<rparr>)),
      fetchall = (\<lambda>s. (Inr (fetchall_value s), s)),
      rowcount = rowcount_value\<rparr>"

definition mock_env :: "pg_error option list \<Rightarrow> row option list \<Rightarrow> int \<Rightarrow> script env" where
  "mock_env effects values n =
     \<lparr>cur = \<lparr>execute_effects = effects, executemany_effect = None, fetchone_values = values,
              fetchall_value = [], rowcount_value = n\<rparr>,
      calls = [], warnings = []\<rparr>"

section \<open>Notions used to state the properties of the store\<close>

text \<open>The provenance columns every \<^verbatim>\<open>INSERT ... SELECT\<close> of the source fills with constants.\<close>

definition fixed_provenance :: "link \<Rightarrow> bool" where
  "fixed_provenance r \<longleftrightarrow> creator_id r = 1 \<and> editor_id r = 1 \<and> status r = ''internal''"

text \<open>
  The rows of a table that were appended since an earlier state of the same table, and
  the relation between two states of the store when nothing was updated or deleted:
  the tables that are only read are the same, rows were only appended to the others,
  and the appended association rows carry the fixed provenance.
\<close>

definition written :: "'a list \<Rightarrow> 'a list \<Rightarrow> 'a list" where
  "written before after = drop (length before) after"

definition appended_to :: "'a list \<Rightarrow> 'a list \<Rightarrow> bool" where
  "appended_to before after \<longleftrightarrow> take (length before) after = before"

definition links_appended :: "link list \<Rightarrow> link list \<Rightarrow> bool" where
  "links_appended before after \<longleftrightarrow>
     appended_to before after \<and> (\<forall>r \<in> set (written before after). fixed_provenance r)"

definition grows :: "db \<Rightarrow> db \<Rightarrow> bool" where
  "grows d d' \<longleftrightarrow>
     gene d' = gene d \<and> location d' = location d \<and>
     assembly_has_location d' = assembly_has_location d \<and> locus_type d' = locus_type d \<and>
     appended_to (name d) (name d') \<and> appended_to (symbol d) (symbol d') \<and>
     links_appended (gene_has_location d) (gene_has_location d') \<and>
     links_appended (gene_has_locus_type d) (gene_has_locus_type d') \<and>
     links_appended (gene_has_name d) (gene_has_name d') \<and>
     links_appended (gene_has_symbol d) (gene_has_symbol d')"

text \<open>
  What the reconciliation pass computes, read off the tables.  An item is unsuccessful
  when its natural keys do not resolve to a persisted pair: the query on \<^verbatim>\<open>gene\<close> and the
  dimension table has no row for it, or its first row (the one \<^verbatim>\<open>fetchone\<close> gives) is
  not the key of a row of the association table.
\<close>

definition first_pair :: "(int \<times> int) list \<Rightarrow> row option" where
  "first_pair ps = (case ps of [] \<Rightarrow> None | p # _ \<Rightarrow> Some (pair_row p))"

definition unsuccessful_items ::
  "link list \<Rightarrow> (string \<Rightarrow> string \<Rightarrow> (int \<times> int) list) \<Rightarrow> (string \<times> string) list \<Rightarrow>
   (string \<times> string) list" where
  "unsuccessful_items persisted resolve items =
     filter (\<lambda>i. not_in (first_pair (resolve (fst i) (snd i))) (set (link_rows persisted))) items"

definition unsuccessful_locations :: "db \<Rightarrow> (string \<times> string) list \<Rightarrow> (string \<times> string) list" where
  "unsuccessful_locations d items =
     unsuccessful_items (gene_has_location d) (select_gene_and (location d) d) items"

definition unsuccessful_locus_types :: "db \<Rightarrow> (string \<times> string) list \<Rightarrow> (string \<times> string) list" where
  "unsuccessful_locus_types d items =
     unsuccessful_items (gene_has_locus_type d) (select_gene_and (locus_type d) d) items"

definition unsuccessful_names :: "db \<Rightarrow> (string \<times> string) list \<Rightarrow> (string \<times> string) list" where
  "unsuccessful_names d items =
     unsuccessful_items (gene_has_name d) (select_gene_and (name d) d) items"

definition unsuccessful_symbols :: "db \<Rightarrow> (string \<times> string) list \<Rightarrow> (string \<times> string) list" where
  "unsuccessful_symbols d items =
     unsuccessful_items (gene_has_symbol d) (select_gene_and (symbol d) d) items"

text \<open>
  The example store with one association already present: gene \<^verbatim>\<open>P1\<close> (id 1) with
  location \<^verbatim>\<open>LocC\<close> (id 3), a location that is linked to assembly 2 only.
\<close>

definition linked_db :: db where
  "linked_db = example_db\<lparr>gene_has_location := [new_link None (1, 3)]\<rparr>"

text \<open>
  An input pair is already present as an association when a gene with its key and a
  dimension row with its name are linked by a stored row of the association table.
\<close>

definition already_linked :: "(int \<times> string) list \<Rightarrow> link list \<Rightarrow> db \<Rightarrow> string \<times> string \<Rightarrow> bool" where
  "already_linked dimension links d item \<longleftrightarrow>
     (\<exists>p \<in> set (select_gene_and dimension d (fst item) (snd item)).
        p \<in> set (map link_key links))"

text \<open>
  The same for a location, counting only the locations that are linked to assembly 1,
  as the \<^verbatim>\<open>SELECT\<close> of the insert into \<^verbatim>\<open>gene_has_location\<close> does.
\<close>

definition already_linked_in_assembly :: "db \<Rightarrow> string \<times> string \<Rightarrow> bool" where
  "already_linked_in_assembly d item \<longleftrightarrow>
     (\<exists>p \<in> set (insert_select_gene_location d (fst item) (snd item)).
        p \<in> set (map link_key (gene_has_location d)))"

text \<open>
  The example store after an earlier load: gene \<^verbatim>\<open>P1\<close> is linked to \<^verbatim>\<open>LocA\<close> (a location
  of assembly 1) and gene \<^verbatim>\<open>P2\<close> to the locus type \<^verbatim>\<open>protein-coding\<close>.
\<close>

definition loaded_db :: db where
  "loaded_db = example_db\<lparr>gene_has_location := [new_link None (1, 1)],
                            gene_has_locus_type := [new_link None (2, 1)]\<rparr>"

text \<open>An item names an unknown gene or an unknown dimension row.\<close>

definition unknown_keys :: "(int \<times> string) list \<Rightarrow> db \<Rightarrow> string \<times> string \<Rightarrow> bool" where
  "unknown_keys dimension d item \<longleftrightarrow>
     fst item \<notin> snd ` set (gene d) \<or> snd item \<notin> snd ` set dimension"

text \<open>
  Modelled from the spec: the schema of \<^verbatim>\<open>gene\<close> is not in the repository.  The
  specification states that a gene is identified by a stable natural key (PotriID): no
  two rows of \<^verbatim>\<open>gene\<close> have the same key.
\<close>

definition gene_keys_unique :: "db \<Rightarrow> bool" where
  "gene_keys_unique d \<longleftrightarrow> distinct (map snd (gene d))"

section \<open>Properties of the inserters over any cursor\<close>

lemma call_executemany_obs:
  "call_executemany api q pss e = (r, e1) \<Longrightarrow>
     warnings e1 = warnings e \<and> calls e1 = calls e @ [Executemany q pss]"
  by (auto simp: call_executemany_def split: prod.splits)

lemma call_execute_obs:
  "call_execute api q ps e = (r, e1) \<Longrightarrow>
     warnings e1 = warnings e \<and> calls e1 = calls e @ [Execute q ps]"
  by (auto simp: call_execute_def split: prod.splits)

lemma call_fetchone_obs:
  "call_fetchone api e = (r, e1) \<Longrightarrow>
     warnings e1 = warnings e \<and> calls e1 = calls e @ [Fetchone]"
  by (auto simp: call_fetchone_def split: prod.splits)

lemma link_step_obs:
  assumes "link_step api q1 q2 t cnt e = (r, e1)" and "\<not> is_select q1" and "\<not> is_select q2"
  shows "warnings e1 = warnings e \<and> read_queries (calls e1) = read_queries (calls e)"
proof -
  obtain k literal ty where t: "t = (k, literal, ty)" by (cases t)
  obtain r1 a where a: "call_execute api q1 [StrV literal] e = (r1, a)"
    by (cases "call_execute api q1 [StrV literal] e")
  obtain r2 b where b: "call_fetchone api a = (r2, b)"
    by (cases "call_fetchone api a")
  note oa = call_execute_obs [OF a] and ob = call_fetchone_obs [OF b]
  have ab: "warnings b = warnings e \<and> read_queries (calls b) = read_queries (calls e)"
    using oa ob assms(2) by (simp add: read_queries_def)
  have aa: "warnings a = warnings e \<and> read_queries (calls a) = read_queries (calls e)"
    using oa assms(2) by (simp add: read_queries_def)
  show ?thesis
  proof (cases r1)
    case (Some err)
    with assms(1) t a aa show ?thesis by (simp add: link_step_def)
  next
    case None
    show ?thesis
    proof (cases r2)
      case (Inl err)
      with assms(1) t a None b ab show ?thesis by (simp add: link_step_def)
    next
      case (Inr res)
      show ?thesis
      proof (cases res)
        case no_row: None
        with assms(1) t a None b Inr ab show ?thesis by (simp add: link_step_def)
      next
        case (Some rw)
        show ?thesis
        proof (cases rw)
          case Nil
          with assms(1) t a None b Inr Some ab show ?thesis by (simp add: link_step_def)
        next
          case (Cons literal_id cols)
          obtain r3 c where c: "call_execute api q2 [literal_id, StrV ty, StrV k] b = (r3, c)"
            by (cases "call_execute api q2 [literal_id, StrV ty, StrV k] b")
          have ac: "warnings c = warnings e \<and> read_queries (calls c) = read_queries (calls e)"
            using ab call_execute_obs [OF c] assms(3) by (simp add: read_queries_def)
          from assms(1) t a None b Inr Some Cons c have "e1 = c"
            by (cases r3) (simp_all add: link_step_def)
          with ac show ?thesis by simp
        qed
      qed
    qed
  qed
qed

lemma link_loop_obs:
  "link_loop api q1 q2 data cnt e = (r, e1) \<Longrightarrow> \<not> is_select q1 \<Longrightarrow> \<not> is_select q2 \<Longrightarrow>
     warnings e1 = warnings e \<and> read_queries (calls e1) = read_queries (calls e)"
proof (induction data arbitrary: cnt e)
  case Nil
  then show ?case by simp
next
  case (Cons t rest)
  obtain r0 e0 where st: "link_step api q1 q2 t cnt e = (r0, e0)"
    by (cases "link_step api q1 q2 t cnt e")
  note o = link_step_obs [OF st Cons.prems(2,3)]
  show ?case
  proof (cases r0)
    case (Inl x)
    with Cons.prems(1) st o show ?thesis by simp
  next
    case (Inr c)
    with Cons.prems(1) st have "link_loop api q1 q2 rest c e0 = (r, e1)" by simp
    from Cons.IH [OF this Cons.prems(2,3)] o show ?thesis by simp
  qed
qed

text \<open>
  C1.  When the affected-row count reported after the batched write (for
  \<open>add_gene_location\<close> and \<open>add_gene_locus_type\<close>) or the tally of the link loop (for
  \<open>add_gene_name\<close> and \<open>add_gene_symbol\<close>) equals the length of the input, the function
  returns normally, logs no warning, and executes no read query: the reconciliation
  pass is skipped.  This holds for every cursor.
\<close>

theorem full_count_skips_reconciliation:
  "(fst (call_executemany api Insert_gene_has_location (map pair_params pairs) e) = None \<and>
    rowcount api (cur (snd (call_executemany api Insert_gene_has_location (map pair_params pairs) e)))
      = int (length pairs) \<longrightarrow>
      fst (add_gene_location api pairs e) = Inr () \<and>
      warnings (snd (add_gene_location api pairs e)) = warnings e \<and>
      read_queries (calls (snd (add_gene_location api pairs e))) = read_queries (calls e)) \<and>
   (fst (call_executemany api Insert_gene_has_locus_type (map pair_params pairs) e) = None \<and>
    rowcount api (cur (snd (call_executemany api Insert_gene_has_locus_type (map pair_params pairs) e)))
      = int (length pairs) \<longrightarrow>
      fst (add_gene_locus_type api pairs e) = Inr () \<and>
      warnings (snd (add_gene_locus_type api pairs e)) = warnings e \<and>
      read_queries (calls (snd (add_gene_locus_type api pairs e))) = read_queries (calls e)) \<and>
   (fst (link_loop api Insert_name Insert_gene_has_name triples 0 e) = Inr (int (length triples)) \<longrightarrow>
      fst (add_gene_name api triples e) = Inr () \<and>
      warnings (snd (add_gene_name api triples e)) = warnings e \<and>
      read_queries (calls (snd (add_gene_name api triples e))) = read_queries (calls e)) \<and>
   (fst (link_loop api Insert_symbol Insert_gene_has_symbol triples 0 e) = Inr (int (length triples)) \<longrightarrow>
      fst (add_gene_symbol api triples e) = Inr () \<and>
      warnings (snd (add_gene_symbol api triples e)) = warnings e \<and>
      read_queries (calls (snd (add_gene_symbol api triples e))) = read_queries (calls e))"
proof (intro conjI impI)
  assume h: "fst (call_executemany api Insert_gene_has_location (map pair_params pairs) e) = None \<and>
    rowcount api (cur (snd (call_executemany api Insert_gene_has_location (map pair_params pairs) e)))
      = int (length pairs)"
  obtain r e1 where w: "call_executemany api Insert_gene_has_location (map pair_params pairs) e = (r, e1)"
    by (cases "call_executemany api Insert_gene_has_location (map pair_params pairs) e")
  from h w have res: "add_gene_location api pairs e = (Inr (), e1)"
    by (simp add: add_gene_location_def)
  from res show "fst (add_gene_location api pairs e) = Inr ()" by simp
  from res call_executemany_obs[OF w]
  show "warnings (snd (add_gene_location api pairs e)) = warnings e" by simp
  from res call_executemany_obs[OF w]
  show "read_queries (calls (snd (add_gene_location api pairs e))) = read_queries (calls e)"
    by (simp add: read_queries_def)
next
  assume h: "fst (call_executemany api Insert_gene_has_locus_type (map pair_params pairs) e) = None \<and>
    rowcount api (cur (snd (call_executemany api Insert_gene_has_locus_type (map pair_params pairs) e)))
      = int (length pairs)"
  obtain r e1 where w: "call_executemany api Insert_gene_has_locus_type (map pair_params pairs) e = (r, e1)"
    by (cases "call_executemany api Insert_gene_has_locus_type (map pair_params pairs) e")
  from h w have res: "add_gene_locus_type api pairs e = (Inr (), e1)"
    by (simp add: add_gene_locus_type_def)
  from res show "fst (add_gene_locus_type api pairs e) = Inr ()" by simp
  from res call_executemany_obs[OF w]
  show "warnings (snd (add_gene_locus_type api pairs e)) = warnings e" by simp
  from res call_executemany_obs[OF w]
  show "read_queries (calls (snd (add_gene_locus_type api pairs e))) = read_queries (calls e)"
    by (simp add: read_queries_def)
next
  assume h: "fst (link_loop api Insert_name Insert_gene_has_name triples 0 e) = Inr (int (length triples))"
  obtain r e1 where w: "link_loop api Insert_name Insert_gene_has_name triples 0 e = (r, e1)"
    by (cases "link_loop api Insert_name Insert_gene_has_name triples 0 e")
  from h w have res: "add_gene_name api triples e = (Inr (), e1)"
    by (simp add: add_gene_name_def)
  from res show "fst (add_gene_name api triples e) = Inr ()" by simp
  from res link_loop_obs[OF w]
  show "warnings (snd (add_gene_name api triples e)) = warnings e" by simp
  from res link_loop_obs[OF w]
  show "read_queries (calls (snd (add_gene_name api triples e))) = read_queries (calls e)" by simp
next
  assume h: "fst (link_loop api Insert_symbol Insert_gene_has_symbol triples 0 e) = Inr (int (length triples))"
  obtain r e1 where w: "link_loop api Insert_symbol Insert_gene_has_symbol triples 0 e = (r, e1)"
    by (cases "link_loop api Insert_symbol Insert_gene_has_symbol triples 0 e")
  from h w have res: "add_gene_symbol api triples e = (Inr (), e1)"
    by (simp add: add_gene_symbol_def)
  from res show "fst (add_gene_symbol api triples e) = Inr ()" by simp
  from res link_loop_obs[OF w]
  show "warnings (snd (add_gene_symbol api triples e)) = warnings e" by simp
  from res link_loop_obs[OF w]
  show "read_queries (calls (snd (add_gene_symbol api triples e))) = read_queries (calls e)" by simp
qed


theorem full_count_skips_reconciliation_witness:
  "fst (call_executemany pg_cursor Insert_gene_has_location
          (map pair_params [(''P1'', ''LocA''), (''P2'', ''LocB'')]) (start example_db)) = None \<and>
   rowcount pg_cursor (cur (snd (call_executemany pg_cursor Insert_gene_has_location
          (map pair_params [(''P1'', ''LocA''), (''P2'', ''LocB'')]) (start example_db))))
     = int (length [(''P1'', ''LocA''), (''P2'', ''LocB'')]) \<and>
   fst (add_gene_location pg_cursor [(''P1'', ''LocA''), (''P2'', ''LocB'')] (start example_db)) = Inr () \<and>
   warnings (snd (add_gene_location pg_cursor [(''P1'', ''LocA''), (''P2'', ''LocB'')] (start example_db)))
     = warnings (start example_db) \<and>
   read_queries (calls (snd (add_gene_location pg_cursor [(''P1'', ''LocA''), (''P2'', ''LocB'')]
     (start example_db)))) = read_queries (calls (start example_db)) \<and>
   fst (link_loop pg_cursor Insert_name Insert_gene_has_name
          [(''P1'', ''hypothetical protein'', ''approved'')] 0 (start example_db))
     = Inr (int (length [(''P1'', ''hypothetical protein'', ''approved'')])) \<and>
   fst (add_gene_name pg_cursor [(''P1'', ''hypothetical protein'', ''approved'')] (start example_db))
     = Inr () \<and>
   warnings (snd (add_gene_name pg_cursor [(''P1'', ''hypothetical protein'', ''approved'')]
     (start example_db))) = warnings (start example_db) \<and>
   read_queries (calls (snd (add_gene_name pg_cursor [(''P1'', ''hypothetical protein'', ''approved'')]
     (start example_db)))) = read_queries (calls (start example_db))"
proof -
  have h1: "fst (call_executemany pg_cursor Insert_gene_has_location
          (map pair_params [(''P1'', ''LocA''), (''P2'', ''LocB'')]) (start example_db)) = None \<and>
   rowcount pg_cursor (cur (snd (call_executemany pg_cursor Insert_gene_has_location
          (map pair_params [(''P1'', ''LocA''), (''P2'', ''LocB'')]) (start example_db))))
     = int (length [(''P1'', ''LocA''), (''P2'', ''LocB'')])"
    by code_simp
  have h2: "fst (link_loop pg_cursor Insert_name Insert_gene_has_name
          [(''P1'', ''hypothetical protein'', ''approved'')] 0 (start example_db))
     = Inr (int (length [(''P1'', ''hypothetical protein'', ''approved'')]))"
    by code_simp
  from h1 h2
    full_count_skips_reconciliation [of pg_cursor "[(''P1'', ''LocA''), (''P2'', ''LocB'')]"
      "start example_db" "[(''P1'', ''hypothetical protein'', ''approved'')]"]
  show ?thesis by blast
qed

text \<open>
  C10.  On the empty list \<open>add_gene_name\<close> and \<open>add_gene_symbol\<close> return normally and
  leave the cursor, the record of calls and the log as they were: no statement is
  executed, nothing is fetched, no warning is logged.
\<close>

theorem empty_input_is_a_no_op:
  "add_gene_name api [] e = (Inr (), e) \<and> add_gene_symbol api [] e = (Inr (), e)"
  by (simp add: add_gene_name_def add_gene_symbol_def)

lemma link_loop_append:
  "link_loop api q1 q2 (pre @ rest) cnt e =
     (case link_loop api q1 q2 pre cnt e of
        (Inl x, e1) \<Rightarrow> (Inl x, e1)
      | (Inr c, e1) \<Rightarrow> link_loop api q1 q2 rest c e1)"
  by (induction pre arbitrary: cnt e) (simp_all split: prod.splits sum.splits)

lemma link_step_fails:
  assumes "call_execute api q1 [StrV literal] e0 = (None, e1)"
    and "call_fetchone api e1 = (Inr (Some (literal_id # cols)), e2)"
    and "call_execute api q2 [literal_id, StrV ty, StrV k] e2 = (Some err, e3)"
  shows "link_step api q1 q2 (k, literal, ty) c e0 =
           (Inl (RuntimeError (Problem_inserting literal_id ty k)), e3)"
  using assms by (simp add: link_step_def)

lemma link_step_runtime_error_run:
  assumes "link_step api q1 q2 t cnt e = (Inl (RuntimeError m), e')"
  shows "\<exists>k literal ty e1 i cols e2 err.
           t = (k, literal, ty) \<and>
           call_execute api q1 [StrV literal] e = (None, e1) \<and>
           call_fetchone api e1 = (Inr (Some (i # cols)), e2) \<and>
           call_execute api q2 [i, StrV ty, StrV k] e2 = (Some err, e') \<and>
           m = Problem_inserting i ty k"
proof -
  obtain k literal ty where t: "t = (k, literal, ty)" by (cases t)
  obtain r1 a where a: "call_execute api q1 [StrV literal] e = (r1, a)"
    by (cases "call_execute api q1 [StrV literal] e")
  obtain r2 b where b: "call_fetchone api a = (r2, b)"
    by (cases "call_fetchone api a")
  show ?thesis
  proof (cases r1)
    case (Some err)
    with assms t a show ?thesis by (cases err) (simp_all add: link_step_def except_23505_def)
  next
    case None
    show ?thesis
    proof (cases r2)
      case (Inl err)
      with assms t a None b show ?thesis
        by (cases err) (simp_all add: link_step_def except_23505_def)
    next
      case (Inr res)
      show ?thesis
      proof (cases res)
        case no_row: None
        with assms t a None b Inr show ?thesis by (simp add: link_step_def)
      next
        case (Some rw)
        show ?thesis
        proof (cases rw)
          case Nil
          with assms t a None b Inr Some show ?thesis by (simp add: link_step_def)
        next
          case (Cons literal_id cols)
          obtain r3 c where c: "call_execute api q2 [literal_id, StrV ty, StrV k] b = (r3, c)"
            by (cases "call_execute api q2 [literal_id, StrV ty, StrV k] b")
          show ?thesis
          proof (cases r3)
            case no_error: None
            with assms t a None b Inr Some Cons c show ?thesis by (simp add: link_step_def)
          next
            case failed: (Some err)
            from assms t a None b Inr Some Cons c failed
            have "m = Problem_inserting literal_id ty k" "e' = c"
              by (simp_all add: link_step_def)
            with t a None b Inr Some Cons c failed show ?thesis by blast
          qed
        qed
      qed
    qed
  qed
qed

lemma link_loop_runtime_error_run:
  "link_loop api q1 q2 data cnt e = (Inl (RuntimeError m), e') \<Longrightarrow>
     \<exists>pre k literal ty post c e0 e1 i cols e2 err.
        data = pre @ (k, literal, ty) # post \<and>
        link_loop api q1 q2 pre cnt e = (Inr c, e0) \<and>
        call_execute api q1 [StrV literal] e0 = (None, e1) \<and>
        call_fetchone api e1 = (Inr (Some (i # cols)), e2) \<and>
        call_execute api q2 [i, StrV ty, StrV k] e2 = (Some err, e') \<and>
        m = Problem_inserting i ty k"
proof (induction data arbitrary: cnt e)
  case Nil
  then show ?case by simp
next
  case (Cons t rest)
  obtain r0 e0 where st: "link_step api q1 q2 t cnt e = (r0, e0)"
    by (cases "link_step api q1 q2 t cnt e")
  show ?case
  proof (cases r0)
    case (Inl x)
    with Cons.prems st have "link_step api q1 q2 t cnt e = (Inl (RuntimeError m), e')" by simp
    from link_step_runtime_error_run [OF this]
    obtain k literal ty e1 i cols e2 err where
      "t = (k, literal, ty)"
      "call_execute api q1 [StrV literal] e = (None, e1)"
      "call_fetchone api e1 = (Inr (Some (i # cols)), e2)"
      "call_execute api q2 [i, StrV ty, StrV k] e2 = (Some err, e')"
      "m = Problem_inserting i ty k"
      by blast
    then have "t # rest = [] @ (k, literal, ty) # rest \<and>
               link_loop api q1 q2 [] cnt e = (Inr cnt, e) \<and>
               call_execute api q1 [StrV literal] e = (None, e1) \<and>
               call_fetchone api e1 = (Inr (Some (i # cols)), e2) \<and>
               call_execute api q2 [i, StrV ty, StrV k] e2 = (Some err, e') \<and>
               m = Problem_inserting i ty k"
      by simp
    then show ?thesis by blast
  next
    case (Inr c0)
    with Cons.prems st have "link_loop api q1 q2 rest c0 e0 = (Inl (RuntimeError m), e')" by simp
    from Cons.IH [OF this]
    obtain pre k literal ty post c e00 e1 i cols e2 err where
      d: "rest = pre @ (k, literal, ty) # post"
      and l: "link_loop api q1 q2 pre c0 e0 = (Inr c, e00)"
      and r: "call_execute api q1 [StrV literal] e00 = (None, e1)"
        "call_fetchone api e1 = (Inr (Some (i # cols)), e2)"
        "call_execute api q2 [i, StrV ty, StrV k] e2 = (Some err, e')"
        "m = Problem_inserting i ty k"
      by blast
    have "t # rest = (t # pre) @ (k, literal, ty) # post" using d by simp
    moreover have "link_loop api q1 q2 (t # pre) cnt e = (Inr c, e00)" using st Inr l by simp
    ultimately show ?thesis using r by blast
  qed
qed

lemma unsuccessful_step_error:
  "unsuccessful_step api q S item acc e = (Inl x, e') \<Longrightarrow> \<exists>err. x = DatabaseError err"
  by (auto simp: unsuccessful_step_def split: prod.splits option.splits sum.splits)

lemma unsuccessful_loop_error:
  "unsuccessful_loop api q S items acc e = (Inl x, e') \<Longrightarrow> \<exists>err. x = DatabaseError err"
proof (induction items arbitrary: acc e)
  case Nil
  then show ?case by simp
next
  case (Cons item rest)
  obtain r0 e0 where st: "unsuccessful_step api q S item acc e = (r0, e0)"
    by (cases "unsuccessful_step api q S item acc e")
  show ?case
  proof (cases r0)
    case (Inl y)
    with Cons.prems st unsuccessful_step_error [of api q S item acc e y e0]
    show ?thesis by simp
  next
    case (Inr acc1)
    with Cons.prems st have "unsuccessful_loop api q S rest acc1 e0 = (Inl x, e')" by simp
    from Cons.IH [OF this] show ?thesis .
  qed
qed

lemma reconcile_runtime_error:
  assumes "reconcile api qa q1 header sep items e = (Inl (RuntimeError m), e')"
  shows "m = No_missing_entries"
proof -
  obtain r1 a where a: "call_execute api qa [] e = (r1, a)"
    by (cases "call_execute api qa [] e")
  obtain r2 b where b: "call_fetchall api a = (r2, b)"
    by (cases "call_fetchall api a")
  show ?thesis
  proof (cases r1)
    case (Some err)
    with assms a show ?thesis by (simp add: reconcile_def)
  next
    case None
    show ?thesis
    proof (cases r2)
      case (Inl err)
      with assms a None b show ?thesis by (simp add: reconcile_def)
    next
      case (Inr inserted_rows)
      obtain r3 c where c: "unsuccessful_loop api q1 (set inserted_rows) items [] b = (r3, c)"
        by (cases "unsuccessful_loop api q1 (set inserted_rows) items [] b")
      show ?thesis
      proof (cases r3)
        case failed: (Inl x)
        with unsuccessful_loop_error c obtain err where "x = DatabaseError err" by blast
        with assms a None b Inr c failed show ?thesis by (simp add: reconcile_def)
      next
        case found: (Inr u)
        with assms a None b Inr c show ?thesis
          by (simp add: reconcile_def split: if_splits)
      qed
    qed
  qed
qed

text \<open>
  C6, as the code has it.  In \<open>add_gene_name\<close> and \<open>add_gene_symbol\<close> every database
  error raised by the association write of a triple, a uniqueness violation included,
  is reported as the \<^verbatim>\<open>RuntimeError\<close> "Problem inserting ..." and ends the call there
  (\<^verbatim>\<open>except psycopg2.Error\<close> catches all of them).  Conversely, when the call ends
  with that \<^verbatim>\<open>RuntimeError\<close>, the triples before some triple of the input were processed,
  the literal of that triple was inserted and its id fetched, and the association write
  of that triple is the call that raised a database error and is the last thing the
  call did.
\<close>

theorem link_failure_on_every_database_error:
  "(link_loop api Insert_name Insert_gene_has_name pre 0 e = (Inr c, e0) \<and>
    call_execute api Insert_name [StrV literal] e0 = (None, e1) \<and>
    call_fetchone api e1 = (Inr (Some (literal_id # cols)), e2) \<and>
    call_execute api Insert_gene_has_name [literal_id, StrV ty, StrV k] e2 = (Some err, e3) \<longrightarrow>
      add_gene_name api (pre @ (k, literal, ty) # post) e =
        (Inl (RuntimeError (Problem_inserting literal_id ty k)), e3)) \<and>
   (link_loop api Insert_symbol Insert_gene_has_symbol pre 0 e = (Inr c, e0) \<and>
    call_execute api Insert_symbol [StrV literal] e0 = (None, e1) \<and>
    call_fetchone api e1 = (Inr (Some (literal_id # cols)), e2) \<and>
    call_execute api Insert_gene_has_symbol [literal_id, StrV ty, StrV k] e2 = (Some err, e3) \<longrightarrow>
      add_gene_symbol api (pre @ (k, literal, ty) # post) e =
        (Inl (RuntimeError (Problem_inserting literal_id ty k)), e3)) \<and>
   (fst (add_gene_name api data e) = Inl (RuntimeError (Problem_inserting i ty k)) \<longrightarrow>
      (\<exists>pre literal post c e0 e1 cols e2 err.
         data = pre @ (k, literal, ty) # post \<and>
         link_loop api Insert_name Insert_gene_has_name pre 0 e = (Inr c, e0) \<and>
         call_execute api Insert_name [StrV literal] e0 = (None, e1) \<and>
         call_fetchone api e1 = (Inr (Some (i # cols)), e2) \<and>
         call_execute api Insert_gene_has_name [i, StrV ty, StrV k] e2 =
           (Some err, snd (add_gene_name api data e)))) \<and>
   (fst (add_gene_symbol api data e) = Inl (RuntimeError (Problem_inserting i ty k)) \<longrightarrow>
      (\<exists>pre literal post c e0 e1 cols e2 err.
         data = pre @ (k, literal, ty) # post \<and>
         link_loop api Insert_symbol Insert_gene_has_symbol pre 0 e = (Inr c, e0) \<and>
         call_execute api Insert_symbol [StrV literal] e0 = (None, e1) \<and>
         call_fetchone api e1 = (Inr (Some (i # cols)), e2) \<and>
         call_execute api Insert_gene_has_symbol [i, StrV ty, StrV k] e2 =
           (Some err, snd (add_gene_symbol api data e))))"
proof (intro conjI impI)
  assume h: "link_loop api Insert_name Insert_gene_has_name pre 0 e = (Inr c, e0) \<and>
    call_execute api Insert_name [StrV literal] e0 = (None, e1) \<and>
    call_fetchone api e1 = (Inr (Some (literal_id # cols)), e2) \<and>
    call_execute api Insert_gene_has_name [literal_id, StrV ty, StrV k] e2 = (Some err, e3)"
  then have "link_step api Insert_name Insert_gene_has_name (k, literal, ty) c e0 =
           (Inl (RuntimeError (Problem_inserting literal_id ty k)), e3)"
    using link_step_fails by blast
  with h show "add_gene_name api (pre @ (k, literal, ty) # post) e =
        (Inl (RuntimeError (Problem_inserting literal_id ty k)), e3)"
    by (simp add: add_gene_name_def link_loop_append)
next
  assume h: "link_loop api Insert_symbol Insert_gene_has_symbol pre 0 e = (Inr c, e0) \<and>
    call_execute api Insert_symbol [StrV literal] e0 = (None, e1) \<and>
    call_fetchone api e1 = (Inr (Some (literal_id # cols)), e2) \<and>
    call_execute api Insert_gene_has_symbol [literal_id, StrV ty, StrV k] e2 = (Some err, e3)"
  then have "link_step api Insert_symbol Insert_gene_has_symbol (k, literal, ty) c e0 =
           (Inl (RuntimeError (Problem_inserting literal_id ty k)), e3)"
    using link_step_fails by blast
  with h show "add_gene_symbol api (pre @ (k, literal, ty) # post) e =
        (Inl (RuntimeError (Problem_inserting literal_id ty k)), e3)"
    by (simp add: add_gene_symbol_def link_loop_append)
next
  assume h: "fst (add_gene_name api data e) = Inl (RuntimeError (Problem_inserting i ty k))"
  obtain r e1 where w: "link_loop api Insert_name Insert_gene_has_name data 0 e = (r, e1)"
    by (cases "link_loop api Insert_name Insert_gene_has_name data 0 e")
  show "\<exists>pre literal post c e0 e1 cols e2 err.
         data = pre @ (k, literal, ty) # post \<and>
         link_loop api Insert_name Insert_gene_has_name pre 0 e = (Inr c, e0) \<and>
         call_execute api Insert_name [StrV literal] e0 = (None, e1) \<and>
         call_fetchone api e1 = (Inr (Some (i # cols)), e2) \<and>
         call_execute api Insert_gene_has_name [i, StrV ty, StrV k] e2 =
           (Some err, snd (add_gene_name api data e))"
  proof (cases r)
    case (Inl x)
    with h w have x: "x = RuntimeError (Problem_inserting i ty k)"
      and res: "snd (add_gene_name api data e) = e1"
      by (simp_all add: add_gene_name_def)
    from link_loop_runtime_error_run [OF w [unfolded Inl x]] show ?thesis
      unfolding res by blast
  next
    case (Inr cnt)
    obtain r' e' where rc: "reconcile api Select_gene_has_name Select_gene_name
                 ''The following rows were not inserted into the gene_has_name:''
                 (newline @ '' '') (map key_and_literal data) e1 = (r', e')"
      by (cases "reconcile api Select_gene_has_name Select_gene_name
                 ''The following rows were not inserted into the gene_has_name:''
                 (newline @ '' '') (map key_and_literal data) e1")
    from h w Inr rc have "r' = Inl (RuntimeError (Problem_inserting i ty k))"
      by (simp add: add_gene_name_def split: if_splits)
    with rc reconcile_runtime_error show ?thesis by blast
  qed
next
  assume h: "fst (add_gene_symbol api data e) = Inl (RuntimeError (Problem_inserting i ty k))"
  obtain r e1 where w: "link_loop api Insert_symbol Insert_gene_has_symbol data 0 e = (r, e1)"
    by (cases "link_loop api Insert_symbol Insert_gene_has_symbol data 0 e")
  show "\<exists>pre literal post c e0 e1 cols e2 err.
         data = pre @ (k, literal, ty) # post \<and>
         link_loop api Insert_symbol Insert_gene_has_symbol pre 0 e = (Inr c, e0) \<and>
         call_execute api Insert_symbol [StrV literal] e0 = (None, e1) \<and>
         call_fetchone api e1 = (Inr (Some (i # cols)), e2) \<and>
         call_execute api Insert_gene_has_symbol [i, StrV ty, StrV k] e2 =
           (Some err, snd (add_gene_symbol api data e))"
  proof (cases r)
    case (Inl x)
    with h w have x: "x = RuntimeError (Problem_inserting i ty k)"
      and res: "snd (add_gene_symbol api data e) = e1"
      by (simp_all add: add_gene_symbol_def)
    from link_loop_runtime_error_run [OF w [unfolded Inl x]] show ?thesis
      unfolding res by blast
  next
    case (Inr cnt)
    obtain r' e' where rc: "reconcile api Select_gene_has_symbol Select_gene_symbol
                 ''The following rows were not inserted into the database:''
                 (newline @ '' '') (map key_and_literal data) e1 = (r', e')"
      by (cases "reconcile api Select_gene_has_symbol Select_gene_symbol
                 ''The following rows were not inserted into the database:''
                 (newline @ '' '') (map key_and_literal data) e1")
    from h w Inr rc have "r' = Inl (RuntimeError (Problem_inserting i ty k))"
      by (simp add: add_gene_symbol_def split: if_splits)
    with rc reconcile_runtime_error show ?thesis by blast
  qed
qed

theorem link_failure_on_every_database_error_witness:
  "link_loop mock_cursor Insert_name Insert_gene_has_name [] 0
     (mock_env [None, Some OtherDatabaseError] [Some [IntV 7]] 1)
     = (Inr 0, mock_env [None, Some OtherDatabaseError] [Some [IntV 7]] 1) \<and>
   fst (call_execute mock_cursor Insert_name [StrV ''hypothetical protein'']
     (mock_env [None, Some OtherDatabaseError] [Some [IntV 7]] 1)) = None \<and>
   fst (call_fetchone mock_cursor
     (snd (call_execute mock_cursor Insert_name [StrV ''hypothetical protein'']
       (mock_env [None, Some OtherDatabaseError] [Some [IntV 7]] 1)))) = Inr (Some [IntV 7]) \<and>
   fst (call_execute mock_cursor Insert_gene_has_name [IntV 7, StrV ''alias'', StrV ''P1'']
     (snd (call_fetchone mock_cursor
       (snd (call_execute mock_cursor Insert_name [StrV ''hypothetical protein'']
         (mock_env [None, Some OtherDatabaseError] [Some [IntV 7]] 1))))))
     = Some OtherDatabaseError \<and>
   fst (add_gene_name mock_cursor ([] @ (''P1'', ''hypothetical protein'', ''alias'') # [])
     (mock_env [None, Some OtherDatabaseError] [Some [IntV 7]] 1))
     = Inl (RuntimeError (Problem_inserting (IntV 7) ''alias'' ''P1'')) \<and>
   fst (add_gene_symbol mock_cursor [(''P1'', ''HYP1'', ''approved''), (''P2'', ''KIN2'', ''alias'')]
     (mock_env [None, None, None, Some UniqueViolation] [Some [IntV 3], Some [IntV 4]] 1))
     = Inl (RuntimeError (Problem_inserting (IntV 4) ''alias'' ''P2'')) \<and>
   (\<exists>pre literal post c e0 e1 cols e2 err.
      [(''P1'', ''HYP1'', ''approved''), (''P2'', ''KIN2'', ''alias'')]
        = pre @ (''P2'', literal, ''alias'') # post \<and>
      link_loop mock_cursor Insert_symbol Insert_gene_has_symbol pre 0
        (mock_env [None, None, None, Some UniqueViolation] [Some [IntV 3], Some [IntV 4]] 1)
        = (Inr c, e0) \<and>
      call_execute mock_cursor Insert_symbol [StrV literal] e0 = (None, e1) \<and>
      call_fetchone mock_cursor e1 = (Inr (Some (IntV 4 # cols)), e2) \<and>
      call_execute mock_cursor Insert_gene_has_symbol [IntV 4, StrV ''alias'', StrV ''P2''] e2 =
        (Some err, snd (add_gene_symbol mock_cursor
           [(''P1'', ''HYP1'', ''approved''), (''P2'', ''KIN2'', ''alias'')]
           (mock_env [None, None, None, Some UniqueViolation] [Some [IntV 3], Some [IntV 4]] 1))))"
proof -
  let ?A = "mock_env [None, Some OtherDatabaseError] [Some [IntV 7]] 1"
  let ?B = "snd (call_execute mock_cursor Insert_name [StrV ''hypothetical protein''] ?A)"
  let ?C = "snd (call_fetchone mock_cursor ?B)"
  let ?D = "snd (call_execute mock_cursor Insert_gene_has_name
                [IntV 7, StrV ''alias'', StrV ''P1''] ?C)"
  let ?M = "mock_env [None, None, None, Some UniqueViolation] [Some [IntV 3], Some [IntV 4]] 1"
  let ?syms = "[(''P1'', ''HYP1'', ''approved''), (''P2'', ''KIN2'', ''alias'')]"
  have h0: "link_loop mock_cursor Insert_name Insert_gene_has_name [] 0 ?A = (Inr 0, ?A)"
    by simp
  have h1: "fst (call_execute mock_cursor Insert_name [StrV ''hypothetical protein''] ?A) = None"
    by code_simp
  have h2: "fst (call_fetchone mock_cursor ?B) = Inr (Some [IntV 7])"
    by code_simp
  have h3: "fst (call_execute mock_cursor Insert_gene_has_name
                [IntV 7, StrV ''alias'', StrV ''P1''] ?C) = Some OtherDatabaseError"
    by code_simp
  have h4: "fst (add_gene_symbol mock_cursor ?syms ?M)
              = Inl (RuntimeError (Problem_inserting (IntV 4) ''alias'' ''P2''))"
    by code_simp
  have p1: "call_execute mock_cursor Insert_name [StrV ''hypothetical protein''] ?A = (None, ?B)"
    using h1 by (simp add: prod_eq_iff)
  have p2: "call_fetchone mock_cursor ?B = (Inr (Some (IntV 7 # [])), ?C)"
    using h2 by (simp add: prod_eq_iff)
  have p3: "call_execute mock_cursor Insert_gene_has_name [IntV 7, StrV ''alias'', StrV ''P1''] ?C
              = (Some OtherDatabaseError, ?D)"
    using h3 by (simp add: prod_eq_iff)
  from link_failure_on_every_database_error
         [of mock_cursor "[]" ?A 0 ?A "''hypothetical protein''" ?B "IntV 7" "[]" ?C
             "''alias''" "''P1''" OtherDatabaseError ?D "[]"]
       h0 p1 p2 p3
  have "add_gene_name mock_cursor ([] @ (''P1'', ''hypothetical protein'', ''alias'') # []) ?A
          = (Inl (RuntimeError (Problem_inserting (IntV 7) ''alias'' ''P1'')), ?D)"
    by blast
  then have c1: "fst (add_gene_name mock_cursor
                   ([] @ (''P1'', ''hypothetical protein'', ''alias'') # []) ?A)
          = Inl (RuntimeError (Problem_inserting (IntV 7) ''alias'' ''P1''))"
    by simp
  from link_failure_on_every_database_error
         [where api = mock_cursor and data = ?syms and e = ?M and i = "IntV 4"
            and ty = "''alias''" and k = "''P2''"] h4
  have c2: "\<exists>pre literal post c e0 e1 cols e2 err.
      ?syms = pre @ (''P2'', literal, ''alias'') # post \<and>
      link_loop mock_cursor Insert_symbol Insert_gene_has_symbol pre 0 ?M = (Inr c, e0) \<and>
      call_execute mock_cursor Insert_symbol [StrV literal] e0 = (None, e1) \<and>
      call_fetchone mock_cursor e1 = (Inr (Some (IntV 4 # cols)), e2) \<and>
      call_execute mock_cursor Insert_gene_has_symbol [IntV 4, StrV ''alias'', StrV ''P2''] e2 =
        (Some err, snd (add_gene_symbol mock_cursor ?syms ?M))"
    by blast
  from h0 h1 h2 h3 c1 h4 c2 show ?thesis by blast
qed

text \<open>
  C6 as stated fails: the cursor raises a uniqueness violation on the association write
  of the triple, and the call ends with the \<^verbatim>\<open>RuntimeError\<close> "Problem inserting ...".
\<close>

theorem step_two_uniqueness_violation_counterexample:
  "fst (call_execute mock_cursor Insert_gene_has_name [IntV 1, StrV ''approved'', StrV ''P1'']
     (snd (call_fetchone mock_cursor
       (snd (call_execute mock_cursor Insert_name [StrV ''hypothetical protein'']
         (mock_env [None, Some UniqueViolation] [Some [IntV 1]] 1))))))
     = Some UniqueViolation \<and>
   fst (add_gene_name mock_cursor [(''P1'', ''hypothetical protein'', ''approved'')]
     (mock_env [None, Some UniqueViolation] [Some [IntV 1]] 1))
     = Inl (RuntimeError (Problem_inserting (IntV 1) ''approved'' ''P1''))"
  by code_simp

section \<open>The store is append-only\<close>

lemma appended_to_refl: "appended_to xs xs"
  by (simp add: appended_to_def)

lemma appended_to_append: "appended_to xs (xs @ ys)"
  by (simp add: appended_to_def)

lemma appended_toD: "appended_to xs zs \<Longrightarrow> zs = xs @ written xs zs"
  by (metis append_take_drop_id appended_to_def written_def)

lemma appended_to_trans: "appended_to xs ys \<Longrightarrow> appended_to ys zs \<Longrightarrow> appended_to xs zs"
  by (metis appended_toD append.assoc appended_to_append)

lemma written_append: "written xs (xs @ ys) = ys"
  by (simp add: written_def)

lemma written_trans:
  "appended_to xs ys \<Longrightarrow> appended_to ys zs \<Longrightarrow> written xs zs = written xs ys @ written ys zs"
  by (metis appended_toD append.assoc written_append)

lemma links_appended_refl: "links_appended t t"
  by (simp add: links_appended_def appended_to_refl written_def)

lemma links_appended_append:
  "\<forall>r \<in> set new. fixed_provenance r \<Longrightarrow> links_appended t (t @ new)"
  by (simp add: links_appended_def appended_to_append written_append)

lemma links_appended_trans:
  "links_appended a b \<Longrightarrow> links_appended b c \<Longrightarrow> links_appended a c"
  unfolding links_appended_def
  using appended_to_trans written_trans by fastforce

lemma grows_refl: "grows d d"
  by (simp add: grows_def appended_to_refl links_appended_refl)

lemma grows_trans: "grows a b \<Longrightarrow> grows b c \<Longrightarrow> grows a c"
  unfolding grows_def
  using appended_to_trans links_appended_trans by metis

lemma fixed_provenance_new_link: "fixed_provenance (new_link ty p)"
  by (simp add: fixed_provenance_def new_link_def)

lemma failed_database: "database (snd (failed err s)) = database s"
  by (simp add: failed_def)

lemma read_rows_database: "database (snd (read_rows rows s)) = database s"
  by (simp add: read_rows_def)

lemma write_literal_name_grows:
  "grows (database s) (database (snd (write_literal name name_update n s)))"
  by (simp add: write_literal_def failed_def grows_def Let_def appended_to_refl
      appended_to_append links_appended_refl)

lemma write_literal_symbol_grows:
  "grows (database s) (database (snd (write_literal symbol symbol_update n s)))"
  by (simp add: write_literal_def failed_def grows_def Let_def appended_to_refl
      appended_to_append links_appended_refl)

lemma write_links_grows:
  assumes "\<forall>r \<in> set new. fixed_provenance r"
  shows "grows (database s) (database (snd (write_links gene_has_location gene_has_location_update new s)))"
    and "grows (database s) (database (snd (write_links gene_has_locus_type gene_has_locus_type_update new s)))"
    and "grows (database s) (database (snd (write_links gene_has_name gene_has_name_update new s)))"
    and "grows (database s) (database (snd (write_links gene_has_symbol gene_has_symbol_update new s)))"
  using assms
  by (simp_all add: write_links_def failed_def grows_def appended_to_refl
      links_appended_append links_appended_refl)

lemma pg_execute_grows: "grows (database s) (database (snd (pg_execute q ps s)))"
proof (cases q)
  case Insert_gene_has_location
  then show ?thesis
    by (simp add: failed_database grows_refl write_links_grows fixed_provenance_new_link
        split: option.splits)
next
  case Insert_gene_has_locus_type
  then show ?thesis
    by (simp add: failed_database grows_refl write_links_grows fixed_provenance_new_link
        split: option.splits)
next
  case Insert_name
  then show ?thesis
    by (simp add: failed_database grows_refl write_literal_name_grows split: option.splits)
next
  case Insert_gene_has_name
  then show ?thesis
    by (simp add: failed_database grows_refl write_links_grows fixed_provenance_new_link
        split: option.splits)
next
  case Insert_symbol
  then show ?thesis
    by (simp add: failed_database grows_refl write_literal_symbol_grows split: option.splits)
next
  case Insert_gene_has_symbol
  then show ?thesis
    by (simp add: failed_database grows_refl write_links_grows fixed_provenance_new_link
        split: option.splits)
qed (simp_all add: failed_database read_rows_database grows_refl split: option.splits)

lemma pg_executemany_from_grows:
  "grows (database s) (database (snd (pg_executemany_from n q pss s)))"
proof (induction pss arbitrary: n s)
  case Nil
  show ?case by (simp add: grows_refl)
next
  case (Cons ps rest)
  obtain r s1 where x: "pg_execute q ps s = (r, s1)" by (cases "pg_execute q ps s")
  have g: "grows (database s) (database s1)" using pg_execute_grows [of s q ps] x by simp
  show ?case
  proof (cases r)
    case None
    with x grows_trans [OF g Cons.IH [of s1 "n + row_count s1"]] show ?thesis by simp
  next
    case (Some err)
    with x g show ?thesis by simp
  qed
qed

lemma pg_fetchone_database: "database (snd (pg_fetchone s)) = database s"
  by (simp add: pg_fetchone_def split: option.splits list.splits)

lemma pg_fetchall_database: "database (snd (pg_fetchall s)) = database s"
  by (simp add: pg_fetchall_def split: option.splits)

lemma call_execute_grows:
  "grows (database (cur e)) (database (cur (snd (call_execute pg_cursor q ps e))))"
  using pg_execute_grows [of "cur e" q ps]
  by (simp add: call_execute_def pg_cursor_def case_prod_beta)

lemma call_executemany_grows:
  "grows (database (cur e)) (database (cur (snd (call_executemany pg_cursor q pss e))))"
  using pg_executemany_from_grows [of "cur e" 0 q pss]
  by (simp add: call_executemany_def pg_cursor_def pg_executemany_def case_prod_beta)

lemma call_fetchone_grows:
  "grows (database (cur e)) (database (cur (snd (call_fetchone pg_cursor e))))"
  using pg_fetchone_database [of "cur e"]
  by (simp add: call_fetchone_def pg_cursor_def grows_refl case_prod_beta)

lemma call_fetchall_grows:
  "grows (database (cur e)) (database (cur (snd (call_fetchall pg_cursor e))))"
  using pg_fetchall_database [of "cur e"]
  by (simp add: call_fetchall_def pg_cursor_def grows_refl case_prod_beta)

lemma unsuccessful_step_grows:
  "grows (database (cur e)) (database (cur (snd (unsuccessful_step pg_cursor q S item acc e))))"
proof -
  obtain r1 a where a: "call_execute pg_cursor q [StrV (fst item), StrV (snd item)] e = (r1, a)"
    by (cases "call_execute pg_cursor q [StrV (fst item), StrV (snd item)] e")
  obtain r2 b where b: "call_fetchone pg_cursor a = (r2, b)"
    by (cases "call_fetchone pg_cursor a")
  have ga: "grows (database (cur e)) (database (cur a))"
    using call_execute_grows [of e q "[StrV (fst item), StrV (snd item)]"] a by simp
  have gb: "grows (database (cur a)) (database (cur b))"
    using call_fetchone_grows [of a] b by simp
  note gab = grows_trans [OF ga gb]
  show ?thesis
    using a b ga gab
    by (simp add: unsuccessful_step_def split: option.splits sum.splits)
qed

lemma unsuccessful_loop_grows:
  "grows (database (cur e)) (database (cur (snd (unsuccessful_loop pg_cursor q S items acc e))))"
proof (induction items arbitrary: acc e)
  case Nil
  show ?case by (simp add: grows_refl)
next
  case (Cons item rest)
  obtain r0 e0 where st: "unsuccessful_step pg_cursor q S item acc e = (r0, e0)"
    by (cases "unsuccessful_step pg_cursor q S item acc e")
  have g: "grows (database (cur e)) (database (cur e0))"
    using unsuccessful_step_grows [of e q S item acc] st by simp
  show ?case
  proof (cases r0)
    case (Inl x)
    with st g show ?thesis by simp
  next
    case (Inr acc1)
    with st grows_trans [OF g Cons.IH [of e0 acc1]] show ?thesis by simp
  qed
qed

lemma warning_cur: "cur (warning msg e) = cur e"
  by (simp add: warning_def)

lemma reconcile_grows:
  "grows (database (cur e)) (database (cur (snd (reconcile pg_cursor qa q1 header sep items e))))"
proof -
  obtain r1 a where a: "call_execute pg_cursor qa [] e = (r1, a)"
    by (cases "call_execute pg_cursor qa [] e")
  obtain r2 b where b: "call_fetchall pg_cursor a = (r2, b)"
    by (cases "call_fetchall pg_cursor a")
  have ga: "grows (database (cur e)) (database (cur a))"
    using call_execute_grows [of e qa "[]"] a by simp
  have gb: "grows (database (cur a)) (database (cur b))"
    using call_fetchall_grows [of a] b by simp
  note gab = grows_trans [OF ga gb]
  show ?thesis
  proof (cases r1)
    case (Some err)
    with a ga show ?thesis by (simp add: reconcile_def)
  next
    case None
    show ?thesis
    proof (cases r2)
      case (Inl err)
      with a None b gab show ?thesis by (simp add: reconcile_def)
    next
      case (Inr rows)
      obtain r3 c where c: "unsuccessful_loop pg_cursor q1 (set rows) items [] b = (r3, c)"
        by (cases "unsuccessful_loop pg_cursor q1 (set rows) items [] b")
      have "grows (database (cur b)) (database (cur c))"
        using unsuccessful_loop_grows [of b q1 "set rows" items "[]"] c by simp
      from grows_trans [OF gab this] a None b Inr c show ?thesis
        by (cases r3) (simp_all add: reconcile_def warning_cur)
    qed
  qed
qed

lemma link_step_grows:
  "grows (database (cur e)) (database (cur (snd (link_step pg_cursor q1 q2 t cnt e))))"
proof -
  obtain k literal ty where t: "t = (k, literal, ty)" by (cases t)
  obtain r1 a where a: "call_execute pg_cursor q1 [StrV literal] e = (r1, a)"
    by (cases "call_execute pg_cursor q1 [StrV literal] e")
  obtain r2 b where b: "call_fetchone pg_cursor a = (r2, b)"
    by (cases "call_fetchone pg_cursor a")
  have ga: "grows (database (cur e)) (database (cur a))"
    using call_execute_grows [of e q1 "[StrV literal]"] a by simp
  have gb: "grows (database (cur a)) (database (cur b))"
    using call_fetchone_grows [of a] b by simp
  note gab = grows_trans [OF ga gb]
  show ?thesis
  proof (cases r1)
    case (Some err)
    with t a ga show ?thesis by (simp add: link_step_def)
  next
    case None
    show ?thesis
    proof (cases r2)
      case (Inl err)
      with t a None b gab show ?thesis by (simp add: link_step_def)
    next
      case (Inr res)
      show ?thesis
      proof (cases res)
        case no_row: None
        with t a None b Inr gab show ?thesis by (simp add: link_step_def)
      next
        case (Some rw)
        show ?thesis
        proof (cases rw)
          case Nil
          with t a None b Inr Some gab show ?thesis by (simp add: link_step_def)
        next
          case (Cons literal_id cols)
          obtain r3 c where c: "call_execute pg_cursor q2 [literal_id, StrV ty, StrV k] b = (r3, c)"
            by (cases "call_execute pg_cursor q2 [literal_id, StrV ty, StrV k] b")
          have "grows (database (cur b)) (database (cur c))"
            using call_execute_grows [of b q2 "[literal_id, StrV ty, StrV k]"] c by simp
          from grows_trans [OF gab this] t a None b Inr Some Cons c show ?thesis
            by (cases r3) (simp_all add: link_step_def)
        qed
      qed
    qed
  qed
qed

lemma link_loop_grows:
  "grows (database (cur e)) (database (cur (snd (link_loop pg_cursor q1 q2 data cnt e))))"
proof (induction data arbitrary: cnt e)
  case Nil
  show ?case by (simp add: grows_refl)
next
  case (Cons t rest)
  obtain r0 e0 where st: "link_step pg_cursor q1 q2 t cnt e = (r0, e0)"
    by (cases "link_step pg_cursor q1 q2 t cnt e")
  have g: "grows (database (cur e)) (database (cur e0))"
    using link_step_grows [of e q1 q2 t cnt] st by simp
  show ?case
  proof (cases r0)
    case (Inl x)
    with st g show ?thesis by simp
  next
    case (Inr c)
    with st grows_trans [OF g Cons.IH [of e0 c]] show ?thesis by simp
  qed
qed

lemma add_gene_location_grows:
  "grows (database (cur e)) (database (cur (snd (add_gene_location pg_cursor pairs e))))"
proof -
  obtain r e1 where w: "call_executemany pg_cursor Insert_gene_has_location (map pair_params pairs) e = (r, e1)"
    by (cases "call_executemany pg_cursor Insert_gene_has_location (map pair_params pairs) e")
  have g: "grows (database (cur e)) (database (cur e1))"
    using call_executemany_grows [of e Insert_gene_has_location "map pair_params pairs"] w by simp
  from w g grows_trans [OF g reconcile_grows [of e1]] show ?thesis
    by (cases r) (simp_all add: add_gene_location_def Let_def)
qed

lemma add_gene_locus_type_grows:
  "grows (database (cur e)) (database (cur (snd (add_gene_locus_type pg_cursor pairs e))))"
proof -
  obtain r e1 where w: "call_executemany pg_cursor Insert_gene_has_locus_type (map pair_params pairs) e = (r, e1)"
    by (cases "call_executemany pg_cursor Insert_gene_has_locus_type (map pair_params pairs) e")
  have g: "grows (database (cur e)) (database (cur e1))"
    using call_executemany_grows [of e Insert_gene_has_locus_type "map pair_params pairs"] w by simp
  from w g grows_trans [OF g reconcile_grows [of e1]] show ?thesis
    by (cases r) (simp_all add: add_gene_locus_type_def Let_def)
qed

lemma add_gene_name_grows:
  "grows (database (cur e)) (database (cur (snd (add_gene_name pg_cursor triples e))))"
proof -
  obtain r e1 where w: "link_loop pg_cursor Insert_name Insert_gene_has_name triples 0 e = (r, e1)"
    by (cases "link_loop pg_cursor Insert_name Insert_gene_has_name triples 0 e")
  have g: "grows (database (cur e)) (database (cur e1))"
    using link_loop_grows [of e Insert_name Insert_gene_has_name triples 0] w by simp
  from w g grows_trans [OF g reconcile_grows [of e1]] show ?thesis
    by (cases r) (simp_all add: add_gene_name_def)
qed

lemma add_gene_symbol_grows:
  "grows (database (cur e)) (database (cur (snd (add_gene_symbol pg_cursor triples e))))"
proof -
  obtain r e1 where w: "link_loop pg_cursor Insert_symbol Insert_gene_has_symbol triples 0 e = (r, e1)"
    by (cases "link_loop pg_cursor Insert_symbol Insert_gene_has_symbol triples 0 e")
  have g: "grows (database (cur e)) (database (cur e1))"
    using link_loop_grows [of e Insert_symbol Insert_gene_has_symbol triples 0] w by simp
  from w g grows_trans [OF g reconcile_grows [of e1]] show ?thesis
    by (cases r) (simp_all add: add_gene_symbol_def)
qed

text \<open>
  C8.  Whatever the input and whatever the outcome of the call, each of the four
  functions leaves every association table as it was with rows appended, and every
  appended row has \<open>creator_id = 1\<close>, \<open>editor_id = 1\<close> and \<open>status = ''internal''\<close>.  The
  functions take the cursor and the data only, so no argument reaches these columns.
\<close>

theorem written_rows_carry_fixed_provenance:
  "links_appended (gene_has_location (database (cur e)))
     (gene_has_location (database (cur (snd (add_gene_location pg_cursor pairs e))))) \<and>
   links_appended (gene_has_locus_type (database (cur e)))
     (gene_has_locus_type (database (cur (snd (add_gene_locus_type pg_cursor pairs e))))) \<and>
   links_appended (gene_has_name (database (cur e)))
     (gene_has_name (database (cur (snd (add_gene_name pg_cursor triples e))))) \<and>
   links_appended (gene_has_symbol (database (cur e)))
     (gene_has_symbol (database (cur (snd (add_gene_symbol pg_cursor triples e)))))"
  using add_gene_location_grows [of e pairs] add_gene_locus_type_grows [of e pairs]
    add_gene_name_grows [of e triples] add_gene_symbol_grows [of e triples]
  by (simp add: grows_def)

theorem written_rows_carry_fixed_provenance_witness:
  "written (gene_has_location (database (cur (start example_db))))
     (gene_has_location (database (cur (snd (add_gene_location pg_cursor
        [(''P1'', ''LocA''), (''P9'', ''LocB'')] (start example_db))))))
     = [\<lparr>gene_id = 1, target_id = 1, link_type = None,
          creator_id = 1, editor_id = 1, status = ''internal''\<rparr>] \<and>
   written (gene_has_name (database (cur (start example_db))))
     (gene_has_name (database (cur (snd (add_gene_name pg_cursor
        [(''P2'', ''hypothetical protein'', ''approved'')] (start example_db))))))
     = [\<lparr>gene_id = 2, target_id = 2, link_type = Some ''approved'',
          creator_id = 1, editor_id = 1, status = ''internal''\<rparr>] \<and>
   links_appended (gene_has_location (database (cur (start example_db))))
     (gene_has_location (database (cur (snd (add_gene_location pg_cursor
        [(''P1'', ''LocA''), (''P9'', ''LocB'')] (start example_db)))))) \<and>
   links_appended (gene_has_name (database (cur (start example_db))))
     (gene_has_name (database (cur (snd (add_gene_name pg_cursor
        [(''P2'', ''hypothetical protein'', ''approved'')] (start example_db))))))"
proof -
  have w1: "written (gene_has_location (database (cur (start example_db))))
     (gene_has_location (database (cur (snd (add_gene_location pg_cursor
        [(''P1'', ''LocA''), (''P9'', ''LocB'')] (start example_db))))))
     = [\<lparr>gene_id = 1, target_id = 1, link_type = None,
          creator_id = 1, editor_id = 1, status = ''internal''\<rparr>]"
    by code_simp
  have w2: "written (gene_has_name (database (cur (start example_db))))
     (gene_has_name (database (cur (snd (add_gene_name pg_cursor
        [(''P2'', ''hypothetical protein'', ''approved'')] (start example_db))))))
     = [\<lparr>gene_id = 2, target_id = 2, link_type = Some ''approved'',
          creator_id = 1, editor_id = 1, status = ''internal''\<rparr>]"
    by code_simp
  from w1 w2
    written_rows_carry_fixed_provenance [of "start example_db"
      "[(''P1'', ''LocA''), (''P9'', ''LocB'')]"
      "[(''P2'', ''hypothetical protein'', ''approved'')]"]
  show ?thesis by blast
qed

section \<open>The text of the warning\<close>

lemma join_Cons: "join sep (x # xs) = x @ concat (map (\<lambda>y. sep @ y) xs)"
  by (induction xs arbitrary: x) simp_all

lemma not_inserted_message_Cons:
  "not_inserted_message header sep (x # xs) =
     header @ [CHR 0x0A] @ (''('' @ fst x @ '', '' @ snd x @ '')'') @
     concat (map (\<lambda>y. sep @ ''('' @ fst y @ '', '' @ snd y @ '')'') xs)"
  by (simp add: not_inserted_message_def join_Cons newline_def show_pair_def comp_def)

lemma join_contains:
  "x \<in> set xs \<Longrightarrow> \<exists>before after. join sep xs = before @ x @ after"
proof (induction sep xs rule: join.induct)
  case (1 sep)
  then show ?case by simp
next
  case (2 sep y)
  then have "join sep [y] = [] @ x @ []" by simp
  then show ?case by blast
next
  case (3 sep y z zs)
  show ?case
  proof (cases "x = y")
    case True
    then have "join sep (y # z # zs) = [] @ x @ (sep @ join sep (z # zs))" by simp
    then show ?thesis by blast
  next
    case False
    with 3 obtain b a where "join sep (z # zs) = b @ x @ a" by auto
    then have "join sep (y # z # zs) = (y @ sep @ b) @ x @ a" by simp
    then show ?thesis by blast
  qed
qed

lemma not_inserted_message_contains:
  assumes "item \<in> set items"
  shows "\<exists>before after. not_inserted_message header sep items =
           header @ [CHR 0x0A] @ before @ ''('' @ fst item @ '', '' @ snd item @ '')'' @ after"
proof -
  have "show_pair item \<in> set (map show_pair items)" using assms by simp
  from join_contains [OF this, of sep]
  obtain b a where "join sep (map show_pair items) = b @ show_pair item @ a" by blast
  then have "not_inserted_message header sep items =
           header @ [CHR 0x0A] @ b @ ''('' @ fst item @ '', '' @ snd item @ '')'' @ a"
    by (simp add: not_inserted_message_def newline_def show_pair_def)
  then show ?thesis by blast
qed

lemma not_inserted_message_explicit:
  "items \<noteq> [] \<Longrightarrow>
     not_inserted_message header sep items =
       header @ [CHR 0x0A] @ ''('' @ fst (hd items) @ '', '' @ snd (hd items) @ '')'' @
       concat (map (\<lambda>y. sep @ ''('' @ fst y @ '', '' @ snd y @ '')'') (tl items))"
  by (cases items) (simp_all add: not_inserted_message_Cons)

section \<open>The reconciliation pass on the store\<close>

lemma pg_unsuccessful_step:
  assumes sel: "\<And>s k n. pg_execute q [StrV k, StrV n] s
                  = read_rows (map pair_row (f (database s) k n)) s"
  shows "\<exists>e'. unsuccessful_step pg_cursor q S item acc e =
           (Inr (if not_in (first_pair (f (database (cur e)) (fst item) (snd item))) S
                 then acc @ [item] else acc), e') \<and>
           database (cur e') = database (cur e) \<and> warnings e' = warnings e"
  by (cases "f (database (cur e)) (fst item) (snd item)")
     (simp_all add: unsuccessful_step_def call_execute_def call_fetchone_def pg_cursor_def sel
       read_rows_def pg_fetchone_def first_pair_def)

lemma pg_unsuccessful_loop:
  assumes sel: "\<And>s k n. pg_execute q [StrV k, StrV n] s
                  = read_rows (map pair_row (f (database s) k n)) s"
  shows "\<exists>e'. unsuccessful_loop pg_cursor q S items acc e =
           (Inr (acc @ filter (\<lambda>i. not_in (first_pair (f (database (cur e)) (fst i) (snd i))) S)
                         items), e') \<and>
           database (cur e') = database (cur e) \<and> warnings e' = warnings e"
proof (induction items arbitrary: acc e)
  case Nil
  show ?case by simp
next
  case (Cons item rest)
  from pg_unsuccessful_step [OF sel, of S item acc e]
  obtain e0 where st: "unsuccessful_step pg_cursor q S item acc e =
           (Inr (if not_in (first_pair (f (database (cur e)) (fst item) (snd item))) S
                 then acc @ [item] else acc), e0)"
    and d0: "database (cur e0) = database (cur e)" and w0: "warnings e0 = warnings e"
    by blast
  from Cons.IH [of "if not_in (first_pair (f (database (cur e)) (fst item) (snd item))) S
                 then acc @ [item] else acc" e0]
  show ?case using st d0 w0 by auto
qed

lemma pg_reconcile:
  assumes sel: "\<And>s k n. pg_execute q1 [StrV k, StrV n] s
                  = read_rows (map pair_row (f (database s) k n)) s"
    and all: "\<And>s. pg_execute qa [] s = read_rows (link_rows (tbl (database s))) s"
  shows "fst (reconcile pg_cursor qa q1 header sep items e) =
           (if unsuccessful_items (tbl (database (cur e))) (f (database (cur e))) items \<noteq> []
            then Inr () else Inl (RuntimeError No_missing_entries))"
    and "warnings (snd (reconcile pg_cursor qa q1 header sep items e)) =
           (if unsuccessful_items (tbl (database (cur e))) (f (database (cur e))) items \<noteq> []
            then warnings e @ [not_inserted_message header sep
                   (unsuccessful_items (tbl (database (cur e))) (f (database (cur e))) items)]
            else warnings e)"
proof -
  let ?d = "database (cur e)"
  let ?rows = "link_rows (tbl ?d)"
  obtain a where a: "call_execute pg_cursor qa [] e = (None, a)"
    and da: "database (cur a) = ?d" and ra: "result_set (cur a) = Some ?rows"
    and wa: "warnings a = warnings e"
    by (simp add: call_execute_def pg_cursor_def all read_rows_def)
  obtain b where b: "call_fetchall pg_cursor a = (Inr ?rows, b)"
    and db: "database (cur b) = ?d" and wb: "warnings b = warnings e"
    using da ra wa by (simp add: call_fetchall_def pg_cursor_def pg_fetchall_def)
  from pg_unsuccessful_loop [OF sel, of "set ?rows" items "[]" b]
  obtain c where c: "unsuccessful_loop pg_cursor q1 (set ?rows) items [] b =
       (Inr (unsuccessful_items (tbl ?d) (f ?d) items), c)"
    and wc: "warnings c = warnings e"
    using db wb by (auto simp: unsuccessful_items_def)
  show "fst (reconcile pg_cursor qa q1 header sep items e) =
           (if unsuccessful_items (tbl ?d) (f ?d) items \<noteq> []
            then Inr () else Inl (RuntimeError No_missing_entries))"
    using a b c by (simp add: reconcile_def)
  show "warnings (snd (reconcile pg_cursor qa q1 header sep items e)) =
           (if unsuccessful_items (tbl ?d) (f ?d) items \<noteq> []
            then warnings e @ [not_inserted_message header sep
                   (unsuccessful_items (tbl ?d) (f ?d) items)]
            else warnings e)"
    using a b c wc by (simp add: reconcile_def warning_def)
qed

lemma select_pairs_statements:
  "pg_execute Select_gene_location [StrV k, StrV n] s
     = read_rows (map pair_row (select_gene_and (location (database s)) (database s) k n)) s"
  "pg_execute Select_gene_locus_type [StrV k, StrV n] s
     = read_rows (map pair_row (select_gene_and (locus_type (database s)) (database s) k n)) s"
  "pg_execute Select_gene_name [StrV k, StrV n] s
     = read_rows (map pair_row (select_gene_and (name (database s)) (database s) k n)) s"
  "pg_execute Select_gene_symbol [StrV k, StrV n] s
     = read_rows (map pair_row (select_gene_and (symbol (database s)) (database s) k n)) s"
  by (simp_all add: two_strings_def)

lemma select_all_statements:
  "pg_execute Select_gene_has_location [] s = read_rows (link_rows (gene_has_location (database s))) s"
  "pg_execute Select_gene_has_locus_type [] s = read_rows (link_rows (gene_has_locus_type (database s))) s"
  "pg_execute Select_gene_has_name [] s = read_rows (link_rows (gene_has_name (database s))) s"
  "pg_execute Select_gene_has_symbol [] s = read_rows (link_rows (gene_has_symbol (database s))) s"
  by simp_all

lemma add_gene_location_mismatch:
  assumes w: "call_executemany pg_cursor Insert_gene_has_location (map pair_params pairs) e = (None, e1)"
    and c: "rowcount pg_cursor (cur e1) \<noteq> int (length pairs)"
  shows "fst (add_gene_location pg_cursor pairs e) =
           (if unsuccessful_locations (database (cur e1)) pairs \<noteq> []
            then Inr () else Inl (RuntimeError No_missing_entries))"
    and "warnings (snd (add_gene_location pg_cursor pairs e)) =
           (if unsuccessful_locations (database (cur e1)) pairs \<noteq> []
            then warnings e @ [not_inserted_message
                   ''The following rows were not inserted into the gene_has_location table:''
                   (newline @ '' '') (unsuccessful_locations (database (cur e1)) pairs)]
            else warnings e)"
proof -
  have r: "add_gene_location pg_cursor pairs e =
             reconcile pg_cursor Select_gene_has_location Select_gene_location
               ''The following rows were not inserted into the gene_has_location table:''
               (newline @ '' '') pairs e1"
    using w c by (simp add: add_gene_location_def)
  have we: "warnings e1 = warnings e"
    using call_executemany_obs [OF w] by simp
  show "fst (add_gene_location pg_cursor pairs e) =
           (if unsuccessful_locations (database (cur e1)) pairs \<noteq> []
            then Inr () else Inl (RuntimeError No_missing_entries))"
    unfolding r unsuccessful_locations_def
    by (rule pg_reconcile(1) [where f = "\<lambda>d. select_gene_and (location d) d" and tbl = gene_has_location])
       (simp_all add: two_strings_def)
  show "warnings (snd (add_gene_location pg_cursor pairs e)) =
           (if unsuccessful_locations (database (cur e1)) pairs \<noteq> []
            then warnings e @ [not_inserted_message
                   ''The following rows were not inserted into the gene_has_location table:''
                   (newline @ '' '') (unsuccessful_locations (database (cur e1)) pairs)]
            else warnings e)"
    unfolding r unsuccessful_locations_def we [symmetric]
    by (rule pg_reconcile(2) [where f = "\<lambda>d. select_gene_and (location d) d" and tbl = gene_has_location])
       (simp_all add: two_strings_def)
qed

lemma add_gene_locus_type_mismatch:
  assumes w: "call_executemany pg_cursor Insert_gene_has_locus_type (map pair_params pairs) e = (None, e1)"
    and c: "rowcount pg_cursor (cur e1) \<noteq> int (length pairs)"
  shows "fst (add_gene_locus_type pg_cursor pairs e) =
           (if unsuccessful_locus_types (database (cur e1)) pairs \<noteq> []
            then Inr () else Inl (RuntimeError No_missing_entries))"
    and "warnings (snd (add_gene_locus_type pg_cursor pairs e)) =
           (if unsuccessful_locus_types (database (cur e1)) pairs \<noteq> []
            then warnings e @ [not_inserted_message
                   ''The following rows were not inserted into the gene_has_locus_type table:''
                   newline (unsuccessful_locus_types (database (cur e1)) pairs)]
            else warnings e)"
proof -
  have r: "add_gene_locus_type pg_cursor pairs e =
             reconcile pg_cursor Select_gene_has_locus_type Select_gene_locus_type
               ''The following rows were not inserted into the gene_has_locus_type table:''
               newline pairs e1"
    using w c by (simp add: add_gene_locus_type_def)
  have we: "warnings e1 = warnings e"
    using call_executemany_obs [OF w] by simp
  show "fst (add_gene_locus_type pg_cursor pairs e) =
           (if unsuccessful_locus_types (database (cur e1)) pairs \<noteq> []
            then Inr () else Inl (RuntimeError No_missing_entries))"
    unfolding r unsuccessful_locus_types_def
    by (rule pg_reconcile(1) [where f = "\<lambda>d. select_gene_and (locus_type d) d" and tbl = gene_has_locus_type])
       (simp_all add: two_strings_def)
  show "warnings (snd (add_gene_locus_type pg_cursor pairs e)) =
           (if unsuccessful_locus_types (database (cur e1)) pairs \<noteq> []
            then warnings e @ [not_inserted_message
                   ''The following rows were not inserted into the gene_has_locus_type table:''
                   newline (unsuccessful_locus_types (database (cur e1)) pairs)]
            else warnings e)"
    unfolding r unsuccessful_locus_types_def we [symmetric]
    by (rule pg_reconcile(2) [where f = "\<lambda>d. select_gene_and (locus_type d) d" and tbl = gene_has_locus_type])
       (simp_all add: two_strings_def)
qed

lemma add_gene_name_mismatch:
  assumes w: "link_loop pg_cursor Insert_name Insert_gene_has_name triples 0 e = (Inr cnt, e1)"
    and c: "cnt \<noteq> int (length triples)"
  shows "fst (add_gene_name pg_cursor triples e) =
           (if unsuccessful_names (database (cur e1)) (map key_and_literal triples) \<noteq> []
            then Inr () else Inl (RuntimeError No_missing_entries))"
    and "warnings (snd (add_gene_name pg_cursor triples e)) =
           (if unsuccessful_names (database (cur e1)) (map key_and_literal triples) \<noteq> []
            then warnings e @ [not_inserted_message
                   ''The following rows were not inserted into the gene_has_name:''
                   (newline @ '' '') (unsuccessful_names (database (cur e1)) (map key_and_literal triples))]
            else warnings e)"
proof -
  have r: "add_gene_name pg_cursor triples e =
             reconcile pg_cursor Select_gene_has_name Select_gene_name
               ''The following rows were not inserted into the gene_has_name:''
               (newline @ '' '') (map key_and_literal triples) e1"
    using w c by (simp add: add_gene_name_def)
  have we: "warnings e1 = warnings e"
    using link_loop_obs [OF w] by simp
  show "fst (add_gene_name pg_cursor triples e) =
           (if unsuccessful_names (database (cur e1)) (map key_and_literal triples) \<noteq> []
            then Inr () else Inl (RuntimeError No_missing_entries))"
    unfolding r unsuccessful_names_def
    by (rule pg_reconcile(1) [where f = "\<lambda>d. select_gene_and (name d) d" and tbl = gene_has_name])
       (simp_all add: two_strings_def)
  show "warnings (snd (add_gene_name pg_cursor triples e)) =
           (if unsuccessful_names (database (cur e1)) (map key_and_literal triples) \<noteq> []
            then warnings e @ [not_inserted_message
                   ''The following rows were not inserted into the gene_has_name:''
                   (newline @ '' '') (unsuccessful_names (database (cur e1)) (map key_and_literal triples))]
            else warnings e)"
    unfolding r unsuccessful_names_def we [symmetric]
    by (rule pg_reconcile(2) [where f = "\<lambda>d. select_gene_and (name d) d" and tbl = gene_has_name])
       (simp_all add: two_strings_def)
qed

lemma add_gene_symbol_mismatch:
  assumes w: "link_loop pg_cursor Insert_symbol Insert_gene_has_symbol triples 0 e = (Inr cnt, e1)"
    and c: "cnt \<noteq> int (length triples)"
  shows "fst (add_gene_symbol pg_cursor triples e) =
           (if unsuccessful_symbols (database (cur e1)) (map key_and_literal triples) \<noteq> []
            then Inr () else Inl (RuntimeError No_missing_entries))"
    and "warnings (snd (add_gene_symbol pg_cursor triples e)) =
           (if unsuccessful_symbols (database (cur e1)) (map key_and_literal triples) \<noteq> []
            then warnings e @ [not_inserted_message
                   ''The following rows were not inserted into the database:''
                   (newline @ '' '') (unsuccessful_symbols (database (cur e1)) (map key_and_literal triples))]
            else warnings e)"
proof -
  have r: "add_gene_symbol pg_cursor triples e =
             reconcile pg_cursor Select_gene_has_symbol Select_gene_symbol
               ''The following rows were not inserted into the database:''
               (newline @ '' '') (map key_and_literal triples) e1"
    using w c by (simp add: add_gene_symbol_def)
  have we: "warnings e1 = warnings e"
    using link_loop_obs [OF w] by simp
  show "fst (add_gene_symbol pg_cursor triples e) =
           (if unsuccessful_symbols (database (cur e1)) (map key_and_literal triples) \<noteq> []
            then Inr () else Inl (RuntimeError No_missing_entries))"
    unfolding r unsuccessful_symbols_def
    by (rule pg_reconcile(1) [where f = "\<lambda>d. select_gene_and (symbol d) d" and tbl = gene_has_symbol])
       (simp_all add: two_strings_def)
  show "warnings (snd (add_gene_symbol pg_cursor triples e)) =
           (if unsuccessful_symbols (database (cur e1)) (map key_and_literal triples) \<noteq> []
            then warnings e @ [not_inserted_message
                   ''The following rows were not inserted into the database:''
                   (newline @ '' '') (unsuccessful_symbols (database (cur e1)) (map key_and_literal triples))]
            else warnings e)"
    unfolding r unsuccessful_symbols_def we [symmetric]
    by (rule pg_reconcile(2) [where f = "\<lambda>d. select_gene_and (symbol d) d" and tbl = gene_has_symbol])
       (simp_all add: two_strings_def)
qed

text \<open>
  C2.  On the store: when the write phase of a call completed and its count differs
  from the length of the input, the call raises the \<^verbatim>\<open>RuntimeError\<close> "... and yet no
  missing entries are found" and logs no warning if no input item is unsuccessful
  (every item resolves to a persisted pair); and if at least one item is unsuccessful
  it returns normally.  \<open>e1\<close> to \<open>e4\<close> are the states after the write phase.
\<close>

theorem unexplained_mismatch_raises:
  "(call_executemany pg_cursor Insert_gene_has_location (map pair_params pairs) e = (None, e1) \<and>
    rowcount pg_cursor (cur e1) \<noteq> int (length pairs) \<longrightarrow>
      (unsuccessful_locations (database (cur e1)) pairs = [] \<longrightarrow>
         fst (add_gene_location pg_cursor pairs e) = Inl (RuntimeError No_missing_entries) \<and>
         warnings (snd (add_gene_location pg_cursor pairs e)) = warnings e) \<and>
      (unsuccessful_locations (database (cur e1)) pairs \<noteq> [] \<longrightarrow>
         fst (add_gene_location pg_cursor pairs e) = Inr ())) \<and>
   (call_executemany pg_cursor Insert_gene_has_locus_type (map pair_params pairs) e = (None, e2) \<and>
    rowcount pg_cursor (cur e2) \<noteq> int (length pairs) \<longrightarrow>
      (unsuccessful_locus_types (database (cur e2)) pairs = [] \<longrightarrow>
         fst (add_gene_locus_type pg_cursor pairs e) = Inl (RuntimeError No_missing_entries) \<and>
         warnings (snd (add_gene_locus_type pg_cursor pairs e)) = warnings e) \<and>
      (unsuccessful_locus_types (database (cur e2)) pairs \<noteq> [] \<longrightarrow>
         fst (add_gene_locus_type pg_cursor pairs e) = Inr ())) \<and>
   (link_loop pg_cursor Insert_name Insert_gene_has_name triples 0 e = (Inr cnt3, e3) \<and>
    cnt3 \<noteq> int (length triples) \<longrightarrow>
      (unsuccessful_names (database (cur e3)) (map key_and_literal triples) = [] \<longrightarrow>
         fst (add_gene_name pg_cursor triples e) = Inl (RuntimeError No_missing_entries) \<and>
         warnings (snd (add_gene_name pg_cursor triples e)) = warnings e) \<and>
      (unsuccessful_names (database (cur e3)) (map key_and_literal triples) \<noteq> [] \<longrightarrow>
         fst (add_gene_name pg_cursor triples e) = Inr ())) \<and>
   (link_loop pg_cursor Insert_symbol Insert_gene_has_symbol triples 0 e = (Inr cnt4, e4) \<and>
    cnt4 \<noteq> int (length triples) \<longrightarrow>
      (unsuccessful_symbols (database (cur e4)) (map key_and_literal triples) = [] \<longrightarrow>
         fst (add_gene_symbol pg_cursor triples e) = Inl (RuntimeError No_missing_entries) \<and>
         warnings (snd (add_gene_symbol pg_cursor triples e)) = warnings e) \<and>
      (unsuccessful_symbols (database (cur e4)) (map key_and_literal triples) \<noteq> [] \<longrightarrow>
         fst (add_gene_symbol pg_cursor triples e) = Inr ()))"
proof (intro conjI impI)
  assume h: "call_executemany pg_cursor Insert_gene_has_location (map pair_params pairs) e = (None, e1) \<and>
    rowcount pg_cursor (cur e1) \<noteq> int (length pairs)"
  assume u: "unsuccessful_locations (database (cur e1)) pairs = []"
  from h u add_gene_location_mismatch(1) [of pairs e e1]
  show "fst (add_gene_location pg_cursor pairs e) = Inl (RuntimeError No_missing_entries)" by simp
next
  assume h: "call_executemany pg_cursor Insert_gene_has_location (map pair_params pairs) e = (None, e1) \<and>
    rowcount pg_cursor (cur e1) \<noteq> int (length pairs)"
  assume u: "unsuccessful_locations (database (cur e1)) pairs = []"
  from h u add_gene_location_mismatch(2) [of pairs e e1]
  show "warnings (snd (add_gene_location pg_cursor pairs e)) = warnings e" by simp
next
  assume h: "call_executemany pg_cursor Insert_gene_has_location (map pair_params pairs) e = (None, e1) \<and>
    rowcount pg_cursor (cur e1) \<noteq> int (length pairs)"
  assume u: "unsuccessful_locations (database (cur e1)) pairs \<noteq> []"
  from h u add_gene_location_mismatch(1) [of pairs e e1]
  show "fst (add_gene_location pg_cursor pairs e) = Inr ()" by simp
next
  assume h: "call_executemany pg_cursor Insert_gene_has_locus_type (map pair_params pairs) e = (None, e2) \<and>
    rowcount pg_cursor (cur e2) \<noteq> int (length pairs)"
  assume u: "unsuccessful_locus_types (database (cur e2)) pairs = []"
  from h u add_gene_locus_type_mismatch(1) [of pairs e e2]
  show "fst (add_gene_locus_type pg_cursor pairs e) = Inl (RuntimeError No_missing_entries)" by simp
next
  assume h: "call_executemany pg_cursor Insert_gene_has_locus_type (map pair_params pairs) e = (None, e2) \<and>
    rowcount pg_cursor (cur e2) \<noteq> int (length pairs)"
  assume u: "unsuccessful_locus_types (database (cur e2)) pairs = []"
  from h u add_gene_locus_type_mismatch(2) [of pairs e e2]
  show "warnings (snd (add_gene_locus_type pg_cursor pairs e)) = warnings e" by simp
next
  assume h: "call_executemany pg_cursor Insert_gene_has_locus_type (map pair_params pairs) e = (None, e2) \<and>
    rowcount pg_cursor (cur e2) \<noteq> int (length pairs)"
  assume u: "unsuccessful_locus_types (database (cur e2)) pairs \<noteq> []"
  from h u add_gene_locus_type_mismatch(1) [of pairs e e2]
  show "fst (add_gene_locus_type pg_cursor pairs e) = Inr ()" by simp
next
  assume h: "link_loop pg_cursor Insert_name Insert_gene_has_name triples 0 e = (Inr cnt3, e3) \<and>
    cnt3 \<noteq> int (length triples)"
  assume u: "unsuccessful_names (database (cur e3)) (map key_and_literal triples) = []"
  from h u add_gene_name_mismatch(1) [of triples e cnt3 e3]
  show "fst (add_gene_name pg_cursor triples e) = Inl (RuntimeError No_missing_entries)" by simp
next
  assume h: "link_loop pg_cursor Insert_name Insert_gene_has_name triples 0 e = (Inr cnt3, e3) \<and>
    cnt3 \<noteq> int (length triples)"
  assume u: "unsuccessful_names (database (cur e3)) (map key_and_literal triples) = []"
  from h u add_gene_name_mismatch(2) [of triples e cnt3 e3]
  show "warnings (snd (add_gene_name pg_cursor triples e)) = warnings e" by simp
next
  assume h: "link_loop pg_cursor Insert_name Insert_gene_has_name triples 0 e = (Inr cnt3, e3) \<and>
    cnt3 \<noteq> int (length triples)"
  assume u: "unsuccessful_names (database (cur e3)) (map key_and_literal triples) \<noteq> []"
  from h u add_gene_name_mismatch(1) [of triples e cnt3 e3]
  show "fst (add_gene_name pg_cursor triples e) = Inr ()" by simp
next
  assume h: "link_loop pg_cursor Insert_symbol Insert_gene_has_symbol triples 0 e = (Inr cnt4, e4) \<and>
    cnt4 \<noteq> int (length triples)"
  assume u: "unsuccessful_symbols (database (cur e4)) (map key_and_literal triples) = []"
  from h u add_gene_symbol_mismatch(1) [of triples e cnt4 e4]
  show "fst (add_gene_symbol pg_cursor triples e) = Inl (RuntimeError No_missing_entries)" by simp
next
  assume h: "link_loop pg_cursor Insert_symbol Insert_gene_has_symbol triples 0 e = (Inr cnt4, e4) \<and>
    cnt4 \<noteq> int (length triples)"
  assume u: "unsuccessful_symbols (database (cur e4)) (map key_and_literal triples) = []"
  from h u add_gene_symbol_mismatch(2) [of triples e cnt4 e4]
  show "warnings (snd (add_gene_symbol pg_cursor triples e)) = warnings e" by simp
next
  assume h: "link_loop pg_cursor Insert_symbol Insert_gene_has_symbol triples 0 e = (Inr cnt4, e4) \<and>
    cnt4 \<noteq> int (length triples)"
  assume u: "unsuccessful_symbols (database (cur e4)) (map key_and_literal triples) \<noteq> []"
  from h u add_gene_symbol_mismatch(1) [of triples e cnt4 e4]
  show "fst (add_gene_symbol pg_cursor triples e) = Inr ()" by simp
qed

theorem unexplained_mismatch_raises_witness:
  "fst (call_executemany pg_cursor Insert_gene_has_location
          (map pair_params [(''P1'', ''LocC'')]) (start linked_db)) = None \<and>
   rowcount pg_cursor (cur (snd (call_executemany pg_cursor Insert_gene_has_location
          (map pair_params [(''P1'', ''LocC'')]) (start linked_db))))
     \<noteq> int (length [(''P1'', ''LocC'')]) \<and>
   unsuccessful_locations (database (cur (snd (call_executemany pg_cursor Insert_gene_has_location
          (map pair_params [(''P1'', ''LocC'')]) (start linked_db))))) [(''P1'', ''LocC'')] = [] \<and>
   fst (add_gene_location pg_cursor [(''P1'', ''LocC'')] (start linked_db))
     = Inl (RuntimeError No_missing_entries) \<and>
   fst (link_loop pg_cursor Insert_name Insert_gene_has_name
          [(''P9'', ''hypothetical protein'', ''approved'')] 0 (start example_db)) = Inr 0 \<and>
   (0 :: int) \<noteq> int (length [(''P9'', ''hypothetical protein'', ''approved'')]) \<and>
   unsuccessful_names (database (cur (snd (link_loop pg_cursor Insert_name Insert_gene_has_name
          [(''P9'', ''hypothetical protein'', ''approved'')] 0 (start example_db)))))
     (map key_and_literal [(''P9'', ''hypothetical protein'', ''approved'')]) \<noteq> [] \<and>
   fst (add_gene_name pg_cursor [(''P9'', ''hypothetical protein'', ''approved'')]
          (start example_db)) = Inr ()"
proof -
  let ?E = "start linked_db"
  let ?E1 = "snd (call_executemany pg_cursor Insert_gene_has_location
          (map pair_params [(''P1'', ''LocC'')]) ?E)"
  let ?F = "start example_db"
  let ?F3 = "snd (link_loop pg_cursor Insert_name Insert_gene_has_name
          [(''P9'', ''hypothetical protein'', ''approved'')] 0 ?F)"
  have h1: "fst (call_executemany pg_cursor Insert_gene_has_location
          (map pair_params [(''P1'', ''LocC'')]) ?E) = None"
    by code_simp
  have h2: "rowcount pg_cursor (cur ?E1) \<noteq> int (length [(''P1'', ''LocC'')])"
    by code_simp
  have h3: "unsuccessful_locations (database (cur ?E1)) [(''P1'', ''LocC'')] = []"
    by code_simp
  have g1: "fst (link_loop pg_cursor Insert_name Insert_gene_has_name
          [(''P9'', ''hypothetical protein'', ''approved'')] 0 ?F) = Inr 0"
    by code_simp
  have g2: "(0 :: int) \<noteq> int (length [(''P9'', ''hypothetical protein'', ''approved'')])"
    by simp
  have g3: "unsuccessful_names (database (cur ?F3))
     (map key_and_literal [(''P9'', ''hypothetical protein'', ''approved'')]) \<noteq> []"
    by code_simp
  have p1: "call_executemany pg_cursor Insert_gene_has_location
          (map pair_params [(''P1'', ''LocC'')]) ?E = (None, ?E1)"
    using h1 by (simp add: prod_eq_iff)
  have q1: "link_loop pg_cursor Insert_name Insert_gene_has_name
          [(''P9'', ''hypothetical protein'', ''approved'')] 0 ?F = (Inr 0, ?F3)"
    using g1 by (simp add: prod_eq_iff)
  from unexplained_mismatch_raises [of "[(''P1'', ''LocC'')]" ?E ?E1] p1 h2 h3
  have c1: "fst (add_gene_location pg_cursor [(''P1'', ''LocC'')] ?E)
     = Inl (RuntimeError No_missing_entries)"
    by blast
  from unexplained_mismatch_raises
         [of _ ?F _ _ "[(''P9'', ''hypothetical protein'', ''approved'')]" 0 ?F3] q1 g2 g3
  have c2: "fst (add_gene_name pg_cursor [(''P9'', ''hypothetical protein'', ''approved'')] ?F)
     = Inr ()"
    by blast
  from h1 h2 h3 c1 g1 g2 g3 c2 show ?thesis by blast
qed

lemma set_select_gene_and:
  "set (select_gene_and dimension d k n) =
     {(g, l). (g, k) \<in> set (gene d) \<and> (l, n) \<in> set dimension}"
  by (force simp: select_gene_and_def)

lemma unknown_key_is_unsuccessful:
  assumes "item \<in> set items"
    and "fst item \<notin> snd ` set (gene d) \<or> snd item \<notin> snd ` set dimension"
  shows "item \<in> set (unsuccessful_items persisted (select_gene_and dimension d) items)"
proof -
  have "set (select_gene_and dimension d (fst item) (snd item)) = {}"
    using assms(2) unfolding set_select_gene_and by force
  then have "select_gene_and dimension d (fst item) (snd item) = []" by simp
  with assms(1) show ?thesis
    by (simp add: unsuccessful_items_def first_pair_def not_in_def)
qed

section \<open>The link loop on the store\<close>

lemma grows_keeps_rows:
  assumes "grows d d'"
  shows "set (name d) \<subseteq> set (name d')" and "set (symbol d) \<subseteq> set (symbol d')"
    and "gene d' = gene d"
proof -
  from assms have "name d' = name d @ written (name d) (name d')"
    and "symbol d' = symbol d @ written (symbol d) (symbol d')"
    by (simp_all add: grows_def appended_toD [symmetric])
  then show "set (name d) \<subseteq> set (name d')" and "set (symbol d) \<subseteq> set (symbol d')"
    by (metis set_append sup_ge1)+
  from assms show "gene d' = gene d" by (simp add: grows_def)
qed

lemma key_filter_unknown:
  "k \<notin> snd ` set gs \<Longrightarrow> concat (map (\<lambda>g. if snd g = k then [fst g] else []) gs) = []"
  by (induction gs) auto

lemma key_filter_at_most_one:
  "distinct (map snd gs) \<Longrightarrow>
     length (concat (map (\<lambda>g. if snd g = k then [fst g] else []) gs)) \<le> 1"
  by (induction gs) (force simp: key_filter_unknown)+

lemma insert_select_gene_unknown:
  "k \<notin> snd ` set (gene d) \<Longrightarrow> insert_select_gene d k = []"
  by (simp add: insert_select_gene_def key_filter_unknown)

lemma insert_select_gene_at_most_one:
  "distinct (map snd (gene d)) \<Longrightarrow> length (insert_select_gene d k) \<le> 1"
  using key_filter_at_most_one [of "gene d" k] by (simp add: insert_select_gene_def)

lemma insert_select_gene_frame:
  "insert_select_gene (name_update f d) k = insert_select_gene d k"
  "insert_select_gene (symbol_update f d) k = insert_select_gene d k"
  by (simp_all add: insert_select_gene_def)

lemma pg_link_step_duplicate_name:
  assumes "literal \<in> snd ` set (name (database (cur e)))"
  shows "link_step pg_cursor Insert_name Insert_gene_has_name (k, literal, ty) cnt e =
           (Inl (ValueError (Literal_already_exists literal)),
            e\<lparr>cur := (cur e)\<lparr>result_set := None, row_count := - 1\<rparr>,
              calls := calls e @ [Execute Insert_name [StrV literal]]\<rparr>)"
  using assms
  by (simp add: link_step_def call_execute_def pg_cursor_def one_string_def write_literal_def
      failed_def except_23505_def)

lemma pg_link_step_new_name:
  assumes "literal \<notin> snd ` set (name (database (cur e)))"
    and "link_step pg_cursor Insert_name Insert_gene_has_name (k, literal, ty) cnt e = (r, e')"
  shows "name (database (cur e')) =
           name (database (cur e)) @ [(generated_id (name (database (cur e))), literal)]"
    and "\<And>c. r = Inr c \<Longrightarrow>
           c = cnt + int (length (insert_select_gene (database (cur e)) k)) \<and>
           gene_has_name (database (cur e')) =
             gene_has_name (database (cur e)) @
             map (\<lambda>g. new_link (Some ty) (g, generated_id (name (database (cur e)))))
               (insert_select_gene (database (cur e)) k)"
  using assms
  by (auto simp: link_step_def call_execute_def call_fetchone_def pg_cursor_def one_string_def
      write_literal_def failed_def Let_def pg_fetchone_def link_params_def write_links_def
      insert_select_gene_def split: if_splits)

lemma pg_link_step_no_gene_name:
  assumes "literal \<notin> snd ` set (name (database (cur e)))"
    and "insert_select_gene (database (cur e)) k = []"
  shows "fst (link_step pg_cursor Insert_name Insert_gene_has_name (k, literal, ty) cnt e) = Inr cnt"
  using assms
  by (simp add: link_step_def call_execute_def call_fetchone_def pg_cursor_def one_string_def
      write_literal_def failed_def Let_def pg_fetchone_def link_params_def write_links_def
      insert_select_gene_frame violates_unique_def)

lemma pg_link_step_ok_name:
  assumes "link_step pg_cursor Insert_name Insert_gene_has_name t cnt e = (Inr c, e')"
  shows "fst (snd t) \<in> snd ` set (name (database (cur e')))"
    and "c = cnt + int (length (insert_select_gene (database (cur e)) (fst t)))"
proof -
  obtain k literal ty where t: "t = (k, literal, ty)" by (cases t)
  have new: "literal \<notin> snd ` set (name (database (cur e)))"
    using assms pg_link_step_duplicate_name [of literal e k ty cnt] unfolding t by auto
  from pg_link_step_new_name(1) [OF new assms [unfolded t]]
  show "fst (snd t) \<in> snd ` set (name (database (cur e')))"
    unfolding t by (simp add: image_iff)
  from pg_link_step_new_name(2) [OF new assms [unfolded t] refl]
  show "c = cnt + int (length (insert_select_gene (database (cur e)) (fst t)))"
    unfolding t by simp
qed

lemma pg_link_loop_ok_name:
  "link_loop pg_cursor Insert_name Insert_gene_has_name data cnt e = (Inr c, e') \<Longrightarrow>
     (\<forall>t \<in> set data. fst (snd t) \<in> snd ` set (name (database (cur e')))) \<and>
     c = cnt + (\<Sum>t\<leftarrow>data. int (length (insert_select_gene (database (cur e)) (fst t))))"
proof (induction data arbitrary: cnt e)
  case Nil
  then show ?case by simp
next
  case (Cons t rest)
  obtain r0 e0 where st: "link_step pg_cursor Insert_name Insert_gene_has_name t cnt e = (r0, e0)"
    by (cases "link_step pg_cursor Insert_name Insert_gene_has_name t cnt e")
  show ?case
  proof (cases r0)
    case (Inl x)
    with Cons.prems st show ?thesis by simp
  next
    case (Inr c0)
    with Cons.prems st
    have rest: "link_loop pg_cursor Insert_name Insert_gene_has_name rest c0 e0 = (Inr c, e')"
      by simp
    note ih = Cons.IH [OF rest]
    note ok = pg_link_step_ok_name [OF st [unfolded Inr]]
    have g0: "grows (database (cur e)) (database (cur e0))"
      using link_step_grows [of e Insert_name Insert_gene_has_name t cnt] st by simp
    have g1: "grows (database (cur e0)) (database (cur e'))"
      using link_loop_grows [of e0 Insert_name Insert_gene_has_name rest c0] rest by simp
    have same: "insert_select_gene (database (cur e0)) = insert_select_gene (database (cur e))"
      using g0 by (auto simp: grows_def insert_select_gene_def)
    have "set (name (database (cur e0))) \<subseteq> set (name (database (cur e')))"
      using grows_keeps_rows(1) [OF g1] .
    with ok(1) have "fst (snd t) \<in> snd ` set (name (database (cur e')))" by auto
    with ih ok(2) same show ?thesis by simp
  qed
qed

lemma name_run_continues:
  assumes pre: "link_loop pg_cursor Insert_name Insert_gene_has_name pre 0 e = (Inr c, e0)"
    and st: "link_step pg_cursor Insert_name Insert_gene_has_name t c e0 = (Inr c1, e1)"
  shows "grows (database (cur e1))
           (database (cur (snd (add_gene_name pg_cursor (pre @ t # post) e))))"
proof -
  obtain r e2 where post: "link_loop pg_cursor Insert_name Insert_gene_has_name post c1 e1 = (r, e2)"
    by (cases "link_loop pg_cursor Insert_name Insert_gene_has_name post c1 e1")
  have whole: "link_loop pg_cursor Insert_name Insert_gene_has_name (pre @ t # post) 0 e = (r, e2)"
    using pre st post by (simp add: link_loop_append)
  have g: "grows (database (cur e1)) (database (cur e2))"
    using link_loop_grows [of e1 Insert_name Insert_gene_has_name post c1] post by simp
  from whole g grows_trans [OF g reconcile_grows [of e2]] show ?thesis
    by (cases r) (simp_all add: add_gene_name_def)
qed

lemma pg_link_step_duplicate_symbol:
  assumes "literal \<in> snd ` set (symbol (database (cur e)))"
  shows "link_step pg_cursor Insert_symbol Insert_gene_has_symbol (k, literal, ty) cnt e =
           (Inl (ValueError (Literal_already_exists literal)),
            e\<lparr>cur := (cur e)\<lparr>result_set := None, row_count := - 1\<rparr>,
              calls := calls e @ [Execute Insert_symbol [StrV literal]]\<rparr>)"
  using assms
  by (simp add: link_step_def call_execute_def pg_cursor_def one_string_def write_literal_def
      failed_def except_23505_def)

lemma pg_link_step_new_symbol:
  assumes "literal \<notin> snd ` set (symbol (database (cur e)))"
    and "link_step pg_cursor Insert_symbol Insert_gene_has_symbol (k, literal, ty) cnt e = (r, e')"
  shows "symbol (database (cur e')) =
           symbol (database (cur e)) @ [(generated_id (symbol (database (cur e))), literal)]"
    and "\<And>c. r = Inr c \<Longrightarrow>
           c = cnt + int (length (insert_select_gene (database (cur e)) k)) \<and>
           gene_has_symbol (database (cur e')) =
             gene_has_symbol (database (cur e)) @
             map (\<lambda>g. new_link (Some ty) (g, generated_id (symbol (database (cur e)))))
               (insert_select_gene (database (cur e)) k)"
  using assms
  by (auto simp: link_step_def call_execute_def call_fetchone_def pg_cursor_def one_string_def
      write_literal_def failed_def Let_def pg_fetchone_def link_params_def write_links_def
      insert_select_gene_def split: if_splits)

lemma pg_link_step_no_gene_symbol:
  assumes "literal \<notin> snd ` set (symbol (database (cur e)))"
    and "insert_select_gene (database (cur e)) k = []"
  shows "fst (link_step pg_cursor Insert_symbol Insert_gene_has_symbol (k, literal, ty) cnt e) = Inr cnt"
  using assms
  by (simp add: link_step_def call_execute_def call_fetchone_def pg_cursor_def one_string_def
      write_literal_def failed_def Let_def pg_fetchone_def link_params_def write_links_def
      insert_select_gene_frame violates_unique_def)

lemma pg_link_step_ok_symbol:
  assumes "link_step pg_cursor Insert_symbol Insert_gene_has_symbol t cnt e = (Inr c, e')"
  shows "fst (snd t) \<in> snd ` set (symbol (database (cur e')))"
    and "c = cnt + int (length (insert_select_gene (database (cur e)) (fst t)))"
proof -
  obtain k literal ty where t: "t = (k, literal, ty)" by (cases t)
  have new: "literal \<notin> snd ` set (symbol (database (cur e)))"
    using assms pg_link_step_duplicate_symbol [of literal e k ty cnt] unfolding t by auto
  from pg_link_step_new_symbol(1) [OF new assms [unfolded t]]
  show "fst (snd t) \<in> snd ` set (symbol (database (cur e')))"
    unfolding t by (simp add: image_iff)
  from pg_link_step_new_symbol(2) [OF new assms [unfolded t] refl]
  show "c = cnt + int (length (insert_select_gene (database (cur e)) (fst t)))"
    unfolding t by simp
qed

lemma pg_link_loop_ok_symbol:
  "link_loop pg_cursor Insert_symbol Insert_gene_has_symbol data cnt e = (Inr c, e') \<Longrightarrow>
     (\<forall>t \<in> set data. fst (snd t) \<in> snd ` set (symbol (database (cur e')))) \<and>
     c = cnt + (\<Sum>t\<leftarrow>data. int (length (insert_select_gene (database (cur e)) (fst t))))"
proof (induction data arbitrary: cnt e)
  case Nil
  then show ?case by simp
next
  case (Cons t rest)
  obtain r0 e0 where st: "link_step pg_cursor Insert_symbol Insert_gene_has_symbol t cnt e = (r0, e0)"
    by (cases "link_step pg_cursor Insert_symbol Insert_gene_has_symbol t cnt e")
  show ?case
  proof (cases r0)
    case (Inl x)
    with Cons.prems st show ?thesis by simp
  next
    case (Inr c0)
    with Cons.prems st
    have rest: "link_loop pg_cursor Insert_symbol Insert_gene_has_symbol rest c0 e0 = (Inr c, e')"
      by simp
    note ih = Cons.IH [OF rest]
    note ok = pg_link_step_ok_symbol [OF st [unfolded Inr]]
    have g0: "grows (database (cur e)) (database (cur e0))"
      using link_step_grows [of e Insert_symbol Insert_gene_has_symbol t cnt] st by simp
    have g1: "grows (database (cur e0)) (database (cur e'))"
      using link_loop_grows [of e0 Insert_symbol Insert_gene_has_symbol rest c0] rest by simp
    have same: "insert_select_gene (database (cur e0)) = insert_select_gene (database (cur e))"
      using g0 by (auto simp: grows_def insert_select_gene_def)
    have "set (symbol (database (cur e0))) \<subseteq> set (symbol (database (cur e')))"
      using grows_keeps_rows(2) [OF g1] .
    with ok(1) have "fst (snd t) \<in> snd ` set (symbol (database (cur e')))" by auto
    with ih ok(2) same show ?thesis by simp
  qed
qed

lemma symbol_run_continues:
  assumes pre: "link_loop pg_cursor Insert_symbol Insert_gene_has_symbol pre 0 e = (Inr c, e0)"
    and st: "link_step pg_cursor Insert_symbol Insert_gene_has_symbol t c e0 = (Inr c1, e1)"
  shows "grows (database (cur e1))
           (database (cur (snd (add_gene_symbol pg_cursor (pre @ t # post) e))))"
proof -
  obtain r e2 where post: "link_loop pg_cursor Insert_symbol Insert_gene_has_symbol post c1 e1 = (r, e2)"
    by (cases "link_loop pg_cursor Insert_symbol Insert_gene_has_symbol post c1 e1")
  have whole: "link_loop pg_cursor Insert_symbol Insert_gene_has_symbol (pre @ t # post) 0 e = (r, e2)"
    using pre st post by (simp add: link_loop_append)
  have g: "grows (database (cur e1)) (database (cur e2))"
    using link_loop_grows [of e1 Insert_symbol Insert_gene_has_symbol post c1] post by simp
  from whole g grows_trans [OF g reconcile_grows [of e2]] show ?thesis
    by (cases r) (simp_all add: add_gene_symbol_def)
qed

lemma tally_at_most_length:
  "distinct (map snd (gene d)) \<Longrightarrow>
     (\<Sum>t\<leftarrow>data. int (length (insert_select_gene d (fst t)))) \<le> int (length data)"
proof (induction data)
  case Nil
  show ?case by simp
next
  case (Cons t rest)
  from insert_select_gene_at_most_one [OF Cons.prems, of "fst t"] Cons.IH [OF Cons.prems]
  show ?case by simp
qed

lemma tally_below_length:
  assumes "distinct (map snd (gene d))" and "t \<in> set data" and "fst t \<notin> snd ` set (gene d)"
  shows "(\<Sum>t\<leftarrow>data. int (length (insert_select_gene d (fst t)))) < int (length data)"
proof -
  from assms(2) obtain pre post where data: "data = pre @ t # post"
    by (auto dest: split_list)
  have "insert_select_gene d (fst t) = []"
    using assms(3) by (rule insert_select_gene_unknown)
  with tally_at_most_length [OF assms(1), of pre] tally_at_most_length [OF assms(1), of post]
  show ?thesis unfolding data by simp
qed

lemma duplicate_name_aborts:
  assumes pre: "link_loop pg_cursor Insert_name Insert_gene_has_name pre 0 e = (Inr c, e0)"
    and dup: "literal \<in> snd ` set (name (database (cur e0)))"
  shows "add_gene_name pg_cursor (pre @ (k, literal, ty) # post) e =
           (Inl (ValueError (Literal_already_exists literal)),
            e0\<lparr>cur := (cur e0)\<lparr>result_set := None, row_count := - 1\<rparr>,
               calls := calls e0 @ [Execute Insert_name [StrV literal]]\<rparr>)"
  using pre pg_link_step_duplicate_name [OF dup, of k ty c]
  by (simp add: add_gene_name_def link_loop_append)

lemma duplicate_name_never_returns:
  assumes "(k, literal, ty) \<in> set triples"
    and "literal \<in> snd ` set (name (database (cur e)))"
  shows "\<exists>x. fst (add_gene_name pg_cursor triples e) = Inl x"
proof -
  from assms(1) obtain pre post where data: "triples = pre @ (k, literal, ty) # post"
    by (auto dest: split_list)
  obtain r e0 where pre: "link_loop pg_cursor Insert_name Insert_gene_has_name pre 0 e = (r, e0)"
    by (cases "link_loop pg_cursor Insert_name Insert_gene_has_name pre 0 e")
  show ?thesis
  proof (cases r)
    case (Inl x)
    with pre show ?thesis unfolding data by (simp add: add_gene_name_def link_loop_append)
  next
    case (Inr c)
    have "grows (database (cur e)) (database (cur e0))"
      using link_loop_grows [of e Insert_name Insert_gene_has_name pre 0] pre by simp
    from grows_keeps_rows(1) [OF this] assms(2)
    have "literal \<in> snd ` set (name (database (cur e0)))" by auto
    from duplicate_name_aborts [OF pre [unfolded Inr] this] show ?thesis
      unfolding data by simp
  qed
qed

lemma unknown_gene_leaves_name:
  assumes pre: "link_loop pg_cursor Insert_name Insert_gene_has_name pre 0 e = (Inr c, e0)"
    and new: "literal \<notin> snd ` set (name (database (cur e0)))"
    and unk: "k \<notin> snd ` set (gene (database (cur e0)))"
  shows "\<exists>e1. link_step pg_cursor Insert_name Insert_gene_has_name (k, literal, ty) c e0 = (Inr c, e1) \<and>
           name (database (cur e1)) =
             name (database (cur e0)) @ [(generated_id (name (database (cur e0))), literal)] \<and>
           gene_has_name (database (cur e1)) = gene_has_name (database (cur e0))"
    and "(generated_id (name (database (cur e0))), literal) \<in>
           set (name (database (cur (snd (add_gene_name pg_cursor (pre @ (k, literal, ty) # post) e)))))"
proof -
  have none: "insert_select_gene (database (cur e0)) k = []"
    using unk by (rule insert_select_gene_unknown)
  obtain r e1 where st: "link_step pg_cursor Insert_name Insert_gene_has_name (k, literal, ty) c e0 = (r, e1)"
    by (cases "link_step pg_cursor Insert_name Insert_gene_has_name (k, literal, ty) c e0")
  from pg_link_step_no_gene_name [OF new none, of ty c] st have r: "r = Inr c" by simp
  note facts = pg_link_step_new_name [OF new st]
  from facts(2) [OF r] none
  have links: "gene_has_name (database (cur e1)) = gene_has_name (database (cur e0))" by simp
  from st r facts(1) links
  show "\<exists>e1. link_step pg_cursor Insert_name Insert_gene_has_name (k, literal, ty) c e0 = (Inr c, e1) \<and>
           name (database (cur e1)) =
             name (database (cur e0)) @ [(generated_id (name (database (cur e0))), literal)] \<and>
           gene_has_name (database (cur e1)) = gene_has_name (database (cur e0))"
    by simp
  have "(generated_id (name (database (cur e0))), literal) \<in> set (name (database (cur e1)))"
    using facts(1) by simp
  with grows_keeps_rows(1) [OF name_run_continues [OF pre st [unfolded r], of post]]
  show "(generated_id (name (database (cur e0))), literal) \<in>
           set (name (database (cur (snd (add_gene_name pg_cursor (pre @ (k, literal, ty) # post) e)))))"
    by auto
qed

lemma unknown_gene_name_tally_short:
  assumes unk: "k \<notin> snd ` set (gene (database (cur e)))"
    and uniq: "gene_keys_unique (database (cur e))"
    and run: "fst (link_loop pg_cursor Insert_name Insert_gene_has_name
                (pre @ (k, literal, ty) # post) 0 e) = Inr cnt"
  shows "cnt \<noteq> int (length (pre @ (k, literal, ty) # post))"
proof -
  let ?data = "pre @ (k, literal, ty) # post"
  obtain e' where w: "link_loop pg_cursor Insert_name Insert_gene_has_name ?data 0 e = (Inr cnt, e')"
    using run by (cases "link_loop pg_cursor Insert_name Insert_gene_has_name ?data 0 e") simp
  have dist: "distinct (map snd (gene (database (cur e))))"
    using uniq by (simp add: gene_keys_unique_def)
  have "cnt = 0 + (\<Sum>t\<leftarrow>?data. int (length (insert_select_gene (database (cur e)) (fst t))))"
    using pg_link_loop_ok_name [OF w] by blast
  moreover have "(\<Sum>t\<leftarrow>?data. int (length (insert_select_gene (database (cur e)) (fst t))))
                   < int (length ?data)"
    by (rule tally_below_length [OF dist, of "(k, literal, ty)"]) (simp_all add: unk)
  ultimately show ?thesis by simp
qed

lemma unknown_gene_name_in_warning:
  assumes unk: "k \<notin> snd ` set (gene (database (cur e)))"
    and run: "fst (link_loop pg_cursor Insert_name Insert_gene_has_name
                (pre @ (k, literal, ty) # post) 0 e) = Inr cnt"
    and why: "gene_keys_unique (database (cur e)) \<or>
              cnt \<noteq> int (length (pre @ (k, literal, ty) # post))"
  shows "fst (add_gene_name pg_cursor (pre @ (k, literal, ty) # post) e) = Inr () \<and>
         (\<exists>before after.
            warnings (snd (add_gene_name pg_cursor (pre @ (k, literal, ty) # post) e)) =
              warnings e @
              [''The following rows were not inserted into the gene_has_name:'' @
               [CHR 0x0A] @ before @ ''('' @ k @ '', '' @ literal @ '')'' @ after])"
proof -
  let ?data = "pre @ (k, literal, ty) # post"
  obtain e' where w: "link_loop pg_cursor Insert_name Insert_gene_has_name ?data 0 e = (Inr cnt, e')"
    using run by (cases "link_loop pg_cursor Insert_name Insert_gene_has_name ?data 0 e") simp
  have c: "cnt \<noteq> int (length ?data)"
    using why unknown_gene_name_tally_short [OF unk _ run] by blast
  have "grows (database (cur e)) (database (cur e'))"
    using link_loop_grows [of e Insert_name Insert_gene_has_name ?data 0] w by simp
  then have "gene (database (cur e')) = gene (database (cur e))" by (simp add: grows_def)
  with unk have "fst (k, literal) \<notin> snd ` set (gene (database (cur e'))) \<or>
                 snd (k, literal) \<notin> snd ` set (name (database (cur e')))"
    by simp
  moreover have "(k, literal) \<in> set (map key_and_literal ?data)"
    by (simp add: key_and_literal_def)
  ultimately have u: "(k, literal) \<in> set (unsuccessful_names (database (cur e'))
                        (map key_and_literal ?data))"
    unfolding unsuccessful_names_def by (rule unknown_key_is_unsuccessful [rotated])
  then have ne: "unsuccessful_names (database (cur e')) (map key_and_literal ?data) \<noteq> []"
    by auto
  from not_inserted_message_contains [OF u, where header = "''The following rows were not inserted into the gene_has_name:''"
      and sep = "newline @ '' ''"]
  obtain b a where "not_inserted_message
      ''The following rows were not inserted into the gene_has_name:''
      (newline @ '' '') (unsuccessful_names (database (cur e')) (map key_and_literal ?data)) =
      ''The following rows were not inserted into the gene_has_name:'' @
      [CHR 0x0A] @ b @ ''('' @ k @ '', '' @ literal @ '')'' @ a"
    by auto
  with add_gene_name_mismatch [OF w c] ne show ?thesis by auto
qed

lemma duplicate_symbol_aborts:
  assumes pre: "link_loop pg_cursor Insert_symbol Insert_gene_has_symbol pre 0 e = (Inr c, e0)"
    and dup: "literal \<in> snd ` set (symbol (database (cur e0)))"
  shows "add_gene_symbol pg_cursor (pre @ (k, literal, ty) # post) e =
           (Inl (ValueError (Literal_already_exists literal)),
            e0\<lparr>cur := (cur e0)\<lparr>result_set := None, row_count := - 1\<rparr>,
               calls := calls e0 @ [Execute Insert_symbol [StrV literal]]\<rparr>)"
  using pre pg_link_step_duplicate_symbol [OF dup, of k ty c]
  by (simp add: add_gene_symbol_def link_loop_append)

lemma duplicate_symbol_never_returns:
  assumes "(k, literal, ty) \<in> set triples"
    and "literal \<in> snd ` set (symbol (database (cur e)))"
  shows "\<exists>x. fst (add_gene_symbol pg_cursor triples e) = Inl x"
proof -
  from assms(1) obtain pre post where data: "triples = pre @ (k, literal, ty) # post"
    by (auto dest: split_list)
  obtain r e0 where pre: "link_loop pg_cursor Insert_symbol Insert_gene_has_symbol pre 0 e = (r, e0)"
    by (cases "link_loop pg_cursor Insert_symbol Insert_gene_has_symbol pre 0 e")
  show ?thesis
  proof (cases r)
    case (Inl x)
    with pre show ?thesis unfolding data by (simp add: add_gene_symbol_def link_loop_append)
  next
    case (Inr c)
    have "grows (database (cur e)) (database (cur e0))"
      using link_loop_grows [of e Insert_symbol Insert_gene_has_symbol pre 0] pre by simp
    from grows_keeps_rows(2) [OF this] assms(2)
    have "literal \<in> snd ` set (symbol (database (cur e0)))" by auto
    from duplicate_symbol_aborts [OF pre [unfolded Inr] this] show ?thesis
      unfolding data by simp
  qed
qed

lemma unknown_gene_leaves_symbol:
  assumes pre: "link_loop pg_cursor Insert_symbol Insert_gene_has_symbol pre 0 e = (Inr c, e0)"
    and new: "literal \<notin> snd ` set (symbol (database (cur e0)))"
    and unk: "k \<notin> snd ` set (gene (database (cur e0)))"
  shows "\<exists>e1. link_step pg_cursor Insert_symbol Insert_gene_has_symbol (k, literal, ty) c e0 = (Inr c, e1) \<and>
           symbol (database (cur e1)) =
             symbol (database (cur e0)) @ [(generated_id (symbol (database (cur e0))), literal)] \<and>
           gene_has_symbol (database (cur e1)) = gene_has_symbol (database (cur e0))"
    and "(generated_id (symbol (database (cur e0))), literal) \<in>
           set (symbol (database (cur (snd (add_gene_symbol pg_cursor (pre @ (k, literal, ty) # post) e)))))"
proof -
  have none: "insert_select_gene (database (cur e0)) k = []"
    using unk by (rule insert_select_gene_unknown)
  obtain r e1 where st: "link_step pg_cursor Insert_symbol Insert_gene_has_symbol (k, literal, ty) c e0 = (r, e1)"
    by (cases "link_step pg_cursor Insert_symbol Insert_gene_has_symbol (k, literal, ty) c e0")
  from pg_link_step_no_gene_symbol [OF new none, of ty c] st have r: "r = Inr c" by simp
  note facts = pg_link_step_new_symbol [OF new st]
  from facts(2) [OF r] none
  have links: "gene_has_symbol (database (cur e1)) = gene_has_symbol (database (cur e0))" by simp
  from st r facts(1) links
  show "\<exists>e1. link_step pg_cursor Insert_symbol Insert_gene_has_symbol (k, literal, ty) c e0 = (Inr c, e1) \<and>
           symbol (database (cur e1)) =
             symbol (database (cur e0)) @ [(generated_id (symbol (database (cur e0))), literal)] \<and>
           gene_has_symbol (database (cur e1)) = gene_has_symbol (database (cur e0))"
    by simp
  have "(generated_id (symbol (database (cur e0))), literal) \<in> set (symbol (database (cur e1)))"
    using facts(1) by simp
  with grows_keeps_rows(2) [OF symbol_run_continues [OF pre st [unfolded r], of post]]
  show "(generated_id (symbol (database (cur e0))), literal) \<in>
           set (symbol (database (cur (snd (add_gene_symbol pg_cursor (pre @ (k, literal, ty) # post) e)))))"
    by auto
qed

lemma unknown_gene_symbol_tally_short:
  assumes unk: "k \<notin> snd ` set (gene (database (cur e)))"
    and uniq: "gene_keys_unique (database (cur e))"
    and run: "fst (link_loop pg_cursor Insert_symbol Insert_gene_has_symbol
                (pre @ (k, literal, ty) # post) 0 e) = Inr cnt"
  shows "cnt \<noteq> int (length (pre @ (k, literal, ty) # post))"
proof -
  let ?data = "pre @ (k, literal, ty) # post"
  obtain e' where w: "link_loop pg_cursor Insert_symbol Insert_gene_has_symbol ?data 0 e = (Inr cnt, e')"
    using run by (cases "link_loop pg_cursor Insert_symbol Insert_gene_has_symbol ?data 0 e") simp
  have dist: "distinct (map snd (gene (database (cur e))))"
    using uniq by (simp add: gene_keys_unique_def)
  have "cnt = 0 + (\<Sum>t\<leftarrow>?data. int (length (insert_select_gene (database (cur e)) (fst t))))"
    using pg_link_loop_ok_symbol [OF w] by blast
  moreover have "(\<Sum>t\<leftarrow>?data. int (length (insert_select_gene (database (cur e)) (fst t))))
                   < int (length ?data)"
    by (rule tally_below_length [OF dist, of "(k, literal, ty)"]) (simp_all add: unk)
  ultimately show ?thesis by simp
qed

lemma unknown_gene_symbol_in_warning:
  assumes unk: "k \<notin> snd ` set (gene (database (cur e)))"
    and run: "fst (link_loop pg_cursor Insert_symbol Insert_gene_has_symbol
                (pre @ (k, literal, ty) # post) 0 e) = Inr cnt"
    and why: "gene_keys_unique (database (cur e)) \<or>
              cnt \<noteq> int (length (pre @ (k, literal, ty) # post))"
  shows "fst (add_gene_symbol pg_cursor (pre @ (k, literal, ty) # post) e) = Inr () \<and>
         (\<exists>before after.
            warnings (snd (add_gene_symbol pg_cursor (pre @ (k, literal, ty) # post) e)) =
              warnings e @
              [''The following rows were not inserted into the database:'' @
               [CHR 0x0A] @ before @ ''('' @ k @ '', '' @ literal @ '')'' @ after])"
proof -
  let ?data = "pre @ (k, literal, ty) # post"
  obtain e' where w: "link_loop pg_cursor Insert_symbol Insert_gene_has_symbol ?data 0 e = (Inr cnt, e')"
    using run by (cases "link_loop pg_cursor Insert_symbol Insert_gene_has_symbol ?data 0 e") simp
  have c: "cnt \<noteq> int (length ?data)"
    using why unknown_gene_symbol_tally_short [OF unk _ run] by blast
  have "grows (database (cur e)) (database (cur e'))"
    using link_loop_grows [of e Insert_symbol Insert_gene_has_symbol ?data 0] w by simp
  then have "gene (database (cur e')) = gene (database (cur e))" by (simp add: grows_def)
  with unk have "fst (k, literal) \<notin> snd ` set (gene (database (cur e'))) \<or>
                 snd (k, literal) \<notin> snd ` set (symbol (database (cur e')))"
    by simp
  moreover have "(k, literal) \<in> set (map key_and_literal ?data)"
    by (simp add: key_and_literal_def)
  ultimately have u: "(k, literal) \<in> set (unsuccessful_symbols (database (cur e'))
                        (map key_and_literal ?data))"
    unfolding unsuccessful_symbols_def by (rule unknown_key_is_unsuccessful [rotated])
  then have ne: "unsuccessful_symbols (database (cur e')) (map key_and_literal ?data) \<noteq> []"
    by auto
  from not_inserted_message_contains [OF u, where header = "''The following rows were not inserted into the database:''"
      and sep = "newline @ '' ''"]
  obtain b a where "not_inserted_message
      ''The following rows were not inserted into the database:''
      (newline @ '' '') (unsuccessful_symbols (database (cur e')) (map key_and_literal ?data)) =
      ''The following rows were not inserted into the database:'' @
      [CHR 0x0A] @ b @ ''('' @ k @ '', '' @ literal @ '')'' @ a"
    by auto
  with add_gene_symbol_mismatch [OF w c] ne show ?thesis by auto
qed

text \<open>
  C5.  On the store: when the triples before a triple were processed and the literal of
  that triple is in the dimension table by then, \<open>add_gene_name\<close> (\<open>add_gene_symbol\<close>)
  raises the \<^verbatim>\<open>ValueError\<close> "... already exists"; the last call on the cursor is the
  insert of the literal, so no association write was attempted for the triple; the
  tables are as the earlier triples left them, with the literals of all of them in the
  dimension table.  A batch with a literal that is in the table at the start never
  returns normally.
\<close>

theorem duplicate_literal_aborts_before_link:
  "(link_loop pg_cursor Insert_name Insert_gene_has_name pre 0 e = (Inr c, e0) \<and>
    literal \<in> snd ` set (name (database (cur e0))) \<longrightarrow>
      fst (add_gene_name pg_cursor (pre @ (k, literal, ty) # post) e) =
        Inl (ValueError (Literal_already_exists literal)) \<and>
      calls (snd (add_gene_name pg_cursor (pre @ (k, literal, ty) # post) e)) =
        calls e0 @ [Execute Insert_name [StrV literal]] \<and>
      database (cur (snd (add_gene_name pg_cursor (pre @ (k, literal, ty) # post) e))) =
        database (cur e0) \<and>
      (\<forall>t \<in> set pre. fst (snd t) \<in> snd ` set (name (database (cur e0))))) \<and>
   (link_loop pg_cursor Insert_symbol Insert_gene_has_symbol pre 0 e = (Inr c, e0) \<and>
    literal \<in> snd ` set (symbol (database (cur e0))) \<longrightarrow>
      fst (add_gene_symbol pg_cursor (pre @ (k, literal, ty) # post) e) =
        Inl (ValueError (Literal_already_exists literal)) \<and>
      calls (snd (add_gene_symbol pg_cursor (pre @ (k, literal, ty) # post) e)) =
        calls e0 @ [Execute Insert_symbol [StrV literal]] \<and>
      database (cur (snd (add_gene_symbol pg_cursor (pre @ (k, literal, ty) # post) e))) =
        database (cur e0) \<and>
      (\<forall>t \<in> set pre. fst (snd t) \<in> snd ` set (symbol (database (cur e0))))) \<and>
   ((k, literal, ty) \<in> set triples \<and> literal \<in> snd ` set (name (database (cur e))) \<longrightarrow>
      (\<exists>x. fst (add_gene_name pg_cursor triples e) = Inl x)) \<and>
   ((k, literal, ty) \<in> set triples \<and> literal \<in> snd ` set (symbol (database (cur e))) \<longrightarrow>
      (\<exists>x. fst (add_gene_symbol pg_cursor triples e) = Inl x))"
proof (intro conjI impI)
  assume h: "link_loop pg_cursor Insert_name Insert_gene_has_name pre 0 e = (Inr c, e0) \<and>
    literal \<in> snd ` set (name (database (cur e0)))"
  then have r: "add_gene_name pg_cursor (pre @ (k, literal, ty) # post) e =
           (Inl (ValueError (Literal_already_exists literal)),
            e0\<lparr>cur := (cur e0)\<lparr>result_set := None, row_count := - 1\<rparr>,
               calls := calls e0 @ [Execute Insert_name [StrV literal]]\<rparr>)"
    using duplicate_name_aborts by blast
  show "fst (add_gene_name pg_cursor (pre @ (k, literal, ty) # post) e) =
        Inl (ValueError (Literal_already_exists literal))"
    unfolding r by simp
next
  assume h: "link_loop pg_cursor Insert_name Insert_gene_has_name pre 0 e = (Inr c, e0) \<and>
    literal \<in> snd ` set (name (database (cur e0)))"
  then have r: "add_gene_name pg_cursor (pre @ (k, literal, ty) # post) e =
           (Inl (ValueError (Literal_already_exists literal)),
            e0\<lparr>cur := (cur e0)\<lparr>result_set := None, row_count := - 1\<rparr>,
               calls := calls e0 @ [Execute Insert_name [StrV literal]]\<rparr>)"
    using duplicate_name_aborts by blast
  show "calls (snd (add_gene_name pg_cursor (pre @ (k, literal, ty) # post) e)) =
        calls e0 @ [Execute Insert_name [StrV literal]]"
    unfolding r by simp
next
  assume h: "link_loop pg_cursor Insert_name Insert_gene_has_name pre 0 e = (Inr c, e0) \<and>
    literal \<in> snd ` set (name (database (cur e0)))"
  then have r: "add_gene_name pg_cursor (pre @ (k, literal, ty) # post) e =
           (Inl (ValueError (Literal_already_exists literal)),
            e0\<lparr>cur := (cur e0)\<lparr>result_set := None, row_count := - 1\<rparr>,
               calls := calls e0 @ [Execute Insert_name [StrV literal]]\<rparr>)"
    using duplicate_name_aborts by blast
  show "database (cur (snd (add_gene_name pg_cursor (pre @ (k, literal, ty) # post) e))) =
        database (cur e0)"
    unfolding r by simp
next
  assume h: "link_loop pg_cursor Insert_name Insert_gene_has_name pre 0 e = (Inr c, e0) \<and>
    literal \<in> snd ` set (name (database (cur e0)))"
  then have r: "add_gene_name pg_cursor (pre @ (k, literal, ty) # post) e =
           (Inl (ValueError (Literal_already_exists literal)),
            e0\<lparr>cur := (cur e0)\<lparr>result_set := None, row_count := - 1\<rparr>,
               calls := calls e0 @ [Execute Insert_name [StrV literal]]\<rparr>)"
    using duplicate_name_aborts by blast
  from h pg_link_loop_ok_name [of pre 0 e c e0]
  show "\<forall>t \<in> set pre. fst (snd t) \<in> snd ` set (name (database (cur e0)))"
    by blast
next
  assume h: "link_loop pg_cursor Insert_symbol Insert_gene_has_symbol pre 0 e = (Inr c, e0) \<and>
    literal \<in> snd ` set (symbol (database (cur e0)))"
  then have r: "add_gene_symbol pg_cursor (pre @ (k, literal, ty) # post) e =
           (Inl (ValueError (Literal_already_exists literal)),
            e0\<lparr>cur := (cur e0)\<lparr>result_set := None, row_count := - 1\<rparr>,
               calls := calls e0 @ [Execute Insert_symbol [StrV literal]]\<rparr>)"
    using duplicate_symbol_aborts by blast
  show "fst (add_gene_symbol pg_cursor (pre @ (k, literal, ty) # post) e) =
        Inl (ValueError (Literal_already_exists literal))"
    unfolding r by simp
next
  assume h: "link_loop pg_cursor Insert_symbol Insert_gene_has_symbol pre 0 e = (Inr c, e0) \<and>
    literal \<in> snd ` set (symbol (database (cur e0)))"
  then have r: "add_gene_symbol pg_cursor (pre @ (k, literal, ty) # post) e =
           (Inl (ValueError (Literal_already_exists literal)),
            e0\<lparr>cur := (cur e0)\<lparr>result_set := None, row_count := - 1\<rparr>,
               calls := calls e0 @ [Execute Insert_symbol [StrV literal]]\<rparr>)"
    using duplicate_symbol_aborts by blast
  show "calls (snd (add_gene_symbol pg_cursor (pre @ (k, literal, ty) # post) e)) =
        calls e0 @ [Execute Insert_symbol [StrV literal]]"
    unfolding r by simp
next
  assume h: "link_loop pg_cursor Insert_symbol Insert_gene_has_symbol pre 0 e = (Inr c, e0) \<and>
    literal \<in> snd ` set (symbol (database (cur e0)))"
  then have r: "add_gene_symbol pg_cursor (pre @ (k, literal, ty) # post) e =
           (Inl (ValueError (Literal_already_exists literal)),
            e0\<lparr>cur := (cur e0)\<lparr>result_set := None, row_count := - 1\<rparr>,
               calls := calls e0 @ [Execute Insert_symbol [StrV literal]]\<rparr>)"
    using duplicate_symbol_aborts by blast
  show "database (cur (snd (add_gene_symbol pg_cursor (pre @ (k, literal, ty) # post) e))) =
        database (cur e0)"
    unfolding r by simp
next
  assume h: "link_loop pg_cursor Insert_symbol Insert_gene_has_symbol pre 0 e = (Inr c, e0) \<and>
    literal \<in> snd ` set (symbol (database (cur e0)))"
  then have r: "add_gene_symbol pg_cursor (pre @ (k, literal, ty) # post) e =
           (Inl (ValueError (Literal_already_exists literal)),
            e0\<lparr>cur := (cur e0)\<lparr>result_set := None, row_count := - 1\<rparr>,
               calls := calls e0 @ [Execute Insert_symbol [StrV literal]]\<rparr>)"
    using duplicate_symbol_aborts by blast
  from h pg_link_loop_ok_symbol [of pre 0 e c e0]
  show "\<forall>t \<in> set pre. fst (snd t) \<in> snd ` set (symbol (database (cur e0)))"
    by blast
next
  assume "(k, literal, ty) \<in> set triples \<and> literal \<in> snd ` set (name (database (cur e)))"
  then show "\<exists>x. fst (add_gene_name pg_cursor triples e) = Inl x"
    using duplicate_name_never_returns by blast
next
  assume "(k, literal, ty) \<in> set triples \<and> literal \<in> snd ` set (symbol (database (cur e)))"
  then show "\<exists>x. fst (add_gene_symbol pg_cursor triples e) = Inl x"
    using duplicate_symbol_never_returns by blast
qed

theorem duplicate_literal_aborts_before_link_witness:
  "fst (link_loop pg_cursor Insert_name Insert_gene_has_name
          [(''P1'', ''hypothetical protein'', ''approved'')] 0 (start example_db)) = Inr 1 \<and>
   ''cytochrome P450'' \<in> snd ` set (name (database (cur (snd (link_loop pg_cursor Insert_name
          Insert_gene_has_name [(''P1'', ''hypothetical protein'', ''approved'')] 0
          (start example_db)))))) \<and>
   fst (add_gene_name pg_cursor
          ([(''P1'', ''hypothetical protein'', ''approved'')] @
           (''P2'', ''cytochrome P450'', ''approved'') # [(''P2'', ''kinase'', ''alias'')])
          (start example_db))
     = Inl (ValueError (Literal_already_exists ''cytochrome P450'')) \<and>
   calls (snd (add_gene_name pg_cursor
          ([(''P1'', ''hypothetical protein'', ''approved'')] @
           (''P2'', ''cytochrome P450'', ''approved'') # [(''P2'', ''kinase'', ''alias'')])
          (start example_db)))
     = calls (snd (link_loop pg_cursor Insert_name Insert_gene_has_name
          [(''P1'', ''hypothetical protein'', ''approved'')] 0 (start example_db)))
       @ [Execute Insert_name [StrV ''cytochrome P450'']] \<and>
   database (cur (snd (add_gene_name pg_cursor
          ([(''P1'', ''hypothetical protein'', ''approved'')] @
           (''P2'', ''cytochrome P450'', ''approved'') # [(''P2'', ''kinase'', ''alias'')])
          (start example_db))))
     = database (cur (snd (link_loop pg_cursor Insert_name Insert_gene_has_name
          [(''P1'', ''hypothetical protein'', ''approved'')] 0 (start example_db)))) \<and>
   gene_has_name (database (cur (snd (link_loop pg_cursor Insert_name Insert_gene_has_name
          [(''P1'', ''hypothetical protein'', ''approved'')] 0 (start example_db)))))
     = [new_link (Some ''approved'') (1, 2)]"
proof -
  let ?E = "start example_db"
  let ?pre = "[(''P1'', ''hypothetical protein'', ''approved'')]"
  let ?S = "snd (link_loop pg_cursor Insert_name Insert_gene_has_name ?pre 0 ?E)"
  have h1: "fst (link_loop pg_cursor Insert_name Insert_gene_has_name ?pre 0 ?E) = Inr 1"
    by code_simp
  have h2: "''cytochrome P450'' \<in> snd ` set (name (database (cur ?S)))"
    by code_simp
  have h3: "gene_has_name (database (cur ?S)) = [new_link (Some ''approved'') (1, 2)]"
    by code_simp
  have p1: "link_loop pg_cursor Insert_name Insert_gene_has_name ?pre 0 ?E = (Inr 1, ?S)"
    using h1 by (simp add: prod_eq_iff)
  from duplicate_literal_aborts_before_link
         [of ?pre ?E 1 ?S "''cytochrome P450''" "''P2''" "''approved''"
             "[(''P2'', ''kinase'', ''alias'')]"] p1 h2 h1 h3
  show ?thesis by blast
qed

text \<open>
  C9.  On the store: when the triples before a triple were processed, the literal of
  the triple is new and its gene key is in no row of \<^verbatim>\<open>gene\<close>, then the pass for the
  triple does not raise, leaves the tally and the association table as they were, and
  appends the literal with its generated id to the dimension table; that row is still
  in the dimension table when the call ends, whatever its outcome.  When the loop
  completes over an input with such a triple and the gene keys are unique (then the
  tally is below the length of the input) or, whatever the gene keys, the tally differs
  from the length of the input, the call returns normally and logs one warning: the
  header, a newline and a list in which the text \<^verbatim>\<open>(key, literal)\<close> of the triple occurs.
\<close>

theorem unresolved_gene_leaves_literal_row:
  "(link_loop pg_cursor Insert_name Insert_gene_has_name pre 0 e = (Inr c, e0) \<and>
    literal \<notin> snd ` set (name (database (cur e0))) \<and>
    k \<notin> snd ` set (gene (database (cur e0))) \<longrightarrow>
      (\<exists>e1. link_step pg_cursor Insert_name Insert_gene_has_name (k, literal, ty) c e0 = (Inr c, e1) \<and>
          name (database (cur e1)) =
            name (database (cur e0)) @ [(generated_id (name (database (cur e0))), literal)] \<and>
          gene_has_name (database (cur e1)) = gene_has_name (database (cur e0))) \<and>
      (generated_id (name (database (cur e0))), literal) \<in>
        set (name (database (cur (snd (add_gene_name pg_cursor (pre @ (k, literal, ty) # post) e)))))) \<and>
   (k \<notin> snd ` set (gene (database (cur e))) \<and>
    fst (link_loop pg_cursor Insert_name Insert_gene_has_name (pre @ (k, literal, ty) # post) 0 e)
      = Inr cnt \<and>
    (gene_keys_unique (database (cur e)) \<or>
     cnt \<noteq> int (length (pre @ (k, literal, ty) # post))) \<longrightarrow>
      fst (add_gene_name pg_cursor (pre @ (k, literal, ty) # post) e) = Inr () \<and>
      (\<exists>before after.
         warnings (snd (add_gene_name pg_cursor (pre @ (k, literal, ty) # post) e)) =
           warnings e @
           [''The following rows were not inserted into the gene_has_name:'' @
            [CHR 0x0A] @ before @ ''('' @ k @ '', '' @ literal @ '')'' @ after])) \<and>
   (link_loop pg_cursor Insert_symbol Insert_gene_has_symbol pre 0 e = (Inr c, e0) \<and>
    literal \<notin> snd ` set (symbol (database (cur e0))) \<and>
    k \<notin> snd ` set (gene (database (cur e0))) \<longrightarrow>
      (\<exists>e1. link_step pg_cursor Insert_symbol Insert_gene_has_symbol (k, literal, ty) c e0 = (Inr c, e1) \<and>
          symbol (database (cur e1)) =
            symbol (database (cur e0)) @ [(generated_id (symbol (database (cur e0))), literal)] \<and>
          gene_has_symbol (database (cur e1)) = gene_has_symbol (database (cur e0))) \<and>
      (generated_id (symbol (database (cur e0))), literal) \<in>
        set (symbol (database (cur (snd (add_gene_symbol pg_cursor (pre @ (k, literal, ty) # post) e)))))) \<and>
   (k \<notin> snd ` set (gene (database (cur e))) \<and>
    fst (link_loop pg_cursor Insert_symbol Insert_gene_has_symbol (pre @ (k, literal, ty) # post) 0 e)
      = Inr cnt \<and>
    (gene_keys_unique (database (cur e)) \<or>
     cnt \<noteq> int (length (pre @ (k, literal, ty) # post))) \<longrightarrow>
      fst (add_gene_symbol pg_cursor (pre @ (k, literal, ty) # post) e) = Inr () \<and>
      (\<exists>before after.
         warnings (snd (add_gene_symbol pg_cursor (pre @ (k, literal, ty) # post) e)) =
           warnings e @
           [''The following rows were not inserted into the database:'' @
            [CHR 0x0A] @ before @ ''('' @ k @ '', '' @ literal @ '')'' @ after]))"
proof (intro conjI impI)
  assume h: "link_loop pg_cursor Insert_name Insert_gene_has_name pre 0 e = (Inr c, e0) \<and>
    literal \<notin> snd ` set (name (database (cur e0))) \<and>
    k \<notin> snd ` set (gene (database (cur e0)))"
  then show "\<exists>e1. link_step pg_cursor Insert_name Insert_gene_has_name (k, literal, ty) c e0 = (Inr c, e1) \<and>
          name (database (cur e1)) =
            name (database (cur e0)) @ [(generated_id (name (database (cur e0))), literal)] \<and>
          gene_has_name (database (cur e1)) = gene_has_name (database (cur e0))"
    using unknown_gene_leaves_name(1) by blast
next
  assume h: "link_loop pg_cursor Insert_name Insert_gene_has_name pre 0 e = (Inr c, e0) \<and>
    literal \<notin> snd ` set (name (database (cur e0))) \<and>
    k \<notin> snd ` set (gene (database (cur e0)))"
  then show "(generated_id (name (database (cur e0))), literal) \<in>
        set (name (database (cur (snd (add_gene_name pg_cursor (pre @ (k, literal, ty) # post) e)))))"
    using unknown_gene_leaves_name(2) by blast
next
  assume h: "k \<notin> snd ` set (gene (database (cur e))) \<and>
    fst (link_loop pg_cursor Insert_name Insert_gene_has_name (pre @ (k, literal, ty) # post) 0 e)
      = Inr cnt \<and>
    (gene_keys_unique (database (cur e)) \<or>
     cnt \<noteq> int (length (pre @ (k, literal, ty) # post)))"
  then have r: "fst (add_gene_name pg_cursor (pre @ (k, literal, ty) # post) e) = Inr () \<and>
      (\<exists>before after.
         warnings (snd (add_gene_name pg_cursor (pre @ (k, literal, ty) # post) e)) =
           warnings e @
           [''The following rows were not inserted into the gene_has_name:'' @
            [CHR 0x0A] @ before @ ''('' @ k @ '', '' @ literal @ '')'' @ after])"
    using unknown_gene_name_in_warning by blast
  from r show "fst (add_gene_name pg_cursor (pre @ (k, literal, ty) # post) e) = Inr ()" ..
next
  assume h: "k \<notin> snd ` set (gene (database (cur e))) \<and>
    fst (link_loop pg_cursor Insert_name Insert_gene_has_name (pre @ (k, literal, ty) # post) 0 e)
      = Inr cnt \<and>
    (gene_keys_unique (database (cur e)) \<or>
     cnt \<noteq> int (length (pre @ (k, literal, ty) # post)))"
  then have r: "fst (add_gene_name pg_cursor (pre @ (k, literal, ty) # post) e) = Inr () \<and>
      (\<exists>before after.
         warnings (snd (add_gene_name pg_cursor (pre @ (k, literal, ty) # post) e)) =
           warnings e @
           [''The following rows were not inserted into the gene_has_name:'' @
            [CHR 0x0A] @ before @ ''('' @ k @ '', '' @ literal @ '')'' @ after])"
    using unknown_gene_name_in_warning by blast
  from r show "\<exists>before after.
         warnings (snd (add_gene_name pg_cursor (pre @ (k, literal, ty) # post) e)) =
           warnings e @
           [''The following rows were not inserted into the gene_has_name:'' @
            [CHR 0x0A] @ before @ ''('' @ k @ '', '' @ literal @ '')'' @ after]" ..
next
  assume h: "link_loop pg_cursor Insert_symbol Insert_gene_has_symbol pre 0 e = (Inr c, e0) \<and>
    literal \<notin> snd ` set (symbol (database (cur e0))) \<and>
    k \<notin> snd ` set (gene (database (cur e0)))"
  then show "\<exists>e1. link_step pg_cursor Insert_symbol Insert_gene_has_symbol (k, literal, ty) c e0 = (Inr c, e1) \<and>
          symbol (database (cur e1)) =
            symbol (database (cur e0)) @ [(generated_id (symbol (database (cur e0))), literal)] \<and>
          gene_has_symbol (database (cur e1)) = gene_has_symbol (database (cur e0))"
    using unknown_gene_leaves_symbol(1) by blast
next
  assume h: "link_loop pg_cursor Insert_symbol Insert_gene_has_symbol pre 0 e = (Inr c, e0) \<and>
    literal \<notin> snd ` set (symbol (database (cur e0))) \<and>
    k \<notin> snd ` set (gene (database (cur e0)))"
  then show "(generated_id (symbol (database (cur e0))), literal) \<in>
        set (symbol (database (cur (snd (add_gene_symbol pg_cursor (pre @ (k, literal, ty) # post) e)))))"
    using unknown_gene_leaves_symbol(2) by blast
next
  assume h: "k \<notin> snd ` set (gene (database (cur e))) \<and>
    fst (link_loop pg_cursor Insert_symbol Insert_gene_has_symbol (pre @ (k, literal, ty) # post) 0 e)
      = Inr cnt \<and>
    (gene_keys_unique (database (cur e)) \<or>
     cnt \<noteq> int (length (pre @ (k, literal, ty) # post)))"
  then have r: "fst (add_gene_symbol pg_cursor (pre @ (k, literal, ty) # post) e) = Inr () \<and>
      (\<exists>before after.
         warnings (snd (add_gene_symbol pg_cursor (pre @ (k, literal, ty) # post) e)) =
           warnings e @
           [''The following rows were not inserted into the database:'' @
            [CHR 0x0A] @ before @ ''('' @ k @ '', '' @ literal @ '')'' @ after])"
    using unknown_gene_symbol_in_warning by blast
  from r show "fst (add_gene_symbol pg_cursor (pre @ (k, literal, ty) # post) e) = Inr ()" ..
next
  assume h: "k \<notin> snd ` set (gene (database (cur e))) \<and>
    fst (link_loop pg_cursor Insert_symbol Insert_gene_has_symbol (pre @ (k, literal, ty) # post) 0 e)
      = Inr cnt \<and>
    (gene_keys_unique (database (cur e)) \<or>
     cnt \<noteq> int (length (pre @ (k, literal, ty) # post)))"
  then have r: "fst (add_gene_symbol pg_cursor (pre @ (k, literal, ty) # post) e) = Inr () \<and>
      (\<exists>before after.
         warnings (snd (add_gene_symbol pg_cursor (pre @ (k, literal, ty) # post) e)) =
           warnings e @
           [''The following rows were not inserted into the database:'' @
            [CHR 0x0A] @ before @ ''('' @ k @ '', '' @ literal @ '')'' @ after])"
    using unknown_gene_symbol_in_warning by blast
  from r show "\<exists>before after.
         warnings (snd (add_gene_symbol pg_cursor (pre @ (k, literal, ty) # post) e)) =
           warnings e @
           [''The following rows were not inserted into the database:'' @
            [CHR 0x0A] @ before @ ''('' @ k @ '', '' @ literal @ '')'' @ after]" ..
qed

theorem unresolved_gene_leaves_literal_row_witness:
  "fst (link_loop pg_cursor Insert_name Insert_gene_has_name
          [(''P1'', ''hypothetical protein'', ''approved'')] 0 (start example_db)) = Inr 1 \<and>
   ''orphan name'' \<notin> snd ` set (name (database (cur (snd (link_loop pg_cursor Insert_name
          Insert_gene_has_name [(''P1'', ''hypothetical protein'', ''approved'')] 0
          (start example_db)))))) \<and>
   ''P9'' \<notin> snd ` set (gene (database (cur (snd (link_loop pg_cursor Insert_name
          Insert_gene_has_name [(''P1'', ''hypothetical protein'', ''approved'')] 0
          (start example_db)))))) \<and>
   (generated_id (name (database (cur (snd (link_loop pg_cursor Insert_name
          Insert_gene_has_name [(''P1'', ''hypothetical protein'', ''approved'')] 0
          (start example_db)))))), ''orphan name'') \<in>
     set (name (database (cur (snd (add_gene_name pg_cursor
          ([(''P1'', ''hypothetical protein'', ''approved'')] @
           (''P9'', ''orphan name'', ''alias'') # []) (start example_db)))))) \<and>
   ''P9'' \<notin> snd ` set (gene (database (cur (start example_db)))) \<and>
   gene_keys_unique (database (cur (start example_db))) \<and>
   fst (link_loop pg_cursor Insert_name Insert_gene_has_name
          ([(''P1'', ''hypothetical protein'', ''approved'')] @
           (''P9'', ''orphan name'', ''alias'') # []) 0 (start example_db)) = Inr 1 \<and>
   fst (add_gene_name pg_cursor
          ([(''P1'', ''hypothetical protein'', ''approved'')] @
           (''P9'', ''orphan name'', ''alias'') # []) (start example_db)) = Inr () \<and>
   (\<exists>before after.
      warnings (snd (add_gene_name pg_cursor
          ([(''P1'', ''hypothetical protein'', ''approved'')] @
           (''P9'', ''orphan name'', ''alias'') # []) (start example_db))) =
        warnings (start example_db) @
        [''The following rows were not inserted into the gene_has_name:'' @
         [CHR 0x0A] @ before @ ''('' @ ''P9'' @ '', '' @ ''orphan name'' @ '')'' @ after]) \<and>
   warnings (snd (add_gene_name pg_cursor
          ([(''P1'', ''hypothetical protein'', ''approved'')] @
           (''P9'', ''orphan name'', ''alias'') # []) (start example_db)))
     = [''The following rows were not inserted into the gene_has_name:'' @
        [CHR 0x0A] @ ''(P9, orphan name)''] \<and>
   name (database (cur (snd (add_gene_name pg_cursor
          ([(''P1'', ''hypothetical protein'', ''approved'')] @
           (''P9'', ''orphan name'', ''alias'') # []) (start example_db)))))
     = [(1, ''cytochrome P450''), (2, ''hypothetical protein''), (3, ''orphan name'')] \<and>
   gene_has_name (database (cur (snd (add_gene_name pg_cursor
          ([(''P1'', ''hypothetical protein'', ''approved'')] @
           (''P9'', ''orphan name'', ''alias'') # []) (start example_db)))))
     = [new_link (Some ''approved'') (1, 2)]"
proof -
  let ?A = "start example_db"
  let ?pre = "[(''P1'', ''hypothetical protein'', ''approved'')]"
  let ?S = "snd (link_loop pg_cursor Insert_name Insert_gene_has_name ?pre 0 ?A)"
  let ?data = "?pre @ (''P9'', ''orphan name'', ''alias'') # []"
  have h1: "fst (link_loop pg_cursor Insert_name Insert_gene_has_name ?pre 0 ?A) = Inr 1"
    by code_simp
  have h2: "''orphan name'' \<notin> snd ` set (name (database (cur ?S)))"
    by code_simp
  have h3: "''P9'' \<notin> snd ` set (gene (database (cur ?S)))"
    by code_simp
  have h4: "''P9'' \<notin> snd ` set (gene (database (cur ?A)))"
    by code_simp
  have h5: "gene_keys_unique (database (cur ?A))"
    by code_simp
  have h6: "fst (link_loop pg_cursor Insert_name Insert_gene_has_name ?data 0 ?A) = Inr 1"
    by code_simp
  have v1: "name (database (cur (snd (add_gene_name pg_cursor ?data ?A))))
     = [(1, ''cytochrome P450''), (2, ''hypothetical protein''), (3, ''orphan name'')]"
    by code_simp
  have v2: "gene_has_name (database (cur (snd (add_gene_name pg_cursor ?data ?A))))
     = [new_link (Some ''approved'') (1, 2)]"
    by code_simp
  have v3: "warnings (snd (add_gene_name pg_cursor ?data ?A))
     = [''The following rows were not inserted into the gene_has_name:'' @
        [CHR 0x0A] @ ''(P9, orphan name)'']"
    by code_simp
  have p1: "link_loop pg_cursor Insert_name Insert_gene_has_name ?pre 0 ?A = (Inr 1, ?S)"
    using h1 by (simp add: prod_eq_iff)
  note t = unresolved_gene_leaves_literal_row
             [of ?pre ?A 1 ?S "''orphan name''" "''P9''" "''alias''" "[]" 1]
  from t p1 h2 h3
  have c1: "(generated_id (name (database (cur ?S))), ''orphan name'') \<in>
     set (name (database (cur (snd (add_gene_name pg_cursor ?data ?A)))))"
    by blast
  from t h4 h5 h6
  have c2: "fst (add_gene_name pg_cursor ?data ?A) = Inr ()"
    and c3: "\<exists>before after.
      warnings (snd (add_gene_name pg_cursor ?data ?A)) =
        warnings ?A @
        [''The following rows were not inserted into the gene_has_name:'' @
         [CHR 0x0A] @ before @ ''('' @ ''P9'' @ '', '' @ ''orphan name'' @ '')'' @ after]"
    by blast+
  from h1 h2 h3 c1 h4 h5 h6 c2 c3 v3 v1 v2 show ?thesis by blast
qed

section \<open>The batched write on the store\<close>

lemma link_key_new_link: "link_key (new_link ty p) = p"
  by (simp add: link_key_def new_link_def)

lemma map_link_key_new_link: "map link_key (map (new_link ty) ps) = ps"
  by (induction ps) (simp_all add: link_key_new_link)

lemma executemany_hits_stored_pair:
  assumes exec: "\<And>s k n. pg_execute q [StrV k, StrV n] s
                   = write_links tbl upd (map (new_link None) (f (database s) k n)) s"
    and frame: "\<And>g d k n. f (upd g d) k n = f d k n" "\<And>g d. tbl (upd g d) = g (tbl d)"
  shows "\<exists>item \<in> set items. \<exists>p \<in> set (f (database s) (fst item) (snd item)).
            p \<in> set (map link_key (tbl (database s))) \<Longrightarrow>
         fst (pg_executemany_from n q (map pair_params items) s) = Some UniqueViolation"
proof (induction items arbitrary: n s)
  case Nil
  then show ?case by simp
next
  case (Cons item rest)
  let ?rows = "f (database s) (fst item) (snd item)"
  let ?new = "map (new_link None) ?rows"
  have step: "pg_execute q (pair_params item) s = write_links tbl upd ?new s"
    by (simp add: pair_params_def exec)
  show ?case
  proof (cases "violates_unique (tbl (database s)) ?new")
    case True
    then show ?thesis by (simp add: step write_links_def failed_def)
  next
    case False
    let ?s1 = "s\<lparr>database := upd (\<lambda>t. t @ ?new) (database s),
                  result_set := None, row_count := int (length ?new)\<rparr>"
    have ok: "pg_execute q (pair_params item) s = (None, ?s1)"
      using False by (simp add: step write_links_def)
    have not_head: "\<not> (\<exists>p \<in> set ?rows. p \<in> set (map link_key (tbl (database s))))"
      using False by (auto simp: violates_unique_def link_key_new_link)
    from Cons.prems obtain it p where it0: "it \<in> set (item # rest)"
      and p: "p \<in> set (f (database s) (fst it) (snd it))"
      and stored: "p \<in> set (map link_key (tbl (database s)))"
      by blast
    from not_head p stored have "it \<noteq> item" by blast
    with it0 have it: "it \<in> set rest" by simp
    have "\<exists>item \<in> set rest. \<exists>p \<in> set (f (database ?s1) (fst item) (snd item)).
            p \<in> set (map link_key (tbl (database ?s1)))"
      using it p stored by (auto simp: frame)
    from Cons.IH [OF this, of "n + row_count ?s1"] ok show ?thesis by simp
  qed
qed

lemma add_gene_location_duplicate:
  assumes "\<exists>item \<in> set pairs. already_linked_in_assembly (database (cur e)) item"
  shows "add_gene_location pg_cursor pairs e =
           (Inl (ValueError (Pair_already_exists ''gene_has_location'')),
            snd (call_executemany pg_cursor Insert_gene_has_location (map pair_params pairs) e))"
proof -
  have "fst (pg_executemany_from 0 Insert_gene_has_location (map pair_params pairs) (cur e))
          = Some UniqueViolation"
    by (rule executemany_hits_stored_pair
          [where f = insert_select_gene_location and tbl = gene_has_location
             and upd = gene_has_location_update])
       (use assms in \<open>simp_all add: two_strings_def insert_select_gene_location_def
          already_linked_in_assembly_def\<close>)
  then have "fst (call_executemany pg_cursor Insert_gene_has_location (map pair_params pairs) e)
          = Some UniqueViolation"
    by (simp add: call_executemany_def pg_cursor_def pg_executemany_def case_prod_beta)
  then show ?thesis
    by (simp add: add_gene_location_def except_23505_def case_prod_beta)
qed

lemma add_gene_locus_type_duplicate:
  assumes "\<exists>item \<in> set pairs.
             already_linked (locus_type (database (cur e)))
               (gene_has_locus_type (database (cur e))) (database (cur e)) item"
  shows "add_gene_locus_type pg_cursor pairs e =
           (Inl (ValueError (Pair_already_exists ''gene_has_locus_type'')),
            snd (call_executemany pg_cursor Insert_gene_has_locus_type (map pair_params pairs) e))"
proof -
  have "fst (pg_executemany_from 0 Insert_gene_has_locus_type (map pair_params pairs) (cur e))
          = Some UniqueViolation"
    by (rule executemany_hits_stored_pair
          [where f = "\<lambda>d. select_gene_and (locus_type d) d" and tbl = gene_has_locus_type
             and upd = gene_has_locus_type_update])
       (use assms in \<open>simp_all add: two_strings_def select_gene_and_def already_linked_def\<close>)
  then have "fst (call_executemany pg_cursor Insert_gene_has_locus_type (map pair_params pairs) e)
          = Some UniqueViolation"
    by (simp add: call_executemany_def pg_cursor_def pg_executemany_def case_prod_beta)
  then show ?thesis
    by (simp add: add_gene_locus_type_def except_23505_def case_prod_beta)
qed

lemma set_insert_select_gene_location:
  "set (insert_select_gene_location d k n) =
     {(g, l). (g, k) \<in> set (gene d) \<and> (l, n) \<in> set (location d) \<and>
              (1, l) \<in> set (assembly_has_location d)}"
  by (force simp: insert_select_gene_location_def)

lemma scoped_resolution_is_a_resolution:
  "set (insert_select_gene_location d k n) \<subseteq> set (select_gene_and (location d) d k n)"
  unfolding set_insert_select_gene_location set_select_gene_and by blast

lemma scoped_resolution_of_assembly_location:
  assumes "\<forall>l. (l, n) \<in> set (location d) \<longrightarrow> (1, l) \<in> set (assembly_has_location d)"
  shows "set (insert_select_gene_location d k n) = set (select_gene_and (location d) d k n)"
  using assms unfolding set_insert_select_gene_location set_select_gene_and by blast

text \<open>
  On the store: when the batch contains a pair that the \<^verbatim>\<open>SELECT\<close> of the insert
  resolves to a stored association (for a location this requires the location to be
  linked to assembly 1), the call raises the \<^verbatim>\<open>ValueError\<close> "... already exists", logs
  nothing, and its only call on the cursor is the \<^verbatim>\<open>executemany\<close>.  A pair that is
  already present as an association and whose location names only locations of
  assembly 1 is such a pair.
\<close>

lemma stored_pair_in_assembly_aborts_bulk_write:
  "((\<exists>item \<in> set pairs. already_linked_in_assembly (database (cur e)) item) \<longrightarrow>
      fst (add_gene_location pg_cursor pairs e)
        = Inl (ValueError (Pair_already_exists ''gene_has_location'')) \<and>
      warnings (snd (add_gene_location pg_cursor pairs e)) = warnings e \<and>
      calls (snd (add_gene_location pg_cursor pairs e))
        = calls e @ [Executemany Insert_gene_has_location (map pair_params pairs)]) \<and>
   ((\<exists>item \<in> set pairs.
        already_linked (locus_type (database (cur e)))
          (gene_has_locus_type (database (cur e))) (database (cur e)) item) \<longrightarrow>
      fst (add_gene_locus_type pg_cursor pairs e)
        = Inl (ValueError (Pair_already_exists ''gene_has_locus_type'')) \<and>
      warnings (snd (add_gene_locus_type pg_cursor pairs e)) = warnings e \<and>
      calls (snd (add_gene_locus_type pg_cursor pairs e))
        = calls e @ [Executemany Insert_gene_has_locus_type (map pair_params pairs)]) \<and>
   (already_linked (location d) (gene_has_location d) d item \<and>
    (\<forall>l. (l, snd item) \<in> set (location d) \<longrightarrow> (1, l) \<in> set (assembly_has_location d)) \<longrightarrow>
      already_linked_in_assembly d item)"
proof (intro conjI impI)
  assume h: "\<exists>item \<in> set pairs. already_linked_in_assembly (database (cur e)) item"
  note r = add_gene_location_duplicate [OF h]
  obtain x e1 where w: "call_executemany pg_cursor Insert_gene_has_location
                          (map pair_params pairs) e = (x, e1)"
    by (cases "call_executemany pg_cursor Insert_gene_has_location (map pair_params pairs) e")
  note o = call_executemany_obs [OF w]
  show "fst (add_gene_location pg_cursor pairs e)
        = Inl (ValueError (Pair_already_exists ''gene_has_location''))"
    unfolding r by simp
  show "warnings (snd (add_gene_location pg_cursor pairs e)) = warnings e"
    unfolding r using w o by simp
  show "calls (snd (add_gene_location pg_cursor pairs e))
        = calls e @ [Executemany Insert_gene_has_location (map pair_params pairs)]"
    unfolding r using w o by simp
next
  assume h: "\<exists>item \<in> set pairs.
        already_linked (locus_type (database (cur e)))
          (gene_has_locus_type (database (cur e))) (database (cur e)) item"
  note r = add_gene_locus_type_duplicate [OF h]
  obtain x e1 where w: "call_executemany pg_cursor Insert_gene_has_locus_type
                          (map pair_params pairs) e = (x, e1)"
    by (cases "call_executemany pg_cursor Insert_gene_has_locus_type (map pair_params pairs) e")
  note o = call_executemany_obs [OF w]
  show "fst (add_gene_locus_type pg_cursor pairs e)
        = Inl (ValueError (Pair_already_exists ''gene_has_locus_type''))"
    unfolding r by simp
  show "warnings (snd (add_gene_locus_type pg_cursor pairs e)) = warnings e"
    unfolding r using w o by simp
  show "calls (snd (add_gene_locus_type pg_cursor pairs e))
        = calls e @ [Executemany Insert_gene_has_locus_type (map pair_params pairs)]"
    unfolding r using w o by simp
next
  assume h: "already_linked (location d) (gene_has_location d) d item \<and>
    (\<forall>l. (l, snd item) \<in> set (location d) \<longrightarrow> (1, l) \<in> set (assembly_has_location d))"
  then have "set (insert_select_gene_location d (fst item) (snd item))
               = set (select_gene_and (location d) d (fst item) (snd item))"
    using scoped_resolution_of_assembly_location by blast
  with h show "already_linked_in_assembly d item"
    by (simp add: already_linked_def already_linked_in_assembly_def)
qed

lemma stored_pair_in_assembly_aborts_bulk_write_example:
  "(\<exists>item \<in> set [(''P2'', ''LocB''), (''P1'', ''LocA'')].
      already_linked_in_assembly (database (cur (start loaded_db))) item) \<and>
   fst (add_gene_location pg_cursor [(''P2'', ''LocB''), (''P1'', ''LocA'')] (start loaded_db))
     = Inl (ValueError (Pair_already_exists ''gene_has_location'')) \<and>
   calls (snd (add_gene_location pg_cursor [(''P2'', ''LocB''), (''P1'', ''LocA'')]
        (start loaded_db)))
     = calls (start loaded_db) @
       [Executemany Insert_gene_has_location
          (map pair_params [(''P2'', ''LocB''), (''P1'', ''LocA'')])] \<and>
   (\<exists>item \<in> set [(''P2'', ''protein-coding'')].
      already_linked (locus_type (database (cur (start loaded_db))))
        (gene_has_locus_type (database (cur (start loaded_db))))
        (database (cur (start loaded_db))) item) \<and>
   fst (add_gene_locus_type pg_cursor [(''P2'', ''protein-coding'')] (start loaded_db))
     = Inl (ValueError (Pair_already_exists ''gene_has_locus_type'')) \<and>
   already_linked (location loaded_db) (gene_has_location loaded_db) loaded_db (''P1'', ''LocA'') \<and>
   already_linked_in_assembly loaded_db (''P1'', ''LocA'')"
proof -
  let ?A = "start loaded_db"
  have h1: "\<exists>item \<in> set [(''P2'', ''LocB''), (''P1'', ''LocA'')].
      already_linked_in_assembly (database (cur ?A)) item"
    by code_simp
  have h2: "\<exists>item \<in> set [(''P2'', ''protein-coding'')].
      already_linked (locus_type (database (cur ?A)))
        (gene_has_locus_type (database (cur ?A))) (database (cur ?A)) item"
    by code_simp
  have h3: "already_linked (location loaded_db) (gene_has_location loaded_db) loaded_db
              (''P1'', ''LocA'')"
    by code_simp
  have h4: "\<forall>l. (l, snd (''P1'', ''LocA'')) \<in> set (location loaded_db) \<longrightarrow>
        (1, l) \<in> set (assembly_has_location loaded_db)"
    by (simp add: loaded_db_def example_db_def)
  from stored_pair_in_assembly_aborts_bulk_write
         [of "[(''P2'', ''LocB''), (''P1'', ''LocA'')]" ?A loaded_db "(''P1'', ''LocA'')"] h1 h3 h4
  have c1: "fst (add_gene_location pg_cursor [(''P2'', ''LocB''), (''P1'', ''LocA'')] ?A)
     = Inl (ValueError (Pair_already_exists ''gene_has_location''))"
    and c2: "calls (snd (add_gene_location pg_cursor [(''P2'', ''LocB''), (''P1'', ''LocA'')] ?A))
     = calls ?A @
       [Executemany Insert_gene_has_location
          (map pair_params [(''P2'', ''LocB''), (''P1'', ''LocA'')])]"
    and c3: "already_linked_in_assembly loaded_db (''P1'', ''LocA'')"
    by blast+
  from stored_pair_in_assembly_aborts_bulk_write [of "[(''P2'', ''protein-coding'')]" ?A] h2
  have c4: "fst (add_gene_locus_type pg_cursor [(''P2'', ''protein-coding'')] ?A)
     = Inl (ValueError (Pair_already_exists ''gene_has_locus_type''))"
    by blast
  from h1 c1 c2 h2 c4 h3 c3 show ?thesis by blast
qed

text \<open>
  C4.  The docstring of \<open>add_gene_location\<close> says: "If any of the provided gene-location
  pairs already exist in the table, a ValueError is raised."  The function does not do
  so for a stored pair whose location is not linked to assembly 1.  In the store
  \<open>linked_db\<close> gene \<^verbatim>\<open>P1\<close> (id 1) and location \<^verbatim>\<open>LocC\<close> (id 3, linked to assembly 2 only)
  are associated by a stored row.  For the batch [(\<^verbatim>\<open>P1\<close>, \<^verbatim>\<open>LocC\<close>)] the \<^verbatim>\<open>SELECT\<close> of the
  insert, which joins \<^verbatim>\<open>assembly_has_location\<close> with \<^verbatim>\<open>assembly_id = 1\<close>, finds no row: the
  \<^verbatim>\<open>executemany\<close> raises nothing and reports 0 rows.  The reconciliation pass, whose
  query has no such join, resolves the pair to (1, 3), finds it among the stored keys,
  and the call ends in the \<^verbatim>\<open>RuntimeError\<close> "... and yet no missing entries are found"
  instead of the \<^verbatim>\<open>ValueError\<close>.  \<open>add_gene_locus_type\<close>, whose insert has no scoping
  join, raises the \<^verbatim>\<open>ValueError\<close> for a stored pair.
\<close>

theorem stored_pair_outside_assembly_raises_runtime_error:
  "map link_key (gene_has_location linked_db) = [(1, 3)] \<and>
   select_gene_and (location linked_db) linked_db ''P1'' ''LocC'' = [(1, 3)] \<and>
   already_linked (location linked_db) (gene_has_location linked_db) linked_db
     (''P1'', ''LocC'') \<and>
   insert_select_gene_location linked_db ''P1'' ''LocC'' = [] \<and>
   fst (call_executemany pg_cursor Insert_gene_has_location
          (map pair_params [(''P1'', ''LocC'')]) (start linked_db)) = None \<and>
   rowcount pg_cursor (cur (snd (call_executemany pg_cursor Insert_gene_has_location
          (map pair_params [(''P1'', ''LocC'')]) (start linked_db)))) = 0 \<and>
   fst (add_gene_location pg_cursor [(''P1'', ''LocC'')] (start linked_db))
     = Inl (RuntimeError No_missing_entries) \<and>
   fst (add_gene_location pg_cursor [(''P1'', ''LocC'')] (start linked_db))
     \<noteq> Inl (ValueError (Pair_already_exists ''gene_has_location'')) \<and>
   warnings (snd (add_gene_location pg_cursor [(''P1'', ''LocC'')] (start linked_db))) = [] \<and>
   gene_has_location (database (cur (snd (add_gene_location pg_cursor [(''P1'', ''LocC'')]
          (start linked_db))))) = gene_has_location linked_db \<and>
   fst (add_gene_locus_type pg_cursor [(''P2'', ''protein-coding'')] (start loaded_db))
     = Inl (ValueError (Pair_already_exists ''gene_has_locus_type''))"
  by code_simp

section \<open>Resolution at write time and in the reconciliation pass\<close>

lemma link_rows_new_links: "link_rows (map (new_link ty) ps) = map pair_row ps"
  by (simp add: link_rows_def new_link_def pair_row_def)

lemma select_gene_and_frame:
  "select_gene_and dimension (gene_has_location_update g d) k n = select_gene_and dimension d k n"
  "select_gene_and dimension (gene_has_locus_type_update g d) k n = select_gene_and dimension d k n"
  "select_gene_and dimension (gene_has_name_update g d) k n = select_gene_and dimension d k n"
  "select_gene_and dimension (gene_has_symbol_update g d) k n = select_gene_and dimension d k n"
  by (simp_all add: select_gene_and_def)

lemma locus_type_audit_is_write:
  assumes "pg_execute Insert_gene_has_locus_type [StrV k, StrV n] s = (None, s1)"
  shows "pg_execute Select_gene_locus_type [StrV k, StrV n] s1 =
           read_rows (link_rows (written (gene_has_locus_type (database s))
                                         (gene_has_locus_type (database s1)))) s1"
  using assms
  by (auto simp: two_strings_def write_links_def failed_def written_append link_rows_new_links
      select_gene_and_frame split: if_splits)

lemma location_audit_covers_write:
  assumes "pg_execute Insert_gene_has_location [StrV k, StrV n] s = (None, s1)"
  shows "pg_execute Select_gene_location [StrV k, StrV n] s1 =
           read_rows (map pair_row (select_gene_and (location (database s)) (database s) k n)) s1"
    and "map link_key (written (gene_has_location (database s)) (gene_has_location (database s1)))
           = insert_select_gene_location (database s) k n"
  using assms
  by (auto simp: two_strings_def write_links_def failed_def written_append
      comp_def link_key_new_link select_gene_and_frame split: if_splits)

lemma no_row_of_other_literal:
  "literal \<notin> snd ` set t \<Longrightarrow>
     concat (map (\<lambda>l. if P \<and> snd l = literal then [(x, fst l)] else []) t) = []"
  by (induction t) auto

lemma select_gene_and_new_literal:
  assumes "literal \<notin> snd ` set t"
  shows "select_gene_and (t @ [(i, literal)]) d k literal
           = map (\<lambda>g. (g, i)) (insert_select_gene d k)"
proof -
  have "concat (map (\<lambda>g. concat (map (\<lambda>l. if snd g = k \<and> snd l = literal
                                        then [(fst g, fst l)] else []) (t @ [(i, literal)]))) gs)
          = map (\<lambda>g. (g, i)) (concat (map (\<lambda>g. if snd g = k then [fst g] else []) gs))" for gs
    by (induction gs) (simp_all add: no_row_of_other_literal [OF assms])
  then show ?thesis by (simp add: select_gene_and_def insert_select_gene_def)
qed

lemma name_audit_is_write:
  assumes st: "link_step pg_cursor Insert_name Insert_gene_has_name (k, literal, ty) cnt e = (Inr c, e1)"
  shows "pg_execute Select_gene_name [StrV k, StrV literal] (cur e1) =
           read_rows (link_rows (written (gene_has_name (database (cur e)))
                                         (gene_has_name (database (cur e1))))) (cur e1)"
proof -
  let ?d = "database (cur e)" and ?d1 = "database (cur e1)"
  let ?i = "generated_id (name ?d)"
  have new: "literal \<notin> snd ` set (name ?d)"
    using st pg_link_step_duplicate_name [of literal e k ty cnt] by auto
  note facts = pg_link_step_new_name [OF new st]
  have "grows ?d ?d1"
    using link_step_grows [of e Insert_name Insert_gene_has_name "(k, literal, ty)" cnt] st by simp
  then have genes: "gene ?d1 = gene ?d" by (simp add: grows_def)
  have "select_gene_and (name ?d1) ?d1 k literal = select_gene_and (name ?d @ [(?i, literal)]) ?d k literal"
    using genes facts(1) by (simp add: select_gene_and_def)
  also have "\<dots> = map (\<lambda>g. (g, ?i)) (insert_select_gene ?d k)"
    using new by (rule select_gene_and_new_literal)
  finally have rows: "select_gene_and (name ?d1) ?d1 k literal
                        = map (\<lambda>g. (g, ?i)) (insert_select_gene ?d k)" .
  have "written (gene_has_name ?d) (gene_has_name ?d1)
          = map (\<lambda>g. new_link (Some ty) (g, ?i)) (insert_select_gene ?d k)"
    using facts(2) [OF refl] by (simp add: written_append)
  then have "link_rows (written (gene_has_name ?d) (gene_has_name ?d1))
               = map pair_row (select_gene_and (name ?d1) ?d1 k literal)"
    unfolding rows by (simp add: link_rows_def new_link_def pair_row_def)
  then show ?thesis by (simp add: two_strings_def)
qed

lemma symbol_audit_is_write:
  assumes st: "link_step pg_cursor Insert_symbol Insert_gene_has_symbol (k, literal, ty) cnt e = (Inr c, e1)"
  shows "pg_execute Select_gene_symbol [StrV k, StrV literal] (cur e1) =
           read_rows (link_rows (written (gene_has_symbol (database (cur e)))
                                         (gene_has_symbol (database (cur e1))))) (cur e1)"
proof -
  let ?d = "database (cur e)" and ?d1 = "database (cur e1)"
  let ?i = "generated_id (symbol ?d)"
  have new: "literal \<notin> snd ` set (symbol ?d)"
    using st pg_link_step_duplicate_symbol [of literal e k ty cnt] by auto
  note facts = pg_link_step_new_symbol [OF new st]
  have "grows ?d ?d1"
    using link_step_grows [of e Insert_symbol Insert_gene_has_symbol "(k, literal, ty)" cnt] st by simp
  then have genes: "gene ?d1 = gene ?d" by (simp add: grows_def)
  have "select_gene_and (symbol ?d1) ?d1 k literal = select_gene_and (symbol ?d @ [(?i, literal)]) ?d k literal"
    using genes facts(1) by (simp add: select_gene_and_def)
  also have "\<dots> = map (\<lambda>g. (g, ?i)) (insert_select_gene ?d k)"
    using new by (rule select_gene_and_new_literal)
  finally have rows: "select_gene_and (symbol ?d1) ?d1 k literal
                        = map (\<lambda>g. (g, ?i)) (insert_select_gene ?d k)" .
  have "written (gene_has_symbol ?d) (gene_has_symbol ?d1)
          = map (\<lambda>g. new_link (Some ty) (g, ?i)) (insert_select_gene ?d k)"
    using facts(2) [OF refl] by (simp add: written_append)
  then have "link_rows (written (gene_has_symbol ?d) (gene_has_symbol ?d1))
               = map pair_row (select_gene_and (symbol ?d1) ?d1 k literal)"
    unfolding rows by (simp add: link_rows_def new_link_def pair_row_def)
  then show ?thesis by (simp add: two_strings_def)
qed

text \<open>
  On the store, for an item whose write succeeded, the query of the reconciliation pass
  returns exactly the pairs the write inserted for the item in \<open>add_gene_locus_type\<close>,
  \<open>add_gene_name\<close> and \<open>add_gene_symbol\<close>: these three audit with the resolution of
  their insert.  In \<open>add_gene_location\<close> the query joins \<^verbatim>\<open>gene\<close> and \<^verbatim>\<open>location\<close> by the
  natural keys only, without the join on \<^verbatim>\<open>assembly_has_location\<close> of the insert: it
  returns every pair the write inserted, and exactly those when every location of that
  name is linked to assembly 1.
\<close>

lemma audit_resolution_on_written_items:
  "(pg_execute Insert_gene_has_locus_type [StrV k, StrV n] s = (None, s1) \<longrightarrow>
      pg_execute Select_gene_locus_type [StrV k, StrV n] s1 =
        read_rows (link_rows (written (gene_has_locus_type (database s))
                                      (gene_has_locus_type (database s1)))) s1) \<and>
   (link_step pg_cursor Insert_name Insert_gene_has_name (k, literal, ty) cnt e = (Inr c, e1) \<longrightarrow>
      pg_execute Select_gene_name [StrV k, StrV literal] (cur e1) =
        read_rows (link_rows (written (gene_has_name (database (cur e)))
                                      (gene_has_name (database (cur e1))))) (cur e1)) \<and>
   (link_step pg_cursor Insert_symbol Insert_gene_has_symbol (k, literal, ty) cnt e = (Inr c, e1) \<longrightarrow>
      pg_execute Select_gene_symbol [StrV k, StrV literal] (cur e1) =
        read_rows (link_rows (written (gene_has_symbol (database (cur e)))
                                      (gene_has_symbol (database (cur e1))))) (cur e1)) \<and>
   (pg_execute Insert_gene_has_location [StrV k, StrV n] s = (None, s1) \<longrightarrow>
      (\<exists>rows.
         pg_execute Select_gene_location [StrV k, StrV n] s1 = read_rows (map pair_row rows) s1 \<and>
         set (map link_key (written (gene_has_location (database s))
                                    (gene_has_location (database s1)))) \<subseteq> set rows \<and>
         ((\<forall>l. (l, n) \<in> set (location (database s)) \<longrightarrow>
                (1, l) \<in> set (assembly_has_location (database s))) \<longrightarrow>
          set rows = set (map link_key (written (gene_has_location (database s))
                                               (gene_has_location (database s1)))))))"
proof (intro conjI impI)
  assume "pg_execute Insert_gene_has_locus_type [StrV k, StrV n] s = (None, s1)"
  then show "pg_execute Select_gene_locus_type [StrV k, StrV n] s1 =
        read_rows (link_rows (written (gene_has_locus_type (database s))
                                      (gene_has_locus_type (database s1)))) s1"
    by (rule locus_type_audit_is_write)
next
  assume "link_step pg_cursor Insert_name Insert_gene_has_name (k, literal, ty) cnt e = (Inr c, e1)"
  then show "pg_execute Select_gene_name [StrV k, StrV literal] (cur e1) =
        read_rows (link_rows (written (gene_has_name (database (cur e)))
                                      (gene_has_name (database (cur e1))))) (cur e1)"
    by (rule name_audit_is_write)
next
  assume "link_step pg_cursor Insert_symbol Insert_gene_has_symbol (k, literal, ty) cnt e = (Inr c, e1)"
  then show "pg_execute Select_gene_symbol [StrV k, StrV literal] (cur e1) =
        read_rows (link_rows (written (gene_has_symbol (database (cur e)))
                                      (gene_has_symbol (database (cur e1))))) (cur e1)"
    by (rule symbol_audit_is_write)
next
  assume w: "pg_execute Insert_gene_has_location [StrV k, StrV n] s = (None, s1)"
  let ?rows = "select_gene_and (location (database s)) (database s) k n"
  let ?keys = "map link_key (written (gene_has_location (database s))
                                     (gene_has_location (database s1)))"
  note f = location_audit_covers_write [OF w]
  have a: "pg_execute Select_gene_location [StrV k, StrV n] s1 = read_rows (map pair_row ?rows) s1"
    by (rule f(1))
  have b: "set ?keys \<subseteq> set ?rows"
    unfolding f(2) by (rule scoped_resolution_is_a_resolution)
  have c: "(\<forall>l. (l, n) \<in> set (location (database s)) \<longrightarrow>
                (1, l) \<in> set (assembly_has_location (database s))) \<longrightarrow>
          set ?rows = set ?keys"
    unfolding f(2) using scoped_resolution_of_assembly_location [of n "database s" k] by simp
  from a b c
  show "\<exists>rows.
         pg_execute Select_gene_location [StrV k, StrV n] s1 = read_rows (map pair_row rows) s1 \<and>
         set ?keys \<subseteq> set rows \<and>
         ((\<forall>l. (l, n) \<in> set (location (database s)) \<longrightarrow>
                (1, l) \<in> set (assembly_has_location (database s))) \<longrightarrow>
          set rows = set ?keys)"
    by blast
qed

lemma audit_resolution_on_written_items_example:
  "fst (pg_execute Insert_gene_has_locus_type [StrV ''P1'', StrV ''protein-coding'']
          (cur (start example_db))) = None \<and>
   written (gene_has_locus_type (database (cur (start example_db))))
     (gene_has_locus_type (database (snd (pg_execute Insert_gene_has_locus_type
        [StrV ''P1'', StrV ''protein-coding''] (cur (start example_db))))))
     = [new_link None (1, 1)] \<and>
   pg_execute Select_gene_locus_type [StrV ''P1'', StrV ''protein-coding'']
     (snd (pg_execute Insert_gene_has_locus_type [StrV ''P1'', StrV ''protein-coding'']
        (cur (start example_db))))
     = read_rows (link_rows (written (gene_has_locus_type (database (cur (start example_db))))
         (gene_has_locus_type (database (snd (pg_execute Insert_gene_has_locus_type
            [StrV ''P1'', StrV ''protein-coding''] (cur (start example_db))))))))
       (snd (pg_execute Insert_gene_has_locus_type [StrV ''P1'', StrV ''protein-coding'']
          (cur (start example_db)))) \<and>
   fst (pg_execute Insert_gene_has_location [StrV ''P1'', StrV ''LocA'']
          (cur (start example_db))) = None \<and>
   (\<exists>rows.
      pg_execute Select_gene_location [StrV ''P1'', StrV ''LocA'']
        (snd (pg_execute Insert_gene_has_location [StrV ''P1'', StrV ''LocA'']
           (cur (start example_db))))
        = read_rows (map pair_row rows)
            (snd (pg_execute Insert_gene_has_location [StrV ''P1'', StrV ''LocA'']
               (cur (start example_db)))) \<and>
      set rows = set (map link_key (written (gene_has_location (database (cur (start example_db))))
         (gene_has_location (database (snd (pg_execute Insert_gene_has_location
            [StrV ''P1'', StrV ''LocA''] (cur (start example_db)))))))))"
proof -
  let ?A = "cur (start example_db)"
  let ?B = "snd (pg_execute Insert_gene_has_locus_type [StrV ''P1'', StrV ''protein-coding''] ?A)"
  let ?C = "snd (pg_execute Insert_gene_has_location [StrV ''P1'', StrV ''LocA''] ?A)"
  have h1: "fst (pg_execute Insert_gene_has_locus_type [StrV ''P1'', StrV ''protein-coding''] ?A)
              = None"
    by code_simp
  have v1: "written (gene_has_locus_type (database ?A)) (gene_has_locus_type (database ?B))
              = [new_link None (1, 1)]"
    by code_simp
  have h2: "fst (pg_execute Insert_gene_has_location [StrV ''P1'', StrV ''LocA''] ?A) = None"
    by code_simp
  have h3: "\<forall>l. (l, ''LocA'') \<in> set (location (database ?A)) \<longrightarrow>
                (1, l) \<in> set (assembly_has_location (database ?A))"
    by (simp add: start_def example_db_def)
  have p1: "pg_execute Insert_gene_has_locus_type [StrV ''P1'', StrV ''protein-coding''] ?A
              = (None, ?B)"
    using h1 by (simp add: prod_eq_iff)
  have p2: "pg_execute Insert_gene_has_location [StrV ''P1'', StrV ''LocA''] ?A = (None, ?C)"
    using h2 by (simp add: prod_eq_iff)
  from audit_resolution_on_written_items [of "''P1''" "''protein-coding''" ?A ?B] p1
  have c1: "pg_execute Select_gene_locus_type [StrV ''P1'', StrV ''protein-coding''] ?B
     = read_rows (link_rows (written (gene_has_locus_type (database ?A))
         (gene_has_locus_type (database ?B)))) ?B"
    by blast
  from audit_resolution_on_written_items [of "''P1''" "''LocA''" ?A ?C] p2 h3
  have c2: "\<exists>rows.
      pg_execute Select_gene_location [StrV ''P1'', StrV ''LocA''] ?C
        = read_rows (map pair_row rows) ?C \<and>
      set rows = set (map link_key (written (gene_has_location (database ?A))
         (gene_has_location (database ?C))))"
    by blast
  from h1 v1 c1 h2 c2 show ?thesis by blast
qed

text \<open>
  C7.  The reconciliation query of \<open>add_gene_location\<close> does not re-resolve an item to
  the pair the write would have produced: it omits the join on
  \<^verbatim>\<open>assembly_has_location\<close> with \<^verbatim>\<open>assembly_id = 1\<close> that the \<^verbatim>\<open>SELECT\<close> of its insert
  applies.  For the item (\<^verbatim>\<open>P1\<close>, \<^verbatim>\<open>LocC\<close>), whose location is linked to assembly 2 only,
  the write resolves no pair and inserts nothing, while the reconciliation query
  resolves the pair (1, 3).  When that pair is stored already (the store \<open>linked_db\<close>),
  the reconciliation pass takes the item for written and the call ends in the
  \<^verbatim>\<open>RuntimeError\<close> "... and yet no missing entries are found".
\<close>

theorem location_audit_resolves_pair_the_write_does_not:
  "insert_select_gene_location example_db ''P1'' ''LocC'' = [] \<and>
   select_gene_and (location example_db) example_db ''P1'' ''LocC'' = [(1, 3)] \<and>
   fst (pg_execute Insert_gene_has_location [StrV ''P1'', StrV ''LocC'']
          (cur (start example_db))) = None \<and>
   written (gene_has_location example_db)
     (gene_has_location (database (snd (pg_execute Insert_gene_has_location
        [StrV ''P1'', StrV ''LocC''] (cur (start example_db)))))) = [] \<and>
   fst (pg_fetchone (snd (pg_execute Select_gene_location [StrV ''P1'', StrV ''LocC'']
          (snd (pg_execute Insert_gene_has_location [StrV ''P1'', StrV ''LocC'']
             (cur (start example_db)))))))
     = Inr (Some [IntV 1, IntV 3]) \<and>
   insert_select_gene_location linked_db ''P1'' ''LocC'' = [] \<and>
   select_gene_and (location linked_db) linked_db ''P1'' ''LocC'' = [(1, 3)] \<and>
   unsuccessful_locations
     (database (cur (snd (call_executemany pg_cursor Insert_gene_has_location
        (map pair_params [(''P1'', ''LocC'')]) (start linked_db)))))
     [(''P1'', ''LocC'')] = [] \<and>
   fst (add_gene_location pg_cursor [(''P1'', ''LocC'')] (start linked_db))
     = Inl (RuntimeError No_missing_entries)"
  by code_simp

section \<open>Which items the reconciliation pass reports\<close>

lemma executemany_stores_resolved_pairs:
  assumes exec: "\<And>s k n. pg_execute q [StrV k, StrV n] s
                   = write_links tbl upd (map (new_link None) (f (database s) k n)) s"
    and frame: "\<And>g d k n. f (upd g d) k n = f d k n" "\<And>g d. tbl (upd g d) = g (tbl d)"
  shows "pg_executemany_from m q (map pair_params items) s = (None, s1) \<Longrightarrow>
           set (tbl (database s)) \<subseteq> set (tbl (database s1)) \<and>
           (\<forall>k n. f (database s1) k n = f (database s) k n) \<and>
           (\<forall>item \<in> set items.
              set (f (database s) (fst item) (snd item)) \<subseteq> set (map link_key (tbl (database s1))))"
proof (induction items arbitrary: m s)
  case Nil
  then show ?case by auto
next
  case (Cons item rest)
  let ?rows = "f (database s) (fst item) (snd item)"
  let ?new = "map (new_link None) ?rows"
  let ?s' = "s\<lparr>database := upd (\<lambda>t. t @ ?new) (database s),
                 result_set := None, row_count := int (length ?new)\<rparr>"
  have step: "pg_execute q (pair_params item) s = write_links tbl upd ?new s"
    by (simp add: pair_params_def exec)
  have ok: "\<not> violates_unique (tbl (database s)) ?new"
    using Cons.prems by (auto simp: step write_links_def failed_def)
  then have rest: "pg_executemany_from (m + row_count ?s') q (map pair_params rest) ?s' = (None, s1)"
    using Cons.prems by (simp add: step write_links_def)
  note ih = Cons.IH [OF rest]
  have t': "tbl (database ?s') = tbl (database s) @ ?new" by (simp add: frame)
  have f': "\<And>k n. f (database ?s') k n = f (database s) k n" by (simp add: frame)
  from ih have sub: "set (tbl (database s) @ ?new) \<subseteq> set (tbl (database s1))"
    unfolding t' by blast
  have head: "set ?rows \<subseteq> set (map link_key (tbl (database s1)))"
  proof
    fix p assume "p \<in> set ?rows"
    then have "new_link None p \<in> set (tbl (database s) @ ?new)" by simp
    with sub have "new_link None p \<in> set (tbl (database s1))" by blast
    then have "link_key (new_link None p) \<in> set (map link_key (tbl (database s1)))" by simp
    then show "p \<in> set (map link_key (tbl (database s1)))" by (simp add: link_key_new_link)
  qed
  show ?case
  proof (intro conjI ballI allI)
    from sub show "set (tbl (database s)) \<subseteq> set (tbl (database s1))" by auto
  next
    fix k n
    from ih have "f (database s1) k n = f (database ?s') k n" by blast
    with f' show "f (database s1) k n = f (database s) k n" by simp
  next
    fix it assume it: "it \<in> set (item # rest)"
    show "set (f (database s) (fst it) (snd it)) \<subseteq> set (map link_key (tbl (database s1)))"
    proof (cases "it = item")
      case True
      with head show ?thesis by simp
    next
      case False
      with it have "it \<in> set rest" by simp
      with ih have "set (f (database ?s') (fst it) (snd it)) \<subseteq> set (map link_key (tbl (database s1)))"
        by blast
      then show ?thesis unfolding f' .
    qed
  qed
qed

lemma stored_key_is_fetched: "p \<in> set (map link_key t) \<Longrightarrow> pair_row p \<in> set (link_rows t)"
  by (auto simp: link_rows_def link_key_def pair_row_def)

lemma unsuccessful_items_exact:
  assumes "\<forall>item \<in> set items.
             set (select_gene_and dimension d (fst item) (snd item)) \<subseteq> set (map link_key persisted)"
  shows "unsuccessful_items persisted (select_gene_and dimension d) items
           = filter (unknown_keys dimension d) items"
  unfolding unsuccessful_items_def
proof (rule filter_cong [OF refl])
  fix item assume item: "item \<in> set items"
  let ?rows = "select_gene_and dimension d (fst item) (snd item)"
  have known: "unknown_keys dimension d item \<longleftrightarrow> set ?rows = {}"
    unfolding set_select_gene_and unknown_keys_def by force
  show "not_in (first_pair ?rows) (set (link_rows persisted)) = unknown_keys dimension d item"
  proof (cases ?rows)
    case Nil
    with known show ?thesis by (simp add: first_pair_def not_in_def)
  next
    case (Cons p ps)
    then have "p \<in> set ?rows" by simp
    with assms item have "pair_row p \<in> set (link_rows persisted)"
      by (blast intro: stored_key_is_fetched)
    with Cons known show ?thesis by (simp add: first_pair_def not_in_def)
  qed
qed

lemma call_executemany_on_store:
  "call_executemany pg_cursor q pss e = (r, e1) \<Longrightarrow>
     pg_executemany_from 0 q pss (cur e) = (r, cur e1)"
  by (auto simp: call_executemany_def pg_cursor_def pg_executemany_def split: prod.splits)

lemma locus_type_unsuccessful_exact:
  assumes w: "call_executemany pg_cursor Insert_gene_has_locus_type (map pair_params pairs) e
                = (None, e2)"
  shows "unsuccessful_locus_types (database (cur e2)) pairs
           = filter (unknown_keys (locus_type (database (cur e2))) (database (cur e2))) pairs"
proof -
  let ?d = "database (cur e)" and ?d2 = "database (cur e2)"
  have st: "set (gene_has_locus_type ?d) \<subseteq> set (gene_has_locus_type ?d2) \<and>
        (\<forall>k n. select_gene_and (locus_type ?d2) ?d2 k n = select_gene_and (locus_type ?d) ?d k n) \<and>
        (\<forall>item \<in> set pairs. set (select_gene_and (locus_type ?d) ?d (fst item) (snd item))
           \<subseteq> set (map link_key (gene_has_locus_type ?d2)))"
    by (rule executemany_stores_resolved_pairs
          [where f = "\<lambda>d. select_gene_and (locus_type d) d" and tbl = gene_has_locus_type
             and upd = gene_has_locus_type_update, OF _ _ _ call_executemany_on_store [OF w]])
       (simp_all add: two_strings_def select_gene_and_def)
  then have "\<forall>item \<in> set pairs. set (select_gene_and (locus_type ?d2) ?d2 (fst item) (snd item))
           \<subseteq> set (map link_key (gene_has_locus_type ?d2))"
    by simp
  then show ?thesis
    unfolding unsuccessful_locus_types_def by (rule unsuccessful_items_exact)
qed

lemma location_unsuccessful_exact:
  assumes w: "call_executemany pg_cursor Insert_gene_has_location (map pair_params pairs) e
                = (None, e1)"
    and asm: "\<forall>item \<in> set pairs. \<forall>l. (l, snd item) \<in> set (location (database (cur e1))) \<longrightarrow>
                (1, l) \<in> set (assembly_has_location (database (cur e1)))"
  shows "unsuccessful_locations (database (cur e1)) pairs
           = filter (unknown_keys (location (database (cur e1))) (database (cur e1))) pairs"
proof -
  let ?d = "database (cur e)" and ?d1 = "database (cur e1)"
  have st: "set (gene_has_location ?d) \<subseteq> set (gene_has_location ?d1) \<and>
        (\<forall>k n. insert_select_gene_location ?d1 k n = insert_select_gene_location ?d k n) \<and>
        (\<forall>item \<in> set pairs. set (insert_select_gene_location ?d (fst item) (snd item))
           \<subseteq> set (map link_key (gene_has_location ?d1)))"
    by (rule executemany_stores_resolved_pairs
          [where f = insert_select_gene_location and tbl = gene_has_location
             and upd = gene_has_location_update, OF _ _ _ call_executemany_on_store [OF w]])
       (simp_all add: two_strings_def insert_select_gene_location_def)
  have "\<forall>item \<in> set pairs. set (select_gene_and (location ?d1) ?d1 (fst item) (snd item))
           \<subseteq> set (map link_key (gene_has_location ?d1))"
  proof
    fix item assume item: "item \<in> set pairs"
    with asm have eq: "set (insert_select_gene_location ?d1 (fst item) (snd item))
                     = set (select_gene_and (location ?d1) ?d1 (fst item) (snd item))"
      by (intro scoped_resolution_of_assembly_location) blast
    from st have same: "insert_select_gene_location ?d1 (fst item) (snd item)
                     = insert_select_gene_location ?d (fst item) (snd item)"
      by blast
    from st item have "set (insert_select_gene_location ?d (fst item) (snd item))
           \<subseteq> set (map link_key (gene_has_location ?d1))"
      by blast
    then show "set (select_gene_and (location ?d1) ?d1 (fst item) (snd item))
           \<subseteq> set (map link_key (gene_has_location ?d1))"
      unfolding eq [symmetric] same .
  qed
  then show ?thesis
    unfolding unsuccessful_locations_def by (rule unsuccessful_items_exact)
qed

lemma fetched_key_is_stored: "pair_row p \<in> set (link_rows t) \<Longrightarrow> p \<in> set (map link_key t)"
  by (cases p) (auto simp: link_rows_def link_key_def pair_row_def)

lemma executemany_stores_only_resolved_pairs:
  assumes exec: "\<And>s k n. pg_execute q [StrV k, StrV n] s
                   = write_links tbl upd (map (new_link None) (f (database s) k n)) s"
    and frame: "\<And>g d k n. f (upd g d) k n = f d k n" "\<And>g d. tbl (upd g d) = g (tbl d)"
  shows "pg_executemany_from m q (map pair_params items) s = (None, s1) \<Longrightarrow>
           set (map link_key (tbl (database s1))) \<subseteq>
             set (map link_key (tbl (database s))) \<union>
             (\<Union>item \<in> set items. set (f (database s) (fst item) (snd item)))"
proof (induction items arbitrary: m s)
  case Nil
  then show ?case by auto
next
  case (Cons item rest)
  let ?rows = "f (database s) (fst item) (snd item)"
  let ?new = "map (new_link None) ?rows"
  let ?s' = "s\<lparr>database := upd (\<lambda>t. t @ ?new) (database s),
                 result_set := None, row_count := int (length ?new)\<rparr>"
  have step: "pg_execute q (pair_params item) s = write_links tbl upd ?new s"
    by (simp add: pair_params_def exec)
  have ok: "\<not> violates_unique (tbl (database s)) ?new"
    using Cons.prems by (auto simp: step write_links_def failed_def)
  then have rest: "pg_executemany_from (m + row_count ?s') q (map pair_params rest) ?s' = (None, s1)"
    using Cons.prems by (simp add: step write_links_def)
  note ih = Cons.IH [OF rest]
  have t': "map link_key (tbl (database ?s')) = map link_key (tbl (database s)) @ ?rows"
    by (simp add: frame comp_def link_key_new_link)
  have f': "\<And>k n. f (database ?s') k n = f (database s) k n" by (simp add: frame)
  from ih show ?case unfolding t' f' by auto
qed

lemma location_outside_assembly_is_unsuccessful:
  assumes w: "call_executemany pg_cursor Insert_gene_has_location (map pair_params pairs) e
                = (None, e1)"
    and item: "item \<in> set pairs"
    and outside: "\<forall>l. (l, snd item) \<in> set (location (database (cur e))) \<longrightarrow>
                    (1, l) \<notin> set (assembly_has_location (database (cur e)))"
    and fresh: "\<not> already_linked (location (database (cur e)))
                    (gene_has_location (database (cur e))) (database (cur e)) item"
  shows "item \<in> set (unsuccessful_locations (database (cur e1)) pairs)"
proof -
  let ?d = "database (cur e)" and ?d1 = "database (cur e1)"
  have "grows ?d ?d1"
    using call_executemany_grows [of e Insert_gene_has_location "map pair_params pairs"] w by simp
  then have same: "gene ?d1 = gene ?d" "location ?d1 = location ?d"
    by (simp_all add: grows_def)
  have res: "select_gene_and (location ?d1) ?d1 (fst item) (snd item)
               = select_gene_and (location ?d) ?d (fst item) (snd item)"
    by (simp add: select_gene_and_def same)
  have keys: "set (map link_key (gene_has_location ?d1)) \<subseteq>
                set (map link_key (gene_has_location ?d)) \<union>
                (\<Union>i \<in> set pairs. set (insert_select_gene_location ?d (fst i) (snd i)))"
    by (rule executemany_stores_only_resolved_pairs
          [where f = insert_select_gene_location and tbl = gene_has_location
             and upd = gene_has_location_update, OF _ _ _ call_executemany_on_store [OF w]])
       (simp_all add: two_strings_def insert_select_gene_location_def)
  have no: "p \<notin> set (map link_key (gene_has_location ?d1))"
    if p: "p \<in> set (select_gene_and (location ?d) ?d (fst item) (snd item))" for p
  proof
    assume stored: "p \<in> set (map link_key (gene_has_location ?d1))"
    from p fresh have "p \<notin> set (map link_key (gene_has_location ?d))"
      by (auto simp: already_linked_def)
    with stored keys obtain i where "p \<in> set (insert_select_gene_location ?d (fst i) (snd i))"
      by blast
    then have "(1, snd p) \<in> set (assembly_has_location ?d)"
      unfolding set_insert_select_gene_location by auto
    moreover from p have "(snd p, snd item) \<in> set (location ?d)"
      unfolding set_select_gene_and by auto
    ultimately show False using outside by blast
  qed
  have "not_in (first_pair (select_gene_and (location ?d) ?d (fst item) (snd item)))
          (set (link_rows (gene_has_location ?d1)))"
  proof (cases "select_gene_and (location ?d) ?d (fst item) (snd item)")
    case Nil
    then show ?thesis by (simp add: first_pair_def not_in_def)
  next
    case (Cons p ps)
    then have "p \<in> set (select_gene_and (location ?d) ?d (fst item) (snd item))" by simp
    from no [OF this] have "pair_row p \<notin> set (link_rows (gene_has_location ?d1))"
      using fetched_key_is_stored by blast
    with Cons show ?thesis by (simp add: first_pair_def not_in_def)
  qed
  with item show ?thesis
    by (simp add: unsuccessful_locations_def unsuccessful_items_def res)
qed

lemma unknown_keys_after_write:
  assumes "grows d d1"
  shows "unknown_keys (location d1) d1 = unknown_keys (location d) d"
    and "unknown_keys (locus_type d1) d1 = unknown_keys (locus_type d) d"
  using assms by (simp_all add: unknown_keys_def grows_def fun_eq_iff)

lemma select_gene_and_other_literal:
  "literal' \<noteq> literal \<Longrightarrow>
     select_gene_and (t @ [(i, literal')]) d k literal = select_gene_and t d k literal"
  by (simp add: select_gene_and_def)

lemma name_step_resolution:
  assumes st: "link_step pg_cursor Insert_name Insert_gene_has_name (k, literal, ty) cnt e = (Inr c, e1)"
  shows "literal \<in> snd ` set (name (database (cur e1)))"
    and "set (select_gene_and (name (database (cur e1))) (database (cur e1)) k literal)
           \<subseteq> set (map link_key (gene_has_name (database (cur e1))))"
    and "literal' \<in> snd ` set (name (database (cur e))) \<Longrightarrow>
           select_gene_and (name (database (cur e1))) (database (cur e1)) k' literal'
             = select_gene_and (name (database (cur e))) (database (cur e)) k' literal'"
proof -
  let ?d = "database (cur e)" and ?d1 = "database (cur e1)"
  let ?i = "generated_id (name ?d)"
  have new: "literal \<notin> snd ` set (name ?d)"
    using st pg_link_step_duplicate_name [of literal e k ty cnt] by auto
  note facts = pg_link_step_new_name [OF new st]
  have "grows ?d ?d1"
    using link_step_grows [of e Insert_name Insert_gene_has_name "(k, literal, ty)" cnt] st by simp
  then have genes: "gene ?d1 = gene ?d" by (simp add: grows_def)
  from facts(1) show "literal \<in> snd ` set (name ?d1)" by (simp add: image_iff)
  have "select_gene_and (name ?d1) ?d1 k literal = select_gene_and (name ?d @ [(?i, literal)]) ?d k literal"
    using genes facts(1) by (simp add: select_gene_and_def)
  also have "\<dots> = map (\<lambda>g. (g, ?i)) (insert_select_gene ?d k)"
    using new by (rule select_gene_and_new_literal)
  finally have rows: "select_gene_and (name ?d1) ?d1 k literal
                        = map (\<lambda>g. (g, ?i)) (insert_select_gene ?d k)" .
  have "map link_key (gene_has_name ?d1)
          = map link_key (gene_has_name ?d) @ map (\<lambda>g. (g, ?i)) (insert_select_gene ?d k)"
    using facts(2) [OF refl] by (simp add: comp_def link_key_new_link)
  with rows show "set (select_gene_and (name ?d1) ?d1 k literal)
                    \<subseteq> set (map link_key (gene_has_name ?d1))"
    by simp
  show "select_gene_and (name ?d1) ?d1 k' literal' = select_gene_and (name ?d) ?d k' literal'"
    if old: "literal' \<in> snd ` set (name ?d)"
  proof -
    from old new have "literal \<noteq> literal'" by blast
    then have "select_gene_and (name ?d @ [(?i, literal)]) ?d k' literal'
                 = select_gene_and (name ?d) ?d k' literal'"
      by (rule select_gene_and_other_literal)
    moreover have "select_gene_and (name ?d1) ?d1 k' literal'
                     = select_gene_and (name ?d @ [(?i, literal)]) ?d k' literal'"
      using genes facts(1) by (simp add: select_gene_and_def)
    ultimately show ?thesis by simp
  qed
qed

lemma name_loop_keeps_resolution:
  "link_loop pg_cursor Insert_name Insert_gene_has_name data cnt e = (Inr c, e') \<Longrightarrow>
   literal \<in> snd ` set (name (database (cur e))) \<Longrightarrow>
     select_gene_and (name (database (cur e'))) (database (cur e')) k literal
       = select_gene_and (name (database (cur e))) (database (cur e)) k literal"
proof (induction data arbitrary: cnt e)
  case Nil
  then show ?case by simp
next
  case (Cons t rest)
  obtain r0 e0 where st: "link_step pg_cursor Insert_name Insert_gene_has_name t cnt e = (r0, e0)"
    by (cases "link_step pg_cursor Insert_name Insert_gene_has_name t cnt e")
  show ?case
  proof (cases r0)
    case (Inl x)
    with Cons.prems st show ?thesis by simp
  next
    case (Inr c0)
    with Cons.prems st
    have rest: "link_loop pg_cursor Insert_name Insert_gene_has_name rest c0 e0 = (Inr c, e')"
      by simp
    obtain k0 l0 ty0 where t: "t = (k0, l0, ty0)" by (cases t)
    note step = name_step_resolution [OF st [unfolded Inr t]]
    have "grows (database (cur e)) (database (cur e0))"
      using link_step_grows [of e Insert_name Insert_gene_has_name t cnt] st by simp
    from grows_keeps_rows [OF this] Cons.prems(2)
    have "literal \<in> snd ` set (name (database (cur e0)))" by blast
    from Cons.IH [OF rest this] step(3) [OF Cons.prems(2)] show ?thesis by simp
  qed
qed

lemma name_loop_resolved_persisted:
  "link_loop pg_cursor Insert_name Insert_gene_has_name data cnt e = (Inr c, e') \<Longrightarrow>
     \<forall>t \<in> set data.
       set (select_gene_and (name (database (cur e'))) (database (cur e')) (fst t) (fst (snd t)))
         \<subseteq> set (map link_key (gene_has_name (database (cur e'))))"
proof (induction data arbitrary: cnt e)
  case Nil
  then show ?case by simp
next
  case (Cons t rest)
  obtain r0 e0 where st: "link_step pg_cursor Insert_name Insert_gene_has_name t cnt e = (r0, e0)"
    by (cases "link_step pg_cursor Insert_name Insert_gene_has_name t cnt e")
  show ?case
  proof (cases r0)
    case (Inl x)
    with Cons.prems st show ?thesis by simp
  next
    case (Inr c0)
    with Cons.prems st
    have rest: "link_loop pg_cursor Insert_name Insert_gene_has_name rest c0 e0 = (Inr c, e')"
      by simp
    obtain k0 l0 ty0 where t: "t = (k0, l0, ty0)" by (cases t)
    note step = name_step_resolution [OF st [unfolded Inr t]]
    have g: "grows (database (cur e0)) (database (cur e'))"
      using link_loop_grows [of e0 Insert_name Insert_gene_has_name rest c0] rest by simp
    then have "gene_has_name (database (cur e')) =
                 gene_has_name (database (cur e0)) @
                 written (gene_has_name (database (cur e0))) (gene_has_name (database (cur e')))"
      by (simp add: grows_def links_appended_def appended_toD [symmetric])
    then have "set (gene_has_name (database (cur e0))) \<subseteq> set (gene_has_name (database (cur e')))"
      by (metis set_append sup_ge1)
    then have keys: "set (map link_key (gene_has_name (database (cur e0))))
                       \<subseteq> set (map link_key (gene_has_name (database (cur e'))))"
      by auto
    have "select_gene_and (name (database (cur e'))) (database (cur e')) k0 l0
            = select_gene_and (name (database (cur e0))) (database (cur e0)) k0 l0"
      using rest step(1) by (rule name_loop_keeps_resolution)
    with step(2) keys
    have head: "set (select_gene_and (name (database (cur e'))) (database (cur e')) k0 l0)
                  \<subseteq> set (map link_key (gene_has_name (database (cur e'))))"
      by simp
    from Cons.IH [OF rest] head show ?thesis by (simp add: t)
  qed
qed

lemma name_unsuccessful_exact:
  assumes w: "link_loop pg_cursor Insert_name Insert_gene_has_name triples cnt e = (Inr c, e')"
  shows "unsuccessful_names (database (cur e')) (map key_and_literal triples)
           = filter (\<lambda>item. fst item \<notin> snd ` set (gene (database (cur e))))
               (map key_and_literal triples)"
proof -
  let ?d = "database (cur e)" and ?d' = "database (cur e')"
  have "grows ?d ?d'"
    using link_loop_grows [of e Insert_name Insert_gene_has_name triples cnt] w by simp
  then have genes: "gene ?d' = gene ?d" by (simp add: grows_def)
  have "\<forall>item \<in> set (map key_and_literal triples).
          set (select_gene_and (name ?d') ?d' (fst item) (snd item))
            \<subseteq> set (map link_key (gene_has_name ?d'))"
    using name_loop_resolved_persisted [OF w] by (simp add: key_and_literal_def)
  then have "unsuccessful_names ?d' (map key_and_literal triples)
               = filter (unknown_keys (name ?d') ?d') (map key_and_literal triples)"
    unfolding unsuccessful_names_def by (rule unsuccessful_items_exact)
  also have "\<dots> = filter (\<lambda>item. fst item \<notin> snd ` set (gene ?d)) (map key_and_literal triples)"
  proof (rule filter_cong [OF refl])
    fix item assume "item \<in> set (map key_and_literal triples)"
    then obtain t where "t \<in> set triples" and "item = key_and_literal t" by auto
    with pg_link_loop_ok_name [OF w] have "snd item \<in> snd ` set (name ?d')"
      by (simp add: key_and_literal_def)
    then show "unknown_keys (name ?d') ?d' item = (fst item \<notin> snd ` set (gene ?d))"
      by (simp add: unknown_keys_def genes)
  qed
  finally show ?thesis .
qed

lemma symbol_step_resolution:
  assumes st: "link_step pg_cursor Insert_symbol Insert_gene_has_symbol (k, literal, ty) cnt e = (Inr c, e1)"
  shows "literal \<in> snd ` set (symbol (database (cur e1)))"
    and "set (select_gene_and (symbol (database (cur e1))) (database (cur e1)) k literal)
           \<subseteq> set (map link_key (gene_has_symbol (database (cur e1))))"
    and "literal' \<in> snd ` set (symbol (database (cur e))) \<Longrightarrow>
           select_gene_and (symbol (database (cur e1))) (database (cur e1)) k' literal'
             = select_gene_and (symbol (database (cur e))) (database (cur e)) k' literal'"
proof -
  let ?d = "database (cur e)" and ?d1 = "database (cur e1)"
  let ?i = "generated_id (symbol ?d)"
  have new: "literal \<notin> snd ` set (symbol ?d)"
    using st pg_link_step_duplicate_symbol [of literal e k ty cnt] by auto
  note facts = pg_link_step_new_symbol [OF new st]
  have "grows ?d ?d1"
    using link_step_grows [of e Insert_symbol Insert_gene_has_symbol "(k, literal, ty)" cnt] st by simp
  then have genes: "gene ?d1 = gene ?d" by (simp add: grows_def)
  from facts(1) show "literal \<in> snd ` set (symbol ?d1)" by (simp add: image_iff)
  have "select_gene_and (symbol ?d1) ?d1 k literal = select_gene_and (symbol ?d @ [(?i, literal)]) ?d k literal"
    using genes facts(1) by (simp add: select_gene_and_def)
  also have "\<dots> = map (\<lambda>g. (g, ?i)) (insert_select_gene ?d k)"
    using new by (rule select_gene_and_new_literal)
  finally have rows: "select_gene_and (symbol ?d1) ?d1 k literal
                        = map (\<lambda>g. (g, ?i)) (insert_select_gene ?d k)" .
  have "map link_key (gene_has_symbol ?d1)
          = map link_key (gene_has_symbol ?d) @ map (\<lambda>g. (g, ?i)) (insert_select_gene ?d k)"
    using facts(2) [OF refl] by (simp add: comp_def link_key_new_link)
  with rows show "set (select_gene_and (symbol ?d1) ?d1 k literal)
                    \<subseteq> set (map link_key (gene_has_symbol ?d1))"
    by simp
  show "select_gene_and (symbol ?d1) ?d1 k' literal' = select_gene_and (symbol ?d) ?d k' literal'"
    if old: "literal' \<in> snd ` set (symbol ?d)"
  proof -
    from old new have "literal \<noteq> literal'" by blast
    then have "select_gene_and (symbol ?d @ [(?i, literal)]) ?d k' literal'
                 = select_gene_and (symbol ?d) ?d k' literal'"
      by (rule select_gene_and_other_literal)
    moreover have "select_gene_and (symbol ?d1) ?d1 k' literal'
                     = select_gene_and (symbol ?d @ [(?i, literal)]) ?d k' literal'"
      using genes facts(1) by (simp add: select_gene_and_def)
    ultimately show ?thesis by simp
  qed
qed

lemma symbol_loop_keeps_resolution:
  "link_loop pg_cursor Insert_symbol Insert_gene_has_symbol data cnt e = (Inr c, e') \<Longrightarrow>
   literal \<in> snd ` set (symbol (database (cur e))) \<Longrightarrow>
     select_gene_and (symbol (database (cur e'))) (database (cur e')) k literal
       = select_gene_and (symbol (database (cur e))) (database (cur e)) k literal"
proof (induction data arbitrary: cnt e)
  case Nil
  then show ?case by simp
next
  case (Cons t rest)
  obtain r0 e0 where st: "link_step pg_cursor Insert_symbol Insert_gene_has_symbol t cnt e = (r0, e0)"
    by (cases "link_step pg_cursor Insert_symbol Insert_gene_has_symbol t cnt e")
  show ?case
  proof (cases r0)
    case (Inl x)
    with Cons.prems st show ?thesis by simp
  next
    case (Inr c0)
    with Cons.prems st
    have rest: "link_loop pg_cursor Insert_symbol Insert_gene_has_symbol rest c0 e0 = (Inr c, e')"
      by simp
    obtain k0 l0 ty0 where t: "t = (k0, l0, ty0)" by (cases t)
    note step = symbol_step_resolution [OF st [unfolded Inr t]]
    have "grows (database (cur e)) (database (cur e0))"
      using link_step_grows [of e Insert_symbol Insert_gene_has_symbol t cnt] st by simp
    from grows_keeps_rows [OF this] Cons.prems(2)
    have "literal \<in> snd ` set (symbol (database (cur e0)))" by blast
    from Cons.IH [OF rest this] step(3) [OF Cons.prems(2)] show ?thesis by simp
  qed
qed

lemma symbol_loop_resolved_persisted:
  "link_loop pg_cursor Insert_symbol Insert_gene_has_symbol data cnt e = (Inr c, e') \<Longrightarrow>
     \<forall>t \<in> set data.
       set (select_gene_and (symbol (database (cur e'))) (database (cur e')) (fst t) (fst (snd t)))
         \<subseteq> set (map link_key (gene_has_symbol (database (cur e'))))"
proof (induction data arbitrary: cnt e)
  case Nil
  then show ?case by simp
next
  case (Cons t rest)
  obtain r0 e0 where st: "link_step pg_cursor Insert_symbol Insert_gene_has_symbol t cnt e = (r0, e0)"
    by (cases "link_step pg_cursor Insert_symbol Insert_gene_has_symbol t cnt e")
  show ?case
  proof (cases r0)
    case (Inl x)
    with Cons.prems st show ?thesis by simp
  next
    case (Inr c0)
    with Cons.prems st
    have rest: "link_loop pg_cursor Insert_symbol Insert_gene_has_symbol rest c0 e0 = (Inr c, e')"
      by simp
    obtain k0 l0 ty0 where t: "t = (k0, l0, ty0)" by (cases t)
    note step = symbol_step_resolution [OF st [unfolded Inr t]]
    have g: "grows (database (cur e0)) (database (cur e'))"
      using link_loop_grows [of e0 Insert_symbol Insert_gene_has_symbol rest c0] rest by simp
    then have "gene_has_symbol (database (cur e')) =
                 gene_has_symbol (database (cur e0)) @
                 written (gene_has_symbol (database (cur e0))) (gene_has_symbol (database (cur e')))"
      by (simp add: grows_def links_appended_def appended_toD [symmetric])
    then have "set (gene_has_symbol (database (cur e0))) \<subseteq> set (gene_has_symbol (database (cur e')))"
      by (metis set_append sup_ge1)
    then have keys: "set (map link_key (gene_has_symbol (database (cur e0))))
                       \<subseteq> set (map link_key (gene_has_symbol (database (cur e'))))"
      by auto
    have "select_gene_and (symbol (database (cur e'))) (database (cur e')) k0 l0
            = select_gene_and (symbol (database (cur e0))) (database (cur e0)) k0 l0"
      using rest step(1) by (rule symbol_loop_keeps_resolution)
    with step(2) keys
    have head: "set (select_gene_and (symbol (database (cur e'))) (database (cur e')) k0 l0)
                  \<subseteq> set (map link_key (gene_has_symbol (database (cur e'))))"
      by simp
    from Cons.IH [OF rest] head show ?thesis by (simp add: t)
  qed
qed

lemma symbol_unsuccessful_exact:
  assumes w: "link_loop pg_cursor Insert_symbol Insert_gene_has_symbol triples cnt e = (Inr c, e')"
  shows "unsuccessful_symbols (database (cur e')) (map key_and_literal triples)
           = filter (\<lambda>item. fst item \<notin> snd ` set (gene (database (cur e))))
               (map key_and_literal triples)"
proof -
  let ?d = "database (cur e)" and ?d' = "database (cur e')"
  have "grows ?d ?d'"
    using link_loop_grows [of e Insert_symbol Insert_gene_has_symbol triples cnt] w by simp
  then have genes: "gene ?d' = gene ?d" by (simp add: grows_def)
  have "\<forall>item \<in> set (map key_and_literal triples).
          set (select_gene_and (symbol ?d') ?d' (fst item) (snd item))
            \<subseteq> set (map link_key (gene_has_symbol ?d'))"
    using symbol_loop_resolved_persisted [OF w] by (simp add: key_and_literal_def)
  then have "unsuccessful_symbols ?d' (map key_and_literal triples)
               = filter (unknown_keys (symbol ?d') ?d') (map key_and_literal triples)"
    unfolding unsuccessful_symbols_def by (rule unsuccessful_items_exact)
  also have "\<dots> = filter (\<lambda>item. fst item \<notin> snd ` set (gene ?d)) (map key_and_literal triples)"
  proof (rule filter_cong [OF refl])
    fix item assume "item \<in> set (map key_and_literal triples)"
    then obtain t where "t \<in> set triples" and "item = key_and_literal t" by auto
    with pg_link_loop_ok_symbol [OF w] have "snd item \<in> snd ` set (symbol ?d')"
      by (simp add: key_and_literal_def)
    then show "unknown_keys (symbol ?d') ?d' item = (fst item \<notin> snd ` set (gene ?d))"
      by (simp add: unknown_keys_def genes)
  qed
  finally show ?thesis .
qed

lemma location_warning_lists_unknown_items:
  assumes w: "call_executemany pg_cursor Insert_gene_has_location (map pair_params pairs) e = (None, el)"
    and c: "rowcount pg_cursor (cur el) \<noteq> int (length pairs)"
    and asm: "(\<forall>item \<in> set pairs. \<forall>l. (l, snd item) \<in> set (location (database (cur e))) \<longrightarrow>
        (1, l) \<in> set (assembly_has_location (database (cur e))))"
    and ne: "filter (unknown_keys (location (database (cur e))) (database (cur e))) pairs \<noteq> []"
  shows "fst (add_gene_location pg_cursor pairs e) = Inr ()"
    and "(let unknown = filter (unknown_keys (location (database (cur e))) (database (cur e))) pairs
       in warnings (snd (add_gene_location pg_cursor pairs e)) =
            warnings e @
            [''The following rows were not inserted into the gene_has_location table:'' @
             [CHR 0x0A] @ ''('' @ fst (hd unknown) @ '', '' @ snd (hd unknown) @ '')'' @
             concat (map (\<lambda>y. [CHR 0x0A] @ '' '' @ ''('' @ fst y @ '', '' @ snd y @ '')'')
               (tl unknown))])"
proof -
  let ?U = "filter (unknown_keys (location (database (cur e))) (database (cur e))) pairs"
  have g: "grows (database (cur e)) (database (cur el))"
    using call_executemany_grows [of e Insert_gene_has_location "map pair_params pairs"] w by simp
  from g have same: "location (database (cur el)) = location (database (cur e))"
    "assembly_has_location (database (cur el)) = assembly_has_location (database (cur e))"
    by (simp_all add: grows_def)
  have u: "unsuccessful_locations (database (cur el)) pairs = ?U"
    using location_unsuccessful_exact [OF w] asm unknown_keys_after_write(1) [OF g]
    by (simp add: same)
  from add_gene_location_mismatch(1) [OF w c] u ne
  show "fst (add_gene_location pg_cursor pairs e) = Inr ()" by simp
  from add_gene_location_mismatch(2) [OF w c] u ne
  have "warnings (snd (add_gene_location pg_cursor pairs e)) =
          warnings e @ [not_inserted_message
            ''The following rows were not inserted into the gene_has_location table:''
            (newline @ '' '') ?U]"
    by simp
  then show "(let unknown = filter (unknown_keys (location (database (cur e))) (database (cur e))) pairs
       in warnings (snd (add_gene_location pg_cursor pairs e)) =
            warnings e @
            [''The following rows were not inserted into the gene_has_location table:'' @
             [CHR 0x0A] @ ''('' @ fst (hd unknown) @ '', '' @ snd (hd unknown) @ '')'' @
             concat (map (\<lambda>y. [CHR 0x0A] @ '' '' @ ''('' @ fst y @ '', '' @ snd y @ '')'')
               (tl unknown))])"
    by (simp add: Let_def not_inserted_message_explicit [OF ne] newline_def)
qed

lemma locus_type_warning_lists_unknown_items:
  assumes w: "call_executemany pg_cursor Insert_gene_has_locus_type (map pair_params pairs) e = (None, et)"
    and c: "rowcount pg_cursor (cur et) \<noteq> int (length pairs)"
    and ne: "filter (unknown_keys (locus_type (database (cur e))) (database (cur e))) pairs \<noteq> []"
  shows "fst (add_gene_locus_type pg_cursor pairs e) = Inr ()"
    and "(let unknown = filter (unknown_keys (locus_type (database (cur e))) (database (cur e))) pairs
       in warnings (snd (add_gene_locus_type pg_cursor pairs e)) =
            warnings e @
            [''The following rows were not inserted into the gene_has_locus_type table:'' @
             [CHR 0x0A] @ ''('' @ fst (hd unknown) @ '', '' @ snd (hd unknown) @ '')'' @
             concat (map (\<lambda>y. [CHR 0x0A] @ ''('' @ fst y @ '', '' @ snd y @ '')'')
               (tl unknown))])"
proof -
  let ?U = "filter (unknown_keys (locus_type (database (cur e))) (database (cur e))) pairs"
  have g: "grows (database (cur e)) (database (cur et))"
    using call_executemany_grows [of e Insert_gene_has_locus_type "map pair_params pairs"] w by simp
  have u: "unsuccessful_locus_types (database (cur et)) pairs = ?U"
    using locus_type_unsuccessful_exact [OF w] unknown_keys_after_write(2) [OF g] by simp
  from add_gene_locus_type_mismatch(1) [OF w c] u ne
  show "fst (add_gene_locus_type pg_cursor pairs e) = Inr ()" by simp
  from add_gene_locus_type_mismatch(2) [OF w c] u ne
  have "warnings (snd (add_gene_locus_type pg_cursor pairs e)) =
          warnings e @ [not_inserted_message
            ''The following rows were not inserted into the gene_has_locus_type table:''
            newline ?U]"
    by simp
  then show "(let unknown = filter (unknown_keys (locus_type (database (cur e))) (database (cur e))) pairs
       in warnings (snd (add_gene_locus_type pg_cursor pairs e)) =
            warnings e @
            [''The following rows were not inserted into the gene_has_locus_type table:'' @
             [CHR 0x0A] @ ''('' @ fst (hd unknown) @ '', '' @ snd (hd unknown) @ '')'' @
             concat (map (\<lambda>y. [CHR 0x0A] @ ''('' @ fst y @ '', '' @ snd y @ '')'')
               (tl unknown))])"
    by (simp add: Let_def not_inserted_message_explicit [OF ne] newline_def)
qed

lemma name_warning_lists_unknown_items:
  assumes w: "link_loop pg_cursor Insert_name Insert_gene_has_name triples 0 e = (Inr cn, en)"
    and c: "cn \<noteq> int (length triples)"
    and ne: "filter (\<lambda>item. fst item \<notin> snd ` set (gene (database (cur e)))) (map key_and_literal triples) \<noteq> []"
  shows "fst (add_gene_name pg_cursor triples e) = Inr ()"
    and "(let unknown = filter (\<lambda>item. fst item \<notin> snd ` set (gene (database (cur e)))) (map key_and_literal triples)
       in warnings (snd (add_gene_name pg_cursor triples e)) =
            warnings e @
            [''The following rows were not inserted into the gene_has_name:'' @
             [CHR 0x0A] @ ''('' @ fst (hd unknown) @ '', '' @ snd (hd unknown) @ '')'' @
             concat (map (\<lambda>y. [CHR 0x0A] @ '' '' @ ''('' @ fst y @ '', '' @ snd y @ '')'')
               (tl unknown))])"
proof -
  let ?U = "filter (\<lambda>item. fst item \<notin> snd ` set (gene (database (cur e)))) (map key_and_literal triples)"
  have u: "unsuccessful_names (database (cur en)) (map key_and_literal triples) = ?U"
    by (rule name_unsuccessful_exact [OF w])
  from add_gene_name_mismatch(1) [OF w c] u ne
  show "fst (add_gene_name pg_cursor triples e) = Inr ()" by simp
  from add_gene_name_mismatch(2) [OF w c] u ne
  have "warnings (snd (add_gene_name pg_cursor triples e)) =
          warnings e @ [not_inserted_message
            ''The following rows were not inserted into the gene_has_name:''
            (newline @ '' '') ?U]"
    by simp
  then show "(let unknown = filter (\<lambda>item. fst item \<notin> snd ` set (gene (database (cur e)))) (map key_and_literal triples)
       in warnings (snd (add_gene_name pg_cursor triples e)) =
            warnings e @
            [''The following rows were not inserted into the gene_has_name:'' @
             [CHR 0x0A] @ ''('' @ fst (hd unknown) @ '', '' @ snd (hd unknown) @ '')'' @
             concat (map (\<lambda>y. [CHR 0x0A] @ '' '' @ ''('' @ fst y @ '', '' @ snd y @ '')'')
               (tl unknown))])"
    by (simp add: Let_def not_inserted_message_explicit [OF ne] newline_def)
qed

lemma symbol_warning_lists_unknown_items:
  assumes w: "link_loop pg_cursor Insert_symbol Insert_gene_has_symbol triples 0 e = (Inr cs, es)"
    and c: "cs \<noteq> int (length triples)"
    and ne: "filter (\<lambda>item. fst item \<notin> snd ` set (gene (database (cur e)))) (map key_and_literal triples) \<noteq> []"
  shows "fst (add_gene_symbol pg_cursor triples e) = Inr ()"
    and "(let unknown = filter (\<lambda>item. fst item \<notin> snd ` set (gene (database (cur e)))) (map key_and_literal triples)
       in warnings (snd (add_gene_symbol pg_cursor triples e)) =
            warnings e @
            [''The following rows were not inserted into the database:'' @
             [CHR 0x0A] @ ''('' @ fst (hd unknown) @ '', '' @ snd (hd unknown) @ '')'' @
             concat (map (\<lambda>y. [CHR 0x0A] @ '' '' @ ''('' @ fst y @ '', '' @ snd y @ '')'')
               (tl unknown))])"
proof -
  let ?U = "filter (\<lambda>item. fst item \<notin> snd ` set (gene (database (cur e)))) (map key_and_literal triples)"
  have u: "unsuccessful_symbols (database (cur es)) (map key_and_literal triples) = ?U"
    by (rule symbol_unsuccessful_exact [OF w])
  from add_gene_symbol_mismatch(1) [OF w c] u ne
  show "fst (add_gene_symbol pg_cursor triples e) = Inr ()" by simp
  from add_gene_symbol_mismatch(2) [OF w c] u ne
  have "warnings (snd (add_gene_symbol pg_cursor triples e)) =
          warnings e @ [not_inserted_message
            ''The following rows were not inserted into the database:''
            (newline @ '' '') ?U]"
    by simp
  then show "(let unknown = filter (\<lambda>item. fst item \<notin> snd ` set (gene (database (cur e)))) (map key_and_literal triples)
       in warnings (snd (add_gene_symbol pg_cursor triples e)) =
            warnings e @
            [''The following rows were not inserted into the database:'' @
             [CHR 0x0A] @ ''('' @ fst (hd unknown) @ '', '' @ snd (hd unknown) @ '')'' @
             concat (map (\<lambda>y. [CHR 0x0A] @ '' '' @ ''('' @ fst y @ '', '' @ snd y @ '')'')
               (tl unknown))])"
    by (simp add: Let_def not_inserted_message_explicit [OF ne] newline_def)
qed

lemma location_warning_lists_item:
  assumes w: "call_executemany pg_cursor Insert_gene_has_location (map pair_params pairs) e = (None, el)"
    and c: "rowcount pg_cursor (cur el) \<noteq> int (length pairs)"
    and item: "item \<in> set pairs"
    and why: "unknown_keys (location (database (cur e))) (database (cur e)) item \<or>
     (\<forall>l. (l, snd item) \<in> set (location (database (cur e))) \<longrightarrow>
        (1, l) \<notin> set (assembly_has_location (database (cur e)))) \<and>
     \<not> already_linked (location (database (cur e))) (gene_has_location (database (cur e))) (database (cur e)) item"
  shows "fst (add_gene_location pg_cursor pairs e) = Inr ()"
    and "\<exists>before after.
         warnings (snd (add_gene_location pg_cursor pairs e)) =
           warnings e @
           [''The following rows were not inserted into the gene_has_location table:'' @
            [CHR 0x0A] @ before @ ''('' @ fst item @ '', '' @ snd item @ '')'' @ after]"
proof -
  have u: "item \<in> set (unsuccessful_locations (database (cur el)) pairs)"
  proof (cases "unknown_keys (location (database (cur e))) (database (cur e)) item")
    case True
    have g: "grows (database (cur e)) (database (cur el))"
      using call_executemany_grows [of e Insert_gene_has_location "map pair_params pairs"] w by simp
    from True have "unknown_keys (location (database (cur el))) (database (cur el)) item"
      by (simp add: unknown_keys_after_write(1) [OF g])
    then have "fst item \<notin> snd ` set (gene (database (cur el))) \<or>
               snd item \<notin> snd ` set (location (database (cur el)))"
      by (simp add: unknown_keys_def)
    with item show ?thesis
      unfolding unsuccessful_locations_def by (rule unknown_key_is_unsuccessful)
  next
    case False
    with why show ?thesis
      using location_outside_assembly_is_unsuccessful [OF w item] by blast
  qed
  then have ne: "unsuccessful_locations (database (cur el)) pairs \<noteq> []" by auto
  from add_gene_location_mismatch(1) [OF w c] ne
  show "fst (add_gene_location pg_cursor pairs e) = Inr ()" by simp
  from not_inserted_message_contains [OF u, where header = "''The following rows were not inserted into the gene_has_location table:''"
      and sep = "newline @ '' ''"]
  obtain b a where "not_inserted_message
      ''The following rows were not inserted into the gene_has_location table:''
      (newline @ '' '') (unsuccessful_locations (database (cur el)) pairs) =
      ''The following rows were not inserted into the gene_has_location table:'' @
      [CHR 0x0A] @ b @ ''('' @ fst item @ '', '' @ snd item @ '')'' @ a"
    by auto
  with add_gene_location_mismatch(2) [OF w c] ne
  show "\<exists>before after.
         warnings (snd (add_gene_location pg_cursor pairs e)) =
           warnings e @
           [''The following rows were not inserted into the gene_has_location table:'' @
            [CHR 0x0A] @ before @ ''('' @ fst item @ '', '' @ snd item @ '')'' @ after]" by auto
qed

text \<open>
  C3, as the code has it.  On the store: when the write phase of a call completed, its
  count differs from the length of the input (so the reconciliation pass runs) and some
  input items name a gene key or a dimension name that is in no row of the table, the
  call returns normally and logs one warning: the header, a newline, and the texts
  \<^verbatim>\<open>(key, name)\<close> of exactly those items in the order of the input, separated by a
  newline and a space (by a newline in \<open>add_gene_locus_type\<close>).  This holds for
  \<open>add_gene_locus_type\<close>, for \<open>add_gene_name\<close> and \<open>add_gene_symbol\<close> (whose literals
  are all in the table after the loop, so that only the gene key can be unknown), and
  for \<open>add_gene_location\<close> when every location named by the batch is linked to
  assembly 1.  In \<open>add_gene_location\<close> without that condition the warning still lists
  every item with an unknown gene key or location name, and it also lists an item
  whose location is linked to assembly 1 under none of its rows (the scoping join of
  the insert fails), provided the pair of the item is not stored already; what the
  function does with a stored pair is the subject of C4 and C7.
\<close>

theorem unknown_items_are_warned_about:
  "(call_executemany pg_cursor Insert_gene_has_location (map pair_params pairs) e = (None, el) \<and>
    rowcount pg_cursor (cur el) \<noteq> int (length pairs) \<and>
    (\<forall>item \<in> set pairs. \<forall>l. (l, snd item) \<in> set (location (database (cur e))) \<longrightarrow>
        (1, l) \<in> set (assembly_has_location (database (cur e)))) \<and>
    filter (unknown_keys (location (database (cur e))) (database (cur e))) pairs \<noteq> [] \<longrightarrow>
      fst (add_gene_location pg_cursor pairs e) = Inr () \<and>
      (let unknown = filter (unknown_keys (location (database (cur e))) (database (cur e))) pairs
       in warnings (snd (add_gene_location pg_cursor pairs e)) =
            warnings e @
            [''The following rows were not inserted into the gene_has_location table:'' @
             [CHR 0x0A] @ ''('' @ fst (hd unknown) @ '', '' @ snd (hd unknown) @ '')'' @
             concat (map (\<lambda>y. [CHR 0x0A] @ '' '' @ ''('' @ fst y @ '', '' @ snd y @ '')'')
               (tl unknown))])) \<and>
   (call_executemany pg_cursor Insert_gene_has_location (map pair_params pairs) e = (None, el) \<and>
    rowcount pg_cursor (cur el) \<noteq> int (length pairs) \<and>
    item \<in> set pairs \<and>
    (unknown_keys (location (database (cur e))) (database (cur e)) item \<or>
     (\<forall>l. (l, snd item) \<in> set (location (database (cur e))) \<longrightarrow>
        (1, l) \<notin> set (assembly_has_location (database (cur e)))) \<and>
     \<not> already_linked (location (database (cur e))) (gene_has_location (database (cur e))) (database (cur e)) item) \<longrightarrow>
      fst (add_gene_location pg_cursor pairs e) = Inr () \<and>
      (\<exists>before after.
         warnings (snd (add_gene_location pg_cursor pairs e)) =
           warnings e @
           [''The following rows were not inserted into the gene_has_location table:'' @
            [CHR 0x0A] @ before @ ''('' @ fst item @ '', '' @ snd item @ '')'' @ after])) \<and>
   (call_executemany pg_cursor Insert_gene_has_locus_type (map pair_params pairs) e = (None, et) \<and>
    rowcount pg_cursor (cur et) \<noteq> int (length pairs) \<and>
    filter (unknown_keys (locus_type (database (cur e))) (database (cur e))) pairs \<noteq> [] \<longrightarrow>
      fst (add_gene_locus_type pg_cursor pairs e) = Inr () \<and>
      (let unknown = filter (unknown_keys (locus_type (database (cur e))) (database (cur e))) pairs
       in warnings (snd (add_gene_locus_type pg_cursor pairs e)) =
            warnings e @
            [''The following rows were not inserted into the gene_has_locus_type table:'' @
             [CHR 0x0A] @ ''('' @ fst (hd unknown) @ '', '' @ snd (hd unknown) @ '')'' @
             concat (map (\<lambda>y. [CHR 0x0A] @ ''('' @ fst y @ '', '' @ snd y @ '')'')
               (tl unknown))])) \<and>
   (link_loop pg_cursor Insert_name Insert_gene_has_name triples 0 e = (Inr cn, en) \<and>
    cn \<noteq> int (length triples) \<and>
    filter (\<lambda>item. fst item \<notin> snd ` set (gene (database (cur e)))) (map key_and_literal triples) \<noteq> [] \<longrightarrow>
      fst (add_gene_name pg_cursor triples e) = Inr () \<and>
      (let unknown = filter (\<lambda>item. fst item \<notin> snd ` set (gene (database (cur e)))) (map key_and_literal triples)
       in warnings (snd (add_gene_name pg_cursor triples e)) =
            warnings e @
            [''The following rows were not inserted into the gene_has_name:'' @
             [CHR 0x0A] @ ''('' @ fst (hd unknown) @ '', '' @ snd (hd unknown) @ '')'' @
             concat (map (\<lambda>y. [CHR 0x0A] @ '' '' @ ''('' @ fst y @ '', '' @ snd y @ '')'')
               (tl unknown))])) \<and>
   (link_loop pg_cursor Insert_symbol Insert_gene_has_symbol triples 0 e = (Inr cs, es) \<and>
    cs \<noteq> int (length triples) \<and>
    filter (\<lambda>item. fst item \<notin> snd ` set (gene (database (cur e)))) (map key_and_literal triples) \<noteq> [] \<longrightarrow>
      fst (add_gene_symbol pg_cursor triples e) = Inr () \<and>
      (let unknown = filter (\<lambda>item. fst item \<notin> snd ` set (gene (database (cur e)))) (map key_and_literal triples)
       in warnings (snd (add_gene_symbol pg_cursor triples e)) =
            warnings e @
            [''The following rows were not inserted into the database:'' @
             [CHR 0x0A] @ ''('' @ fst (hd unknown) @ '', '' @ snd (hd unknown) @ '')'' @
             concat (map (\<lambda>y. [CHR 0x0A] @ '' '' @ ''('' @ fst y @ '', '' @ snd y @ '')'')
               (tl unknown))]))"
proof (intro conjI impI)
  assume h: "call_executemany pg_cursor Insert_gene_has_location (map pair_params pairs) e = (None, el) \<and>
    rowcount pg_cursor (cur el) \<noteq> int (length pairs) \<and>
    (\<forall>item \<in> set pairs. \<forall>l. (l, snd item) \<in> set (location (database (cur e))) \<longrightarrow>
        (1, l) \<in> set (assembly_has_location (database (cur e)))) \<and>
    filter (unknown_keys (location (database (cur e))) (database (cur e))) pairs \<noteq> []"
  show "fst (add_gene_location pg_cursor pairs e) = Inr ()"
    using h location_warning_lists_unknown_items(1) by blast
next
  assume h: "call_executemany pg_cursor Insert_gene_has_location (map pair_params pairs) e = (None, el) \<and>
    rowcount pg_cursor (cur el) \<noteq> int (length pairs) \<and>
    (\<forall>item \<in> set pairs. \<forall>l. (l, snd item) \<in> set (location (database (cur e))) \<longrightarrow>
        (1, l) \<in> set (assembly_has_location (database (cur e)))) \<and>
    filter (unknown_keys (location (database (cur e))) (database (cur e))) pairs \<noteq> []"
  show "(let unknown = filter (unknown_keys (location (database (cur e))) (database (cur e))) pairs
       in warnings (snd (add_gene_location pg_cursor pairs e)) =
            warnings e @
            [''The following rows were not inserted into the gene_has_location table:'' @
             [CHR 0x0A] @ ''('' @ fst (hd unknown) @ '', '' @ snd (hd unknown) @ '')'' @
             concat (map (\<lambda>y. [CHR 0x0A] @ '' '' @ ''('' @ fst y @ '', '' @ snd y @ '')'')
               (tl unknown))])"
    using h location_warning_lists_unknown_items(2) by blast
next
  assume h: "call_executemany pg_cursor Insert_gene_has_location (map pair_params pairs) e = (None, el) \<and>
    rowcount pg_cursor (cur el) \<noteq> int (length pairs) \<and>
    item \<in> set pairs \<and>
    (unknown_keys (location (database (cur e))) (database (cur e)) item \<or>
     (\<forall>l. (l, snd item) \<in> set (location (database (cur e))) \<longrightarrow>
        (1, l) \<notin> set (assembly_has_location (database (cur e)))) \<and>
     \<not> already_linked (location (database (cur e))) (gene_has_location (database (cur e))) (database (cur e)) item)"
  show "fst (add_gene_location pg_cursor pairs e) = Inr ()"
    using h location_warning_lists_item(1) by blast
next
  assume h: "call_executemany pg_cursor Insert_gene_has_location (map pair_params pairs) e = (None, el) \<and>
    rowcount pg_cursor (cur el) \<noteq> int (length pairs) \<and>
    item \<in> set pairs \<and>
    (unknown_keys (location (database (cur e))) (database (cur e)) item \<or>
     (\<forall>l. (l, snd item) \<in> set (location (database (cur e))) \<longrightarrow>
        (1, l) \<notin> set (assembly_has_location (database (cur e)))) \<and>
     \<not> already_linked (location (database (cur e))) (gene_has_location (database (cur e))) (database (cur e)) item)"
  show "\<exists>before after.
         warnings (snd (add_gene_location pg_cursor pairs e)) =
           warnings e @
           [''The following rows were not inserted into the gene_has_location table:'' @
            [CHR 0x0A] @ before @ ''('' @ fst item @ '', '' @ snd item @ '')'' @ after]"
    using h location_warning_lists_item(2) by blast
next
  assume h: "call_executemany pg_cursor Insert_gene_has_locus_type (map pair_params pairs) e = (None, et) \<and>
    rowcount pg_cursor (cur et) \<noteq> int (length pairs) \<and>
    filter (unknown_keys (locus_type (database (cur e))) (database (cur e))) pairs \<noteq> []"
  show "fst (add_gene_locus_type pg_cursor pairs e) = Inr ()"
    using h locus_type_warning_lists_unknown_items(1) by blast
next
  assume h: "call_executemany pg_cursor Insert_gene_has_locus_type (map pair_params pairs) e = (None, et) \<and>
    rowcount pg_cursor (cur et) \<noteq> int (length pairs) \<and>
    filter (unknown_keys (locus_type (database (cur e))) (database (cur e))) pairs \<noteq> []"
  show "(let unknown = filter (unknown_keys (locus_type (database (cur e))) (database (cur e))) pairs
       in warnings (snd (add_gene_locus_type pg_cursor pairs e)) =
            warnings e @
            [''The following rows were not inserted into the gene_has_locus_type table:'' @
             [CHR 0x0A] @ ''('' @ fst (hd unknown) @ '', '' @ snd (hd unknown) @ '')'' @
             concat (map (\<lambda>y. [CHR 0x0A] @ ''('' @ fst y @ '', '' @ snd y @ '')'')
               (tl unknown))])"
    using h locus_type_warning_lists_unknown_items(2) by blast
next
  assume h: "link_loop pg_cursor Insert_name Insert_gene_has_name triples 0 e = (Inr cn, en) \<and>
    cn \<noteq> int (length triples) \<and>
    filter (\<lambda>item. fst item \<notin> snd ` set (gene (database (cur e)))) (map key_and_literal triples) \<noteq> []"
  show "fst (add_gene_name pg_cursor triples e) = Inr ()"
    using h name_warning_lists_unknown_items(1) by blast
next
  assume h: "link_loop pg_cursor Insert_name Insert_gene_has_name triples 0 e = (Inr cn, en) \<and>
    cn \<noteq> int (length triples) \<and>
    filter (\<lambda>item. fst item \<notin> snd ` set (gene (database (cur e)))) (map key_and_literal triples) \<noteq> []"
  show "(let unknown = filter (\<lambda>item. fst item \<notin> snd ` set (gene (database (cur e)))) (map key_and_literal triples)
       in warnings (snd (add_gene_name pg_cursor triples e)) =
            warnings e @
            [''The following rows were not inserted into the gene_has_name:'' @
             [CHR 0x0A] @ ''('' @ fst (hd unknown) @ '', '' @ snd (hd unknown) @ '')'' @
             concat (map (\<lambda>y. [CHR 0x0A] @ '' '' @ ''('' @ fst y @ '', '' @ snd y @ '')'')
               (tl unknown))])"
    using h name_warning_lists_unknown_items(2) by blast
next
  assume h: "link_loop pg_cursor Insert_symbol Insert_gene_has_symbol triples 0 e = (Inr cs, es) \<and>
    cs \<noteq> int (length triples) \<and>
    filter (\<lambda>item. fst item \<notin> snd ` set (gene (database (cur e)))) (map key_and_literal triples) \<noteq> []"
  show "fst (add_gene_symbol pg_cursor triples e) = Inr ()"
    using h symbol_warning_lists_unknown_items(1) by blast
next
  assume h: "link_loop pg_cursor Insert_symbol Insert_gene_has_symbol triples 0 e = (Inr cs, es) \<and>
    cs \<noteq> int (length triples) \<and>
    filter (\<lambda>item. fst item \<notin> snd ` set (gene (database (cur e)))) (map key_and_literal triples) \<noteq> []"
  show "(let unknown = filter (\<lambda>item. fst item \<notin> snd ` set (gene (database (cur e)))) (map key_and_literal triples)
       in warnings (snd (add_gene_symbol pg_cursor triples e)) =
            warnings e @
            [''The following rows were not inserted into the database:'' @
             [CHR 0x0A] @ ''('' @ fst (hd unknown) @ '', '' @ snd (hd unknown) @ '')'' @
             concat (map (\<lambda>y. [CHR 0x0A] @ '' '' @ ''('' @ fst y @ '', '' @ snd y @ '')'')
               (tl unknown))])"
    using h symbol_warning_lists_unknown_items(2) by blast
qed

theorem unknown_items_are_warned_about_witness:
  "fst (call_executemany pg_cursor Insert_gene_has_location
          (map pair_params [(''P1'', ''LocA''), (''P9'', ''LocB''), (''P2'', ''LocZ'')]) (start example_db)) = None \<and>
   rowcount pg_cursor (cur (snd (call_executemany pg_cursor Insert_gene_has_location
          (map pair_params [(''P1'', ''LocA''), (''P9'', ''LocB''), (''P2'', ''LocZ'')]) (start example_db))))
     \<noteq> int (length [(''P1'', ''LocA''), (''P9'', ''LocB''), (''P2'', ''LocZ'')]) \<and>
   filter (unknown_keys (location (database (cur (start example_db)))) (database (cur (start example_db))))
     [(''P1'', ''LocA''), (''P9'', ''LocB''), (''P2'', ''LocZ'')] = [(''P9'', ''LocB''), (''P2'', ''LocZ'')] \<and>
   fst (add_gene_location pg_cursor [(''P1'', ''LocA''), (''P9'', ''LocB''), (''P2'', ''LocZ'')] (start example_db)) = Inr () \<and>
   warnings (snd (add_gene_location pg_cursor [(''P1'', ''LocA''), (''P9'', ''LocB''), (''P2'', ''LocZ'')] (start example_db)))
     = [''The following rows were not inserted into the gene_has_location table:'' @
        [CHR 0x0A] @ ''(P9, LocB)'' @ [CHR 0x0A] @ '' (P2, LocZ)''] \<and>
   fst (call_executemany pg_cursor Insert_gene_has_location
          (map pair_params [(''P2'', ''LocC''), (''P1'', ''LocA'')]) (start example_db)) = None \<and>
   rowcount pg_cursor (cur (snd (call_executemany pg_cursor Insert_gene_has_location
          (map pair_params [(''P2'', ''LocC''), (''P1'', ''LocA'')]) (start example_db))))
     \<noteq> int (length [(''P2'', ''LocC''), (''P1'', ''LocA'')]) \<and>
   (''P2'', ''LocC'') \<in> set [(''P2'', ''LocC''), (''P1'', ''LocA'')] \<and>
   \<not> unknown_keys (location (database (cur (start example_db)))) (database (cur (start example_db))) (''P2'', ''LocC'') \<and>
   filter (\<lambda>l. snd l = ''LocC'') (location (database (cur (start example_db)))) = [(3, ''LocC'')] \<and>
   (1, 3) \<notin> set (assembly_has_location (database (cur (start example_db)))) \<and>
   \<not> already_linked (location (database (cur (start example_db)))) (gene_has_location (database (cur (start example_db))))
       (database (cur (start example_db))) (''P2'', ''LocC'') \<and>
   fst (add_gene_location pg_cursor [(''P2'', ''LocC''), (''P1'', ''LocA'')] (start example_db)) = Inr () \<and>
   (\<exists>before after.
      warnings (snd (add_gene_location pg_cursor [(''P2'', ''LocC''), (''P1'', ''LocA'')] (start example_db))) =
        warnings (start example_db) @
        [''The following rows were not inserted into the gene_has_location table:'' @
         [CHR 0x0A] @ before @ ''('' @ fst (''P2'', ''LocC'') @ '', '' @ snd (''P2'', ''LocC'') @ '')'' @ after]) \<and>
   warnings (snd (add_gene_location pg_cursor [(''P2'', ''LocC''), (''P1'', ''LocA'')] (start example_db)))
     = [''The following rows were not inserted into the gene_has_location table:'' @
        [CHR 0x0A] @ ''(P2, LocC)''] \<and>
   fst (call_executemany pg_cursor Insert_gene_has_locus_type
          (map pair_params [(''P1'', ''protein-coding''), (''P9'', ''protein-coding''), (''P2'', ''tRNA'')]) (start example_db)) = None \<and>
   rowcount pg_cursor (cur (snd (call_executemany pg_cursor Insert_gene_has_locus_type
          (map pair_params [(''P1'', ''protein-coding''), (''P9'', ''protein-coding''), (''P2'', ''tRNA'')]) (start example_db))))
     \<noteq> int (length [(''P1'', ''protein-coding''), (''P9'', ''protein-coding''), (''P2'', ''tRNA'')]) \<and>
   filter (unknown_keys (locus_type (database (cur (start example_db)))) (database (cur (start example_db))))
     [(''P1'', ''protein-coding''), (''P9'', ''protein-coding''), (''P2'', ''tRNA'')] = [(''P9'', ''protein-coding''), (''P2'', ''tRNA'')] \<and>
   fst (add_gene_locus_type pg_cursor [(''P1'', ''protein-coding''), (''P9'', ''protein-coding''), (''P2'', ''tRNA'')] (start example_db)) = Inr () \<and>
   warnings (snd (add_gene_locus_type pg_cursor [(''P1'', ''protein-coding''), (''P9'', ''protein-coding''), (''P2'', ''tRNA'')] (start example_db)))
     = [''The following rows were not inserted into the gene_has_locus_type table:'' @
        [CHR 0x0A] @ ''(P9, protein-coding)'' @ [CHR 0x0A] @ ''(P2, tRNA)''] \<and>
   fst (link_loop pg_cursor Insert_name Insert_gene_has_name
          [(''P9'', ''orphan name'', ''alias''), (''P1'', ''hypothetical protein'', ''approved''),
           (''P8'', ''second orphan'', ''alias'')] 0 (start example_db)) = Inr 1 \<and>
   (1 :: int) \<noteq> int (length [(''P9'', ''orphan name'', ''alias''), (''P1'', ''hypothetical protein'', ''approved''),
           (''P8'', ''second orphan'', ''alias'')]) \<and>
   filter (\<lambda>item. fst item \<notin> snd ` set (gene (database (cur (start example_db)))))
     (map key_and_literal [(''P9'', ''orphan name'', ''alias''), (''P1'', ''hypothetical protein'', ''approved''),
           (''P8'', ''second orphan'', ''alias'')]) = [(''P9'', ''orphan name''), (''P8'', ''second orphan'')] \<and>
   fst (add_gene_name pg_cursor [(''P9'', ''orphan name'', ''alias''), (''P1'', ''hypothetical protein'', ''approved''),
           (''P8'', ''second orphan'', ''alias'')] (start example_db)) = Inr () \<and>
   warnings (snd (add_gene_name pg_cursor [(''P9'', ''orphan name'', ''alias''), (''P1'', ''hypothetical protein'', ''approved''),
           (''P8'', ''second orphan'', ''alias'')] (start example_db)))
     = [''The following rows were not inserted into the gene_has_name:'' @
        [CHR 0x0A] @ ''(P9, orphan name)'' @ [CHR 0x0A] @ '' (P8, second orphan)''] \<and>
   fst (link_loop pg_cursor Insert_symbol Insert_gene_has_symbol
          [(''P7'', ''ORPH1'', ''approved''), (''P2'', ''HYP2'', ''approved'')] 0 (start example_db)) = Inr 1 \<and>
   (1 :: int) \<noteq> int (length [(''P7'', ''ORPH1'', ''approved''), (''P2'', ''HYP2'', ''approved'')]) \<and>
   filter (\<lambda>item. fst item \<notin> snd ` set (gene (database (cur (start example_db)))))
     (map key_and_literal [(''P7'', ''ORPH1'', ''approved''), (''P2'', ''HYP2'', ''approved'')]) = [(''P7'', ''ORPH1'')] \<and>
   fst (add_gene_symbol pg_cursor [(''P7'', ''ORPH1'', ''approved''), (''P2'', ''HYP2'', ''approved'')] (start example_db)) = Inr () \<and>
   warnings (snd (add_gene_symbol pg_cursor [(''P7'', ''ORPH1'', ''approved''), (''P2'', ''HYP2'', ''approved'')] (start example_db)))
     = [''The following rows were not inserted into the database:'' @
        [CHR 0x0A] @ ''(P7, ORPH1)'']"
proof -
  let ?A = "start example_db"
  let ?pl = "[(''P1'', ''LocA''), (''P9'', ''LocB''), (''P2'', ''LocZ'')]"
  let ?pg = "[(''P2'', ''LocC''), (''P1'', ''LocA'')]"
  let ?pt = "[(''P1'', ''protein-coding''), (''P9'', ''protein-coding''), (''P2'', ''tRNA'')]"
  let ?tn = "[(''P9'', ''orphan name'', ''alias''), (''P1'', ''hypothetical protein'', ''approved''),
           (''P8'', ''second orphan'', ''alias'')]"
  let ?ts = "[(''P7'', ''ORPH1'', ''approved''), (''P2'', ''HYP2'', ''approved'')]"
  let ?B = "snd (call_executemany pg_cursor Insert_gene_has_location (map pair_params ?pl) ?A)"
  let ?C = "snd (call_executemany pg_cursor Insert_gene_has_location (map pair_params ?pg) ?A)"
  let ?D = "snd (call_executemany pg_cursor Insert_gene_has_locus_type (map pair_params ?pt) ?A)"
  let ?N = "snd (link_loop pg_cursor Insert_name Insert_gene_has_name ?tn 0 ?A)"
  let ?S = "snd (link_loop pg_cursor Insert_symbol Insert_gene_has_symbol ?ts 0 ?A)"
  have w0: "warnings ?A = []" by (simp add: start_def)
  have tables: "location (database (cur ?A)) = [(1, ''LocA''), (2, ''LocB''), (3, ''LocC'')]"
    "assembly_has_location (database (cur ?A)) = [(1, 1), (1, 2), (2, 3)]"
    by (simp_all add: start_def example_db_def)
  have l1: "fst (call_executemany pg_cursor Insert_gene_has_location
          (map pair_params [(''P1'', ''LocA''), (''P9'', ''LocB''), (''P2'', ''LocZ'')]) (start example_db)) = None"
    by code_simp
  have l2: "rowcount pg_cursor (cur (snd (call_executemany pg_cursor Insert_gene_has_location
          (map pair_params [(''P1'', ''LocA''), (''P9'', ''LocB''), (''P2'', ''LocZ'')]) (start example_db))))
     \<noteq> int (length [(''P1'', ''LocA''), (''P9'', ''LocB''), (''P2'', ''LocZ'')])"
    by code_simp
  have l3: "filter (unknown_keys (location (database (cur (start example_db)))) (database (cur (start example_db))))
     [(''P1'', ''LocA''), (''P9'', ''LocB''), (''P2'', ''LocZ'')] = [(''P9'', ''LocB''), (''P2'', ''LocZ'')]"
    by code_simp
  have l6: "\<forall>item \<in> set ?pl. \<forall>l. (l, snd item) \<in> set (location (database (cur ?A))) \<longrightarrow>
        (1, l) \<in> set (assembly_has_location (database (cur ?A)))"
    unfolding tables by simp
  have l7: "filter (unknown_keys (location (database (cur ?A))) (database (cur ?A))) ?pl \<noteq> []"
    unfolding l3 by simp
  have lp: "call_executemany pg_cursor Insert_gene_has_location (map pair_params ?pl) ?A = (None, ?B)"
    using l1 by (simp add: prod_eq_iff)
  note tl = unknown_items_are_warned_about [where pairs = ?pl and e = ?A and el = ?B]
  from tl lp l2 l6 l7
  have l4: "fst (add_gene_location pg_cursor [(''P1'', ''LocA''), (''P9'', ''LocB''), (''P2'', ''LocZ'')] (start example_db)) = Inr ()"
    and lw: "let unknown = filter (unknown_keys (location (database (cur ?A))) (database (cur ?A))) ?pl
       in warnings (snd (add_gene_location pg_cursor ?pl ?A)) =
            warnings ?A @
            [''The following rows were not inserted into the gene_has_location table:'' @
             [CHR 0x0A] @ ''('' @ fst (hd unknown) @ '', '' @ snd (hd unknown) @ '')'' @
             concat (map (\<lambda>y. [CHR 0x0A] @ '' '' @ ''('' @ fst y @ '', '' @ snd y @ '')'')
               (tl unknown))]"
    by blast+
  from lw have l5: "warnings (snd (add_gene_location pg_cursor [(''P1'', ''LocA''), (''P9'', ''LocB''), (''P2'', ''LocZ'')] (start example_db)))
     = [''The following rows were not inserted into the gene_has_location table:'' @
        [CHR 0x0A] @ ''(P9, LocB)'' @ [CHR 0x0A] @ '' (P2, LocZ)'']"
    unfolding l3 w0 by (simp add: Let_def)
  have g1: "fst (call_executemany pg_cursor Insert_gene_has_location
          (map pair_params [(''P2'', ''LocC''), (''P1'', ''LocA'')]) (start example_db)) = None"
    by code_simp
  have g2: "rowcount pg_cursor (cur (snd (call_executemany pg_cursor Insert_gene_has_location
          (map pair_params [(''P2'', ''LocC''), (''P1'', ''LocA'')]) (start example_db))))
     \<noteq> int (length [(''P2'', ''LocC''), (''P1'', ''LocA'')])"
    by code_simp
  have g3: "(''P2'', ''LocC'') \<in> set [(''P2'', ''LocC''), (''P1'', ''LocA'')]"
    by simp
  have g4: "\<not> unknown_keys (location (database (cur (start example_db)))) (database (cur (start example_db))) (''P2'', ''LocC'')"
    by code_simp
  have g5: "filter (\<lambda>l. snd l = ''LocC'') (location (database (cur (start example_db)))) = [(3, ''LocC'')]"
    by code_simp
  have g6: "(1, 3) \<notin> set (assembly_has_location (database (cur (start example_db))))"
    by code_simp
  have g7: "\<not> already_linked (location (database (cur (start example_db)))) (gene_has_location (database (cur (start example_db))))
       (database (cur (start example_db))) (''P2'', ''LocC'')"
    by code_simp
  have g11: "\<forall>l. (l, snd (''P2'', ''LocC'')) \<in> set (location (database (cur ?A))) \<longrightarrow>
        (1, l) \<notin> set (assembly_has_location (database (cur ?A)))"
    unfolding tables by simp
  have gp: "call_executemany pg_cursor Insert_gene_has_location (map pair_params ?pg) ?A = (None, ?C)"
    using g1 by (simp add: prod_eq_iff)
  note tg = unknown_items_are_warned_about
              [where pairs = ?pg and e = ?A and el = ?C and item = "(''P2'', ''LocC'')"]
  from tg gp g2 g3 g11 g7
  have g8: "fst (add_gene_location pg_cursor [(''P2'', ''LocC''), (''P1'', ''LocA'')] (start example_db)) = Inr ()"
    and g9: "\<exists>before after.
      warnings (snd (add_gene_location pg_cursor [(''P2'', ''LocC''), (''P1'', ''LocA'')] (start example_db))) =
        warnings (start example_db) @
        [''The following rows were not inserted into the gene_has_location table:'' @
         [CHR 0x0A] @ before @ ''('' @ fst (''P2'', ''LocC'') @ '', '' @ snd (''P2'', ''LocC'') @ '')'' @ after]"
    by blast+
  have g10: "warnings (snd (add_gene_location pg_cursor [(''P2'', ''LocC''), (''P1'', ''LocA'')] (start example_db)))
     = [''The following rows were not inserted into the gene_has_location table:'' @
        [CHR 0x0A] @ ''(P2, LocC)'']"
    by code_simp
  have t1: "fst (call_executemany pg_cursor Insert_gene_has_locus_type
          (map pair_params [(''P1'', ''protein-coding''), (''P9'', ''protein-coding''), (''P2'', ''tRNA'')]) (start example_db)) = None"
    by code_simp
  have t2: "rowcount pg_cursor (cur (snd (call_executemany pg_cursor Insert_gene_has_locus_type
          (map pair_params [(''P1'', ''protein-coding''), (''P9'', ''protein-coding''), (''P2'', ''tRNA'')]) (start example_db))))
     \<noteq> int (length [(''P1'', ''protein-coding''), (''P9'', ''protein-coding''), (''P2'', ''tRNA'')])"
    by code_simp
  have t3: "filter (unknown_keys (locus_type (database (cur (start example_db)))) (database (cur (start example_db))))
     [(''P1'', ''protein-coding''), (''P9'', ''protein-coding''), (''P2'', ''tRNA'')] = [(''P9'', ''protein-coding''), (''P2'', ''tRNA'')]"
    by code_simp
  have t7: "filter (unknown_keys (locus_type (database (cur ?A))) (database (cur ?A))) ?pt \<noteq> []"
    unfolding t3 by simp
  have tp: "call_executemany pg_cursor Insert_gene_has_locus_type (map pair_params ?pt) ?A = (None, ?D)"
    using t1 by (simp add: prod_eq_iff)
  note tt = unknown_items_are_warned_about [where pairs = ?pt and e = ?A and et = ?D]
  from tt tp t2 t7
  have t4: "fst (add_gene_locus_type pg_cursor [(''P1'', ''protein-coding''), (''P9'', ''protein-coding''), (''P2'', ''tRNA'')] (start example_db)) = Inr ()"
    and tw: "let unknown = filter (unknown_keys (locus_type (database (cur ?A))) (database (cur ?A))) ?pt
       in warnings (snd (add_gene_locus_type pg_cursor ?pt ?A)) =
            warnings ?A @
            [''The following rows were not inserted into the gene_has_locus_type table:'' @
             [CHR 0x0A] @ ''('' @ fst (hd unknown) @ '', '' @ snd (hd unknown) @ '')'' @
             concat (map (\<lambda>y. [CHR 0x0A] @ ''('' @ fst y @ '', '' @ snd y @ '')'')
               (tl unknown))]"
    by blast+
  from tw have t5: "warnings (snd (add_gene_locus_type pg_cursor [(''P1'', ''protein-coding''), (''P9'', ''protein-coding''), (''P2'', ''tRNA'')] (start example_db)))
     = [''The following rows were not inserted into the gene_has_locus_type table:'' @
        [CHR 0x0A] @ ''(P9, protein-coding)'' @ [CHR 0x0A] @ ''(P2, tRNA)'']"
    unfolding t3 w0 by (simp add: Let_def)
  have n1: "fst (link_loop pg_cursor Insert_name Insert_gene_has_name
          [(''P9'', ''orphan name'', ''alias''), (''P1'', ''hypothetical protein'', ''approved''),
           (''P8'', ''second orphan'', ''alias'')] 0 (start example_db)) = Inr 1"
    by code_simp
  have n2: "(1 :: int) \<noteq> int (length [(''P9'', ''orphan name'', ''alias''), (''P1'', ''hypothetical protein'', ''approved''),
           (''P8'', ''second orphan'', ''alias'')])"
    by simp
  have n3: "filter (\<lambda>item. fst item \<notin> snd ` set (gene (database (cur (start example_db)))))
     (map key_and_literal [(''P9'', ''orphan name'', ''alias''), (''P1'', ''hypothetical protein'', ''approved''),
           (''P8'', ''second orphan'', ''alias'')]) = [(''P9'', ''orphan name''), (''P8'', ''second orphan'')]"
    by code_simp
  have n7: "filter (\<lambda>item. fst item \<notin> snd ` set (gene (database (cur ?A))))
     (map key_and_literal ?tn) \<noteq> []"
    unfolding n3 by simp
  have np: "link_loop pg_cursor Insert_name Insert_gene_has_name ?tn 0 ?A = (Inr 1, ?N)"
    using n1 by (simp add: prod_eq_iff)
  note tn = unknown_items_are_warned_about [where triples = ?tn and e = ?A and en = ?N and cn = 1]
  from tn np n2 n7
  have n4: "fst (add_gene_name pg_cursor [(''P9'', ''orphan name'', ''alias''), (''P1'', ''hypothetical protein'', ''approved''),
           (''P8'', ''second orphan'', ''alias'')] (start example_db)) = Inr ()"
    and nw: "let unknown = filter (\<lambda>item. fst item \<notin> snd ` set (gene (database (cur ?A))))
         (map key_and_literal ?tn)
       in warnings (snd (add_gene_name pg_cursor ?tn ?A)) =
            warnings ?A @
            [''The following rows were not inserted into the gene_has_name:'' @
             [CHR 0x0A] @ ''('' @ fst (hd unknown) @ '', '' @ snd (hd unknown) @ '')'' @
             concat (map (\<lambda>y. [CHR 0x0A] @ '' '' @ ''('' @ fst y @ '', '' @ snd y @ '')'')
               (tl unknown))]"
    by blast+
  from nw have n5: "warnings (snd (add_gene_name pg_cursor [(''P9'', ''orphan name'', ''alias''), (''P1'', ''hypothetical protein'', ''approved''),
           (''P8'', ''second orphan'', ''alias'')] (start example_db)))
     = [''The following rows were not inserted into the gene_has_name:'' @
        [CHR 0x0A] @ ''(P9, orphan name)'' @ [CHR 0x0A] @ '' (P8, second orphan)'']"
    unfolding n3 w0 by (simp add: Let_def)
  have s1: "fst (link_loop pg_cursor Insert_symbol Insert_gene_has_symbol
          [(''P7'', ''ORPH1'', ''approved''), (''P2'', ''HYP2'', ''approved'')] 0 (start example_db)) = Inr 1"
    by code_simp
  have s2: "(1 :: int) \<noteq> int (length [(''P7'', ''ORPH1'', ''approved''), (''P2'', ''HYP2'', ''approved'')])"
    by simp
  have s3: "filter (\<lambda>item. fst item \<notin> snd ` set (gene (database (cur (start example_db)))))
     (map key_and_literal [(''P7'', ''ORPH1'', ''approved''), (''P2'', ''HYP2'', ''approved'')]) = [(''P7'', ''ORPH1'')]"
    by code_simp
  have s7: "filter (\<lambda>item. fst item \<notin> snd ` set (gene (database (cur ?A))))
     (map key_and_literal ?ts) \<noteq> []"
    unfolding s3 by simp
  have sp: "link_loop pg_cursor Insert_symbol Insert_gene_has_symbol ?ts 0 ?A = (Inr 1, ?S)"
    using s1 by (simp add: prod_eq_iff)
  note ts = unknown_items_are_warned_about [where triples = ?ts and e = ?A and es = ?S and cs = 1]
  from ts sp s2 s7
  have s4: "fst (add_gene_symbol pg_cursor [(''P7'', ''ORPH1'', ''approved''), (''P2'', ''HYP2'', ''approved'')] (start example_db)) = Inr ()"
    and sw: "let unknown = filter (\<lambda>item. fst item \<notin> snd ` set (gene (database (cur ?A))))
         (map key_and_literal ?ts)
       in warnings (snd (add_gene_symbol pg_cursor ?ts ?A)) =
            warnings ?A @
            [''The following rows were not inserted into the database:'' @
             [CHR 0x0A] @ ''('' @ fst (hd unknown) @ '', '' @ snd (hd unknown) @ '')'' @
             concat (map (\<lambda>y. [CHR 0x0A] @ '' '' @ ''('' @ fst y @ '', '' @ snd y @ '')'')
               (tl unknown))]"
    by blast+
  from sw have s5: "warnings (snd (add_gene_symbol pg_cursor [(''P7'', ''ORPH1'', ''approved''), (''P2'', ''HYP2'', ''approved'')] (start example_db)))
     = [''The following rows were not inserted into the database:'' @
        [CHR 0x0A] @ ''(P7, ORPH1)'']"
    unfolding s3 w0 by (simp add: Let_def)
  from l1 l2 l3 l4 l5 g1 g2 g3 g4 g5 g6 g7 g8 g9 g10 t1 t2 t3 t4 t5 n1 n2 n3 n4 n5 s1 s2 s3 s4 s5
  show ?thesis by blast
qed

text \<open>
  C3 as stated fails for a location outside assembly 1.  In the batch below only the
  item (\<^verbatim>\<open>P9\<close>, \<^verbatim>\<open>LocB\<close>) names an unknown gene; the gene and the location of
  (\<^verbatim>\<open>P1\<close>, \<^verbatim>\<open>LocC\<close>) are in the tables, but \<^verbatim>\<open>LocC\<close> is linked to assembly 2 only, so the
  insert writes no row for it, and the reconciliation pass classifies it as unsuccessful
  and lists it in the warning too.
\<close>

theorem known_item_outside_assembly_counterexample:
  "filter (unknown_keys (location example_db) example_db)
     [(''P9'', ''LocB''), (''P1'', ''LocC'')] = [(''P9'', ''LocB'')] \<and>
   \<not> unknown_keys (location example_db) example_db (''P1'', ''LocC'') \<and>
   rowcount pg_cursor (cur (snd (call_executemany pg_cursor Insert_gene_has_location
          (map pair_params [(''P9'', ''LocB''), (''P1'', ''LocC'')]) (start example_db))))
     = 0 \<and>
   fst (add_gene_location pg_cursor [(''P9'', ''LocB''), (''P1'', ''LocC'')] (start example_db))
     = Inr () \<and>
   warnings (snd (add_gene_location pg_cursor [(''P9'', ''LocB''), (''P1'', ''LocC'')]
          (start example_db)))
     = [''The following rows were not inserted into the gene_has_location table:'' @
        [CHR 0x0A] @ ''(P9, LocB)'' @ [CHR 0x0A] @ '' (P1, LocC)'']"
  by code_simp

end
